theory Spec2Isabelle
  imports Main "HOL-Library.Word"
begin

section \<open>JavaScript strings\<close>

text \<open>
  A JavaScript string is a sequence of UTF-16 code units; \<open>length\<close>, \<open>slice\<close>,
  \<open>startsWith\<close>, \<open>trim\<close> and regular expressions without the \<open>u\<close> flag all work on
  code units. \<open>str\<close> embeds an ASCII literal.
\<close>

type_synonym jschar = "16 word"
type_synonym jsstring = "jschar list"

definition str :: "string \<Rightarrow> jsstring" where
  "str s = map (\<lambda>c. of_nat (of_char c)) s"

text \<open>
  ECMAScript WhiteSpace and LineTerminator code units: what \<open>String.prototype.trim\<close>
  strips and what \<open>\s\<close> matches.
\<close>

definition isWhiteSpace :: "jschar \<Rightarrow> bool" where
  "isWhiteSpace c \<longleftrightarrow>
     c = 0x09 \<or> c = 0x0A \<or> c = 0x0B \<or> c = 0x0C \<or> c = 0x0D \<or> c = 0x20 \<or> c = 0xA0 \<or>
     c = 0x1680 \<or> (0x2000 \<le> c \<and> c \<le> 0x200A) \<or> c = 0x2028 \<or> c = 0x2029 \<or>
     c = 0x202F \<or> c = 0x205F \<or> c = 0x3000 \<or> c = 0xFEFF"

text \<open>The code units that \<open>.\<close> does not match (no \<open>s\<close> flag).\<close>

definition isLineTerminator :: "jschar \<Rightarrow> bool" where
  "isLineTerminator c \<longleftrightarrow> c = 0x0A \<or> c = 0x0D \<or> c = 0x2028 \<or> c = 0x2029"

text \<open>\<open>[A-Za-z_]\<close> and \<open>[A-Za-z0-9_]\<close>.\<close>

definition isIdentStart :: "jschar \<Rightarrow> bool" where
  "isIdentStart c \<longleftrightarrow> (0x41 \<le> c \<and> c \<le> 0x5A) \<or> (0x61 \<le> c \<and> c \<le> 0x7A) \<or> c = 0x5F"

definition isIdentChar :: "jschar \<Rightarrow> bool" where
  "isIdentChar c \<longleftrightarrow> isIdentStart c \<or> (0x30 \<le> c \<and> c \<le> 0x39)"

definition trim :: "jsstring \<Rightarrow> jsstring" where
  "trim s = rev (dropWhile isWhiteSpace (rev (dropWhile isWhiteSpace s)))"

definition startsWith :: "jsstring \<Rightarrow> jsstring \<Rightarrow> bool" where
  "startsWith s p \<longleftrightarrow> take (length p) s = p"

definition endsWith :: "jsstring \<Rightarrow> jsstring \<Rightarrow> bool" where
  "endsWith s p \<longleftrightarrow> length p \<le> length s \<and> drop (length s - length p) s = p"

text \<open>\<open>s.slice(1, -1)\<close>: from index 1 up to, not including, the last code unit.\<close>

definition slice_1_m1 :: "jsstring \<Rightarrow> jsstring" where
  "slice_1_m1 s = take (length s - 1 - 1) (drop 1 s)"

text \<open>\<open>xs.join(sep)\<close>.\<close>

fun join :: "jsstring \<Rightarrow> jsstring list \<Rightarrow> jsstring" where
  "join sep [] = []"
| "join sep [x] = x"
| "join sep (x # y # ys) = x @ sep @ join sep (y # ys)"

text \<open>
  \<open>raw.split(/\r?\n/)\<close>: the text is cut at every line feed, and a carriage return
  directly before the line feed belongs to the separator. The result is never empty.
\<close>

fun splitLines :: "jsstring \<Rightarrow> jsstring list" where
  "splitLines [] = [[]]"
| "splitLines (c # cs) =
     (if c = 0x0A then [] # splitLines cs
      else if c = 0x0D \<and> cs \<noteq> [] \<and> hd cs = 0x0A then [] # splitLines (tl cs)
      else (case splitLines cs of l # ls \<Rightarrow> (c # l) # ls | [] \<Rightarrow> [[c]]))"

section \<open>Env scrubbing (\<open>src/secrets/migrate/plan.ts\<close>)\<close>

text \<open>
  \<open>parseEnvValue\<close>: trim, then drop the first and the last code unit when the trimmed
  text starts and ends with a double quote, or starts and ends with a single quote.
\<close>

definition parseEnvValue :: "jsstring \<Rightarrow> jsstring" where
  "parseEnvValue raw =
     (let trimmed = trim raw in
      if (startsWith trimmed (str ''\"'') \<and> endsWith trimmed (str ''\"'')) \<or>
         (startsWith trimmed [0x27] \<and> endsWith trimmed [0x27])
      then slice_1_m1 trimmed
      else trimmed)"

text \<open>
  The line pattern \<open>/^\s*(?:export\s+)?([A-Za-z_][A-Za-z0-9_]*)\s*=\s*(.*)$/\<close>, as the
  backtracking matcher resolves it. \<open>matchAssign\<close> is the part from the key on:
  the key is the longest run of identifier characters (the next code unit has to be
  white space or \<open>=\<close>), and group 2 is what follows the white space after \<open>=\<close>, which
  must hold no line terminator since \<open>$\<close> is the end of the input. The optional
  \<open>export\<close> group is tried first and, when the rest fails with it, skipped.
\<close>

definition matchAssign :: "jsstring \<Rightarrow> (jsstring \<times> jsstring) option" where
  "matchAssign s =
     (if s = [] \<or> \<not> isIdentStart (hd s) then None
      else (case dropWhile isWhiteSpace (dropWhile isIdentChar s) of
              [] \<Rightarrow> None
            | e # r \<Rightarrow>
                if e \<noteq> 0x3D then None
                else (let v = dropWhile isWhiteSpace r in
                      if list_ex isLineTerminator v then None
                      else Some (takeWhile isIdentChar s, v))))"

definition matchEnvLine :: "jsstring \<Rightarrow> (jsstring \<times> jsstring) option" where
  "matchEnvLine line =
     (let s = dropWhile isWhiteSpace line;
          r = drop 6 s;
          withExport =
            (if startsWith s (str ''export'') \<and> r \<noteq> [] \<and> isWhiteSpace (hd r)
             then matchAssign (dropWhile isWhiteSpace r) else None)
      in case withExport of Some m \<Rightarrow> Some m | None \<Rightarrow> matchAssign s)"

record scrubResult =
  nextRaw :: jsstring
  removed :: nat

text \<open>The \<open>for (const line of lines)\<close> loop with its two accumulators.\<close>

fun scrubLoop ::
  "jsstring set \<Rightarrow> jsstring set \<Rightarrow> jsstring list \<Rightarrow> jsstring list \<Rightarrow> nat
   \<Rightarrow> jsstring list \<times> nat" where
  "scrubLoop migratedValues allowedEnvKeys [] nextLines n = (nextLines, n)"
| "scrubLoop migratedValues allowedEnvKeys (line # lines) nextLines n =
     (case matchEnvLine line of
        None \<Rightarrow> scrubLoop migratedValues allowedEnvKeys lines (nextLines @ [line]) n
      | Some (envKey, v) \<Rightarrow>
          if envKey \<notin> allowedEnvKeys
          then scrubLoop migratedValues allowedEnvKeys lines (nextLines @ [line]) n
          else if parseEnvValue v \<in> migratedValues
          then scrubLoop migratedValues allowedEnvKeys lines nextLines (n + 1)
          else scrubLoop migratedValues allowedEnvKeys lines (nextLines @ [line]) n)"

definition scrubEnvRaw :: "jsstring \<Rightarrow> jsstring set \<Rightarrow> jsstring set \<Rightarrow> scrubResult" where
  "scrubEnvRaw raw migratedValues allowedEnvKeys =
     (if migratedValues = {} \<or> allowedEnvKeys = {}
      then \<lparr>nextRaw = raw, removed = 0\<rparr>
      else
        (let (nextLines, n) = scrubLoop migratedValues allowedEnvKeys (splitLines raw) [] 0;
             hadTrailingNewline = endsWith raw [0x0A];
             joined = join [0x0A] nextLines
         in \<lparr>nextRaw =
               (if hadTrailingNewline \<or> length joined = 0
                then joined @ (if endsWith joined [0x0A] then [] else [0x0A])
                else joined),
             removed = n\<rparr>))"

subsection \<open>The specification's env scrub\<close>

text \<open>
  The reference behaviour in the specification's words: a line is dropped when it matches
  the pattern, its key is in the allow-list and its parsed value is one of the migrated
  values; every other line is kept as it is; the count is the number of dropped lines;
  the kept lines are joined with line feeds, a trailing line feed is kept when the
  original had one, and an empty result still ends with a line feed.

  The specification parses the value "by stripping one matched pair of surrounding single
  or double quotes; trim": the quotes are taken off the value as the pattern captured it,
  and what is left is trimmed.
\<close>

definition spec_parseValue :: "jsstring \<Rightarrow> jsstring" where
  "spec_parseValue v =
     trim (if 2 \<le> length v \<and> hd v = last v \<and> (hd v = 0x22 \<or> hd v = 0x27)
           then butlast (tl v) else v)"

text \<open>
  The same two steps in the other order: the value is trimmed, and when the trimmed text
  begins and ends with a double quote, or begins and ends with a single quote, its first
  and last code unit are taken off. Nothing is trimmed after that, and a trimmed text
  that is one quote character begins and ends with it.
\<close>

definition spec_parseValueTrimFirst :: "jsstring \<Rightarrow> jsstring" where
  "spec_parseValueTrimFirst v =
     (let t = trim v in
      if t \<noteq> [] \<and> hd t = last t \<and> (hd t = 0x22 \<or> hd t = 0x27) then butlast (tl t) else t)"

text \<open>The reference behaviour, for a given way of parsing the value.\<close>

definition spec_droppedWith ::
  "(jsstring \<Rightarrow> jsstring) \<Rightarrow> jsstring set \<Rightarrow> jsstring set \<Rightarrow> jsstring \<Rightarrow> bool" where
  "spec_droppedWith parse migratedValues allowedEnvKeys line =
     (case matchEnvLine line of
        None \<Rightarrow> False
      | Some (k, v) \<Rightarrow> k \<in> allowedEnvKeys \<and> parse v \<in> migratedValues)"

definition spec_scrubEnvWith ::
  "(jsstring \<Rightarrow> jsstring) \<Rightarrow> jsstring \<Rightarrow> jsstring set \<Rightarrow> jsstring set \<Rightarrow> scrubResult" where
  "spec_scrubEnvWith parse raw migratedValues allowedEnvKeys =
     (let ls = splitLines raw;
          kept = join [0x0A]
                   (filter (\<lambda>l. \<not> spec_droppedWith parse migratedValues allowedEnvKeys l) ls)
      in \<lparr>nextRaw =
            (if kept = [] then [0x0A]
             else if raw \<noteq> [] \<and> last raw = 0x0A \<and> last kept \<noteq> 0x0A then kept @ [0x0A]
             else kept),
          removed = length (filter (spec_droppedWith parse migratedValues allowedEnvKeys) ls)\<rparr>)"

text \<open>The env scrub of the specification: the reference behaviour with its own parser.\<close>

definition spec_scrubEnv :: "jsstring \<Rightarrow> jsstring set \<Rightarrow> jsstring set \<Rightarrow> scrubResult" where
  "spec_scrubEnv = spec_scrubEnvWith spec_parseValue"

section \<open>JSON values and thrown errors\<close>

text \<open>
  Values of type \<open>unknown\<close> that come from \<open>JSON.parse\<close> or \<open>structuredClone\<close>: trees
  without sharing. An object keeps its entries in the order \<open>Object.entries\<close> lists them;
  \<open>undefined\<close> is the \<open>None\<close> of \<open>json option\<close>. Numbers are the integers (no field
  the migration reads is a fraction).
\<close>

datatype json =
    JNull
  | JBool bool
  | JNum int
  | JStr jsstring
  | JArr "json list"
  | JObj "(jsstring \<times> json) list"

text \<open>
  A thrown \<open>Error\<close>: its \<open>name\<close>, \<open>message\<close>, the \<open>code\<close> of a Node system error and
  the \<open>cause\<close> given to the constructor.
\<close>

datatype jserror =
  JsError (err_name: jsstring) (err_message: "jsstring option") (err_code: "jsstring option")
    (err_cause: "jserror option")

text \<open>\<open>new Error(msg)\<close>, \<open>new Error(msg, { cause })\<close> and a \<open>TypeError\<close>.\<close>

definition newError :: "jsstring \<Rightarrow> jserror" where
  "newError msg = JsError (str ''Error'') (Some msg) None None"

definition newErrorCause :: "jsstring \<Rightarrow> jserror \<Rightarrow> jserror" where
  "newErrorCause msg c = JsError (str ''Error'') (Some msg) None (Some c)"

definition typeError :: "jsstring \<Rightarrow> jserror" where
  "typeError msg = JsError (str ''TypeError'') (Some msg) None None"

text \<open>\<open>String(err)\<close>, that is \<open>Error.prototype.toString\<close>.\<close>

definition errorToString :: "jserror \<Rightarrow> jsstring" where
  "errorToString e =
     (let msg = (case err_message e of None \<Rightarrow> [] | Some m \<Rightarrow> m) in
      if err_name e = [] then msg
      else if msg = [] then err_name e
      else err_name e @ str '': '' @ msg)"

subsection \<open>Property access\<close>

text \<open>\<open>x?.k\<close> for a key that no primitive or array carries: the own property of an object.\<close>

definition getProp :: "json option \<Rightarrow> jsstring \<Rightarrow> json option" where
  "getProp x k = (case x of Some (JObj kvs) \<Rightarrow> map_of kvs k | _ \<Rightarrow> None)"

text \<open>\<open>obj[k] = v\<close>: an existing key keeps its place, a new key goes last.\<close>

fun objSet :: "(jsstring \<times> json) list \<Rightarrow> jsstring \<Rightarrow> json \<Rightarrow> (jsstring \<times> json) list" where
  "objSet [] k v = [(k, v)]"
| "objSet ((k', v') # kvs) k v = (if k' = k then (k, v) # kvs else (k', v') # objSet kvs k v)"

text \<open>\<open>delete obj[k]\<close>.\<close>

definition objDelete :: "(jsstring \<times> json) list \<Rightarrow> jsstring \<Rightarrow> (jsstring \<times> json) list" where
  "objDelete kvs k = filter (\<lambda>kv. fst kv \<noteq> k) kvs"

text \<open>Truthiness, for \<open>if (!x)\<close>.\<close>

definition truthy :: "json option \<Rightarrow> bool" where
  "truthy x =
     (case x of
        None \<Rightarrow> False
      | Some JNull \<Rightarrow> False
      | Some (JBool b) \<Rightarrow> b
      | Some (JNum n) \<Rightarrow> n \<noteq> 0
      | Some (JStr s) \<Rightarrow> s \<noteq> []
      | Some _ \<Rightarrow> True)"

text \<open>
  \<open>isDeepStrictEqual\<close> of \<open>node:util\<close> on JSON values: primitives by value, arrays
  element by element, objects by their key sets and the values under each key, whatever
  the order of the keys.
\<close>

fun deepEq :: "json \<Rightarrow> json \<Rightarrow> bool"
  and deepEqArr :: "json list \<Rightarrow> json list \<Rightarrow> bool"
  and deepEqObj :: "(jsstring \<times> json) list \<Rightarrow> (jsstring \<times> json) list \<Rightarrow> bool"
  and deepEqKey :: "jsstring \<Rightarrow> json \<Rightarrow> (jsstring \<times> json) list \<Rightarrow> bool" where
  "deepEq JNull b = (b = JNull)"
| "deepEq (JBool x) b = (b = JBool x)"
| "deepEq (JNum x) b = (b = JNum x)"
| "deepEq (JStr x) b = (b = JStr x)"
| "deepEq (JArr xs) b = (case b of JArr ys \<Rightarrow> deepEqArr xs ys | _ \<Rightarrow> False)"
| "deepEq (JObj xs) b =
     (case b of JObj ys \<Rightarrow> length xs = length ys \<and> deepEqObj xs ys | _ \<Rightarrow> False)"
| "deepEqArr [] ys = (ys = [])"
| "deepEqArr (x # xs) ys = (case ys of [] \<Rightarrow> False | y # ys' \<Rightarrow> deepEq x y \<and> deepEqArr xs ys')"
| "deepEqObj [] ys = True"
| "deepEqObj ((k, v) # xs) ys = (deepEqKey k v ys \<and> deepEqObj xs ys)"
| "deepEqKey k v [] = False"
| "deepEqKey k v ((k', v') # ys) = (if k' = k then deepEq v v' else deepEqKey k v ys)"

definition isDeepStrictEqual :: "json option \<Rightarrow> json option \<Rightarrow> bool" where
  "isDeepStrictEqual a b =
     (case a of
        None \<Rightarrow> b = None
      | Some x \<Rightarrow> (case b of None \<Rightarrow> False | Some y \<Rightarrow> deepEq x y))"

subsection \<open>Helpers of \<open>shared.js\<close> and \<open>types.secrets.js\<close>\<close>

text \<open>
  Modelled from the spec: \<open>isRecord\<close> of \<open>src/secrets/shared.js\<close>, which is not among
  the sources. The specification asks for "a JSON object (not array, not scalar)".
\<close>

definition isRecord :: "json option \<Rightarrow> bool" where
  "isRecord x = (case x of Some (JObj _) \<Rightarrow> True | _ \<Rightarrow> False)"

text \<open>
  Modelled from the spec: \<open>isNonEmptyString\<close> of \<open>src/secrets/shared.js\<close>, which is not
  among the sources: "a non-empty string".
\<close>

definition isNonEmptyString :: "json option \<Rightarrow> bool" where
  "isNonEmptyString x = (case x of Some (JStr s) \<Rightarrow> s \<noteq> [] | _ \<Rightarrow> False)"

text \<open>
  Modelled from the spec: \<open>normalizePositiveInt\<close> of \<open>src/secrets/shared.js\<close>, which is
  not among the sources: the value "clamped to a positive integer", the default when
  there is no number.
\<close>

definition normalizePositiveInt :: "json option \<Rightarrow> nat \<Rightarrow> nat" where
  "normalizePositiveInt x fallback =
     (case x of Some (JNum n) \<Rightarrow> nat (max 1 n) | _ \<Rightarrow> max 1 fallback)"

text \<open>
  Modelled from the spec: \<open>isSecretRef\<close> of \<open>src/config/types.secrets.js\<close>, which is not
  among the sources: an object of exactly the fields \<open>source\<close> and \<open>id\<close>, where the
  source is \<open>env\<close> and the id matches \<open>^[A-Z][A-Z0-9_]{0,127}$\<close>, or the source is \<open>file\<close>
  and the id begins with \<open>/\<close>.
\<close>

definition isEnvId :: "jsstring \<Rightarrow> bool" where
  "isEnvId s \<longleftrightarrow>
     s \<noteq> [] \<and> length s \<le> 128 \<and> (0x41 \<le> hd s \<and> hd s \<le> 0x5A) \<and>
     list_all (\<lambda>c. (0x41 \<le> c \<and> c \<le> 0x5A) \<or> (0x30 \<le> c \<and> c \<le> 0x39) \<or> c = 0x5F) s"

definition isSecretRef :: "json option \<Rightarrow> bool" where
  "isSecretRef x =
     (case x of
        Some (JObj kvs) \<Rightarrow>
          length kvs = 2 \<and>
          (case (map_of kvs (str ''source''), map_of kvs (str ''id'')) of
             (Some (JStr src), Some (JStr i)) \<Rightarrow>
               (src = str ''env'' \<and> isEnvId i) \<or> (src = str ''file'' \<and> startsWith i (str ''/''))
           | _ \<Rightarrow> False)
      | _ \<Rightarrow> False)"

text \<open>The reference \<open>{ source: "file", id }\<close> that the migration writes.\<close>

definition fileRef :: "jsstring \<Rightarrow> json" where
  "fileRef i = JObj [(str ''source'', JStr (str ''file'')), (str ''id'', JStr i)]"

subsection \<open>JSON pointers (\<open>json-pointer.js\<close>)\<close>

text \<open>
  Modelled from the spec: \<open>encodeJsonPointerToken\<close>, \<open>readJsonPointer\<close> and
  \<open>setJsonPointer\<close> of \<open>src/secrets/json-pointer.js\<close>, which is not among the sources.
  "Implements RFC6901. Tokens are \<open>~0\<close> for \<open>~\<close> and \<open>~1\<close> for \<open>/\<close>. \<open>readJsonPointer\<close>
  returns the value at pointer or fails/returns absent. \<open>setJsonPointer\<close> creates
  intermediate objects where missing, replacing non-object intermediates is an error.
  Empty pointer addresses the root; a pointer that does not start with \<open>/\<close> and is not
  empty is rejected."
\<close>

fun encodeJsonPointerToken :: "jsstring \<Rightarrow> jsstring" where
  "encodeJsonPointerToken [] = []"
| "encodeJsonPointerToken (c # cs) =
     (if c = 0x7E then [0x7E, 0x30] @ encodeJsonPointerToken cs
      else if c = 0x2F then [0x7E, 0x31] @ encodeJsonPointerToken cs
      else c # encodeJsonPointerToken cs)"

fun decodeJsonPointerToken :: "jsstring \<Rightarrow> jsstring" where
  "decodeJsonPointerToken (a # b # cs) =
     (if a = 0x7E \<and> b = 0x30 then 0x7E # decodeJsonPointerToken cs
      else if a = 0x7E \<and> b = 0x31 then 0x2F # decodeJsonPointerToken cs
      else a # decodeJsonPointerToken (b # cs))"
| "decodeJsonPointerToken cs = cs"

text \<open>The text cut at every \<open>/\<close>.\<close>

fun splitSlash :: "jsstring \<Rightarrow> jsstring list" where
  "splitSlash [] = [[]]"
| "splitSlash (c # cs) =
     (if c = 0x2F then [] # splitSlash cs
      else (case splitSlash cs of t # ts \<Rightarrow> (c # t) # ts | [] \<Rightarrow> [[c]]))"

definition parseJsonPointer :: "jsstring \<Rightarrow> jserror + jsstring list" where
  "parseJsonPointer pointer =
     (case pointer of
        [] \<Rightarrow> Inr []
      | c # cs \<Rightarrow>
          if c = 0x2F then Inr (map decodeJsonPointerToken (splitSlash cs))
          else Inl (newError (str ''Invalid JSON pointer: '' @ pointer)))"

text \<open>An array index of RFC6901: \<open>0\<close>, or digits without a leading zero.\<close>

definition parseArrayIndex :: "jsstring \<Rightarrow> nat option" where
  "parseArrayIndex t =
     (if t = [] \<or> \<not> list_all (\<lambda>c. 0x30 \<le> c \<and> c \<le> 0x39) t \<or> (hd t = 0x30 \<and> length t > 1)
      then None
      else Some (foldl (\<lambda>n c. 10 * n + (unat c - 48)) 0 t))"

fun readTokens :: "json \<Rightarrow> jsstring list \<Rightarrow> json option" where
  "readTokens cur [] = Some cur"
| "readTokens cur (t # ts) =
     (case cur of
        JObj kvs \<Rightarrow> (case map_of kvs t of None \<Rightarrow> None | Some v \<Rightarrow> readTokens v ts)
      | JArr xs \<Rightarrow>
          (case parseArrayIndex t of
             None \<Rightarrow> None
           | Some i \<Rightarrow> if i < length xs then readTokens (xs ! i) ts else None)
      | _ \<Rightarrow> None)"

datatype onMissing = Throw | Undefined

definition readJsonPointerRaw :: "json \<Rightarrow> jsstring \<Rightarrow> onMissing \<Rightarrow> jserror + json option" where
  "readJsonPointerRaw root pointer mode =
     (case parseJsonPointer pointer of
        Inl e \<Rightarrow> Inl e
      | Inr tokens \<Rightarrow>
          (case readTokens root tokens of
             Some v \<Rightarrow> Inr (Some v)
           | None \<Rightarrow>
               (case mode of
                  Undefined \<Rightarrow> Inr None
                | Throw \<Rightarrow> Inl (newError (str ''JSON pointer not found: '' @ pointer)))))"

fun setTokens ::
  "(jsstring \<times> json) list \<Rightarrow> jsstring list \<Rightarrow> json \<Rightarrow> jserror + (jsstring \<times> json) list" where
  "setTokens kvs [] v = Inl (newError (str ''Cannot set the root of a JSON document''))"
| "setTokens kvs [t] v = Inr (objSet kvs t v)"
| "setTokens kvs (t # u # ts) v =
     (case map_of kvs t of
        None \<Rightarrow>
          (case setTokens [] (u # ts) v of
             Inl e \<Rightarrow> Inl e
           | Inr sub \<Rightarrow> Inr (objSet kvs t (JObj sub)))
      | Some (JObj sub0) \<Rightarrow>
          (case setTokens sub0 (u # ts) v of
             Inl e \<Rightarrow> Inl e
           | Inr sub \<Rightarrow> Inr (objSet kvs t (JObj sub)))
      | Some _ \<Rightarrow> Inl (newError (str ''JSON pointer crosses a value that is not an object'')))"

definition setJsonPointer :: "json \<Rightarrow> jsstring \<Rightarrow> json \<Rightarrow> jserror + json" where
  "setJsonPointer root pointer v =
     (case parseJsonPointer pointer of
        Inl e \<Rightarrow> Inl e
      | Inr tokens \<Rightarrow>
          (case root of
             JObj kvs \<Rightarrow> (case setTokens kvs tokens v of Inl e \<Rightarrow> Inl e | Inr kvs' \<Rightarrow> Inr (JObj kvs'))
           | _ \<Rightarrow> Inl (newError (str ''JSON pointer crosses a value that is not an object''))))"

section \<open>Per-site migration (\<open>src/secrets/migrate/plan.ts\<close>)\<close>

record counters =
  configRefs :: nat
  authProfileRefs :: nat
  plaintextRemoved :: nat
  secretsWritten :: nat
  envEntriesRemoved :: nat
  authStoresChanged :: nat

text \<open>
  What the migration functions mutate through their \<open>params\<close>: the payload, the counters
  and the set of migrated values. The config and the auth stores are deep clones, so the
  in-place updates of the source are returned as new values.
\<close>

record mstate =
  st_payload :: json
  st_counters :: counters
  st_migratedValues :: "jsstring set"

definition bumpSecretsWritten :: "mstate \<Rightarrow> mstate" where
  "bumpSecretsWritten st =
     st\<lparr>st_counters := (st_counters st)\<lparr>secretsWritten := secretsWritten (st_counters st) + 1\<rparr>\<rparr>"

definition bumpConfigRefs :: "mstate \<Rightarrow> mstate" where
  "bumpConfigRefs st =
     st\<lparr>st_counters := (st_counters st)\<lparr>configRefs := configRefs (st_counters st) + 1\<rparr>\<rparr>"

definition bumpAuthProfileRefs :: "mstate \<Rightarrow> mstate" where
  "bumpAuthProfileRefs st =
     st\<lparr>st_counters := (st_counters st)\<lparr>authProfileRefs := authProfileRefs (st_counters st) + 1\<rparr>\<rparr>"

definition bumpPlaintextRemoved :: "mstate \<Rightarrow> mstate" where
  "bumpPlaintextRemoved st =
     st\<lparr>st_counters := (st_counters st)\<lparr>plaintextRemoved := plaintextRemoved (st_counters st) + 1\<rparr>\<rparr>"

definition addMigratedValue :: "jsstring \<Rightarrow> mstate \<Rightarrow> mstate" where
  "addMigratedValue v st = st\<lparr>st_migratedValues := insert v (st_migratedValues st)\<rparr>"

text \<open>The local \<open>readJsonPointer\<close> of \<open>plan.ts\<close>: a missing pointer reads as \<open>undefined\<close>.\<close>

definition readJsonPointer :: "json \<Rightarrow> jsstring \<Rightarrow> jserror + json option" where
  "readJsonPointer root pointer = readJsonPointerRaw root pointer Undefined"

text \<open>
  The fragment every site repeats:
  \<^verbatim>\<open>const existing = readJsonPointer(params.payload, id);
  if (!isDeepStrictEqual(existing, value)) {
    setJsonPointer(params.payload, id, value);
    params.counters.secretsWritten += 1;
  }\<close>
\<close>

definition writeSecret :: "jsstring \<Rightarrow> json \<Rightarrow> mstate \<Rightarrow> jserror + mstate" where
  "writeSecret i v st =
     (case readJsonPointer (st_payload st) i of
        Inl e \<Rightarrow> Inl e
      | Inr existing \<Rightarrow>
          if \<not> isDeepStrictEqual existing (Some v)
          then (case setJsonPointer (st_payload st) i v of
                  Inl e \<Rightarrow> Inl e
                | Inr p \<Rightarrow> Inr (bumpSecretsWritten (st\<lparr>st_payload := p\<rparr>)))
          else Inr st)"

subsection \<open>Model providers and skill entries\<close>

definition providerPointer :: "jsstring \<Rightarrow> jsstring" where
  "providerPointer providerId =
     str ''/providers/'' @ encodeJsonPointerToken providerId @ str ''/apiKey''"

definition skillPointer :: "jsstring \<Rightarrow> jsstring" where
  "skillPointer skillKey =
     str ''/skills/entries/'' @ encodeJsonPointerToken skillKey @ str ''/apiKey''"

text \<open>
  One round of the loop of \<open>migrateModelProviderSecrets\<close>. The provider is an object by
  the config's type; reading \<open>apiKey\<close> of \<open>null\<close> throws, and of any other value gives
  \<open>undefined\<close>.
\<close>

definition migrateProvider :: "jsstring \<Rightarrow> json \<Rightarrow> mstate \<Rightarrow> jserror + json \<times> mstate" where
  "migrateProvider providerId provider st =
     (case provider of
        JNull \<Rightarrow> Inl (typeError (str ''Cannot read properties of null (reading apiKey)''))
      | JObj kvs \<Rightarrow>
          (let apiKey = map_of kvs (str ''apiKey'') in
           if isSecretRef apiKey then Inr (provider, st)
           else if \<not> isNonEmptyString apiKey then Inr (provider, st)
           else (case apiKey of
                   Some (JStr s) \<Rightarrow>
                     (let v = trim s; i = providerPointer providerId in
                      case writeSecret i (JStr v) st of
                        Inl e \<Rightarrow> Inl e
                      | Inr st' \<Rightarrow>
                          Inr (JObj (objSet kvs (str ''apiKey'') (fileRef i)),
                               addMigratedValue v (bumpConfigRefs st')))
                 | _ \<Rightarrow> Inr (provider, st)))
      | _ \<Rightarrow> Inr (provider, st))"

text \<open>One round of the loop of \<open>migrateSkillEntrySecrets\<close>.\<close>

definition migrateSkillEntry :: "jsstring \<Rightarrow> json \<Rightarrow> mstate \<Rightarrow> jserror + json \<times> mstate" where
  "migrateSkillEntry skillKey entry st =
     (case entry of
        JObj kvs \<Rightarrow>
          (let apiKey = map_of kvs (str ''apiKey'') in
           if \<not> isRecord (Some entry) \<or> isSecretRef apiKey then Inr (entry, st)
           else if \<not> isNonEmptyString apiKey then Inr (entry, st)
           else (case apiKey of
                   Some (JStr s) \<Rightarrow>
                     (let v = trim s; i = skillPointer skillKey in
                      case writeSecret i (JStr v) st of
                        Inl e \<Rightarrow> Inl e
                      | Inr st' \<Rightarrow>
                          Inr (JObj (objSet kvs (str ''apiKey'') (fileRef i)),
                               addMigratedValue v (bumpConfigRefs st')))
                 | _ \<Rightarrow> Inr (entry, st)))
      | _ \<Rightarrow> Inr (entry, st))"

text \<open>
  \<open>for (const [key, value] of Object.entries(obj))\<close> with a body that updates the value
  in place and may throw: the entries in order, the state threaded through.
\<close>

fun forEntries ::
  "(jsstring \<Rightarrow> json \<Rightarrow> 's \<Rightarrow> jserror + json \<times> 's) \<Rightarrow> (jsstring \<times> json) list \<Rightarrow> 's
   \<Rightarrow> jserror + (jsstring \<times> json) list \<times> 's" where
  "forEntries body [] st = Inr ([], st)"
| "forEntries body ((k, x) # es) st =
     (case body k x st of
        Inl e \<Rightarrow> Inl e
      | Inr (x', st') \<Rightarrow>
          (case forEntries body es st' of
             Inl e \<Rightarrow> Inl e
           | Inr (es', st'') \<Rightarrow> Inr ((k, x') # es', st'')))"

text \<open>
  Writing an updated member back at a path of keys that exists: the effect, on the
  enclosing tree, of having mutated the member in place.
\<close>

fun putPath :: "json \<Rightarrow> jsstring list \<Rightarrow> json \<Rightarrow> json" where
  "putPath j [] v = v"
| "putPath (JObj kvs) (k # ks) v =
     JObj (objSet kvs k (putPath (case map_of kvs k of Some c \<Rightarrow> c | None \<Rightarrow> JObj []) ks v))"
| "putPath j (k # ks) v = j"

text \<open>
  \<open>migrateModelProviderSecrets\<close>. \<open>providers\<close> is a record by the config's type
  (\<open>Record<string, { apiKey?: unknown }>\<close>), which the validated config satisfies.
\<close>

definition migrateModelProviderSecrets :: "json \<Rightarrow> mstate \<Rightarrow> jserror + json \<times> mstate" where
  "migrateModelProviderSecrets config st =
     (let providers = getProp (getProp (Some config) (str ''models'')) (str ''providers'') in
      if \<not> truthy providers then Inr (config, st)
      else (case providers of
              Some (JObj es) \<Rightarrow>
                (case forEntries migrateProvider es st of
                   Inl e \<Rightarrow> Inl e
                 | Inr (es', st') \<Rightarrow>
                     Inr (putPath config [str ''models'', str ''providers''] (JObj es'), st'))
            | _ \<Rightarrow> Inr (config, st)))"

definition migrateSkillEntrySecrets :: "json \<Rightarrow> mstate \<Rightarrow> jserror + json \<times> mstate" where
  "migrateSkillEntrySecrets config st =
     (let entries = getProp (getProp (Some config) (str ''skills'')) (str ''entries'') in
      if \<not> truthy entries then Inr (config, st)
      else (case entries of
              Some (JObj es) \<Rightarrow>
                (case forEntries migrateSkillEntry es st of
                   Inl e \<Rightarrow> Inl e
                 | Inr (es', st') \<Rightarrow>
                     Inr (putPath config [str ''skills'', str ''entries''] (JObj es'), st'))
            | _ \<Rightarrow> Inr (config, st)))"

subsection \<open>Google Chat\<close>

text \<open>\<open>Object.keys(value).length > 0\<close> for a record.\<close>

definition hasKeys :: "json option \<Rightarrow> bool" where
  "hasKeys x = (case x of Some (JObj kvs) \<Rightarrow> length kvs > 0 | _ \<Rightarrow> False)"

text \<open>
  \<open>migrateGoogleChatServiceAccount\<close>. Its parameters are the account, the pointer, the
  counters and the payload: the set of migrated values is not among them, and the state
  goes through it unchanged. \<open>structuredClone\<close> of a tree is the tree.
\<close>

definition migrateGoogleChatServiceAccount ::
  "(jsstring \<times> json) list \<Rightarrow> jsstring \<Rightarrow> mstate \<Rightarrow> jserror + (jsstring \<times> json) list \<times> mstate" where
  "migrateGoogleChatServiceAccount account pointerId st =
     (let serviceAccount = map_of account (str ''serviceAccount'');
          explicitRef = isSecretRef (map_of account (str ''serviceAccountRef''));
          inlineRef = isSecretRef serviceAccount
      in
      if explicitRef \<or> inlineRef
      then (if serviceAccount \<noteq> None \<and> \<not> isSecretRef serviceAccount
            then Inr (objDelete account (str ''serviceAccount''), bumpPlaintextRemoved st)
            else Inr (account, st))
      else
        (let hasStringValue = isNonEmptyString serviceAccount;
             hasObjectValue = (isRecord serviceAccount \<and> hasKeys serviceAccount)
         in
         if \<not> hasStringValue \<and> \<not> hasObjectValue then Inr (account, st)
         else (case serviceAccount of
                 None \<Rightarrow> Inr (account, st)
               | Some v \<Rightarrow>
                   (let i = pointerId @ str ''/serviceAccount'';
                        normalizedValue = (case v of JStr s \<Rightarrow> JStr (trim s) | _ \<Rightarrow> v)
                    in
                    case writeSecret i normalizedValue st of
                      Inl e \<Rightarrow> Inl e
                    | Inr st' \<Rightarrow>
                        Inr (objDelete (objSet account (str ''serviceAccountRef'') (fileRef i))
                               (str ''serviceAccount''),
                             bumpConfigRefs st')))))"

definition googleChatAccountPointer :: "jsstring \<Rightarrow> jsstring" where
  "googleChatAccountPointer accountId =
     str ''/channels/googlechat/accounts/'' @ encodeJsonPointerToken accountId"

text \<open>One round of the loop over \<open>googlechat.accounts\<close>.\<close>

definition migrateGoogleChatAccount :: "jsstring \<Rightarrow> json \<Rightarrow> mstate \<Rightarrow> jserror + json \<times> mstate" where
  "migrateGoogleChatAccount accountId accountValue st =
     (case accountValue of
        JObj account \<Rightarrow>
          (case migrateGoogleChatServiceAccount account (googleChatAccountPointer accountId) st of
             Inl e \<Rightarrow> Inl e
           | Inr (account', st') \<Rightarrow> Inr (JObj account', st'))
      | _ \<Rightarrow> Inr (accountValue, st))"

definition migrateGoogleChatSecrets :: "json \<Rightarrow> mstate \<Rightarrow> jserror + json \<times> mstate" where
  "migrateGoogleChatSecrets config st =
     (case getProp (getProp (Some config) (str ''channels'')) (str ''googlechat'') of
        Some (JObj googlechat) \<Rightarrow>
          (case migrateGoogleChatServiceAccount googlechat (str ''/channels/googlechat'') st of
             Inl e \<Rightarrow> Inl e
           | Inr (googlechat', st') \<Rightarrow>
               (case map_of googlechat' (str ''accounts'') of
                  Some (JObj accounts) \<Rightarrow>
                    (case forEntries migrateGoogleChatAccount accounts st' of
                       Inl e \<Rightarrow> Inl e
                     | Inr (accounts', st'') \<Rightarrow>
                         Inr (putPath config [str ''channels'', str ''googlechat'']
                                (JObj (objSet googlechat' (str ''accounts'') (JObj accounts'))),
                              st''))
                | _ \<Rightarrow>
                    Inr (putPath config [str ''channels'', str ''googlechat''] (JObj googlechat'),
                         st')))
      | _ \<Rightarrow> Inr (config, st))"

subsection \<open>Auth-profile stores\<close>

definition authProfilePointer :: "jsstring \<Rightarrow> jsstring \<Rightarrow> jsstring \<Rightarrow> jsstring" where
  "authProfilePointer scope profileId field =
     str ''/auth-profiles/'' @ encodeJsonPointerToken scope @ str ''/'' @
     encodeJsonPointerToken profileId @ str ''/'' @ field"

text \<open>
  The body of the \<open>api_key\<close> branch, and of the \<open>token\<close> branch with \<open>token\<close> and
  \<open>tokenRef\<close> for \<open>key\<close> and \<open>keyRef\<close>: the two branches differ in these names only. The
  state carries the \<open>changed\<close> flag of the loop.
\<close>

definition migrateProfileField ::
  "jsstring \<Rightarrow> jsstring \<Rightarrow> jsstring \<Rightarrow> jsstring \<Rightarrow> (jsstring \<times> json) list \<Rightarrow> bool \<times> mstate
   \<Rightarrow> jserror + (jsstring \<times> json) list \<times> bool \<times> mstate" where
  "migrateProfileField field refField scope profileId profileValue cst =
     (let changed = fst cst; st = snd cst;
          keyRef = isSecretRef (map_of profileValue refField);
          key = (if isNonEmptyString (map_of profileValue field)
                 then (case map_of profileValue field of Some (JStr s) \<Rightarrow> trim s | _ \<Rightarrow> [])
                 else [])
      in
      if keyRef
      then (if key \<noteq> []
            then Inr (objDelete profileValue field, True, bumpPlaintextRemoved st)
            else Inr (profileValue, changed, st))
      else if key = [] then Inr (profileValue, changed, st)
      else
        (let i = authProfilePointer scope profileId field in
         case writeSecret i (JStr key) st of
           Inl e \<Rightarrow> Inl e
         | Inr st' \<Rightarrow>
             Inr (objDelete (objSet profileValue refField (fileRef i)) field,
                  True,
                  addMigratedValue key (bumpAuthProfileRefs st'))))"

text \<open>One round of the loop of \<open>migrateAuthStoreSecrets\<close>.\<close>

definition migrateProfile ::
  "jsstring \<Rightarrow> jsstring \<Rightarrow> json \<Rightarrow> bool \<times> mstate \<Rightarrow> jserror + json \<times> bool \<times> mstate" where
  "migrateProfile scope profileId profileValue cst =
     (case profileValue of
        JObj pv \<Rightarrow>
          if map_of pv (str ''type'') = Some (JStr (str ''api_key''))
          then (case migrateProfileField (str ''key'') (str ''keyRef'') scope profileId pv cst of
                  Inl e \<Rightarrow> Inl e
                | Inr (pv', cst') \<Rightarrow> Inr (JObj pv', cst'))
          else if map_of pv (str ''type'') = Some (JStr (str ''token''))
          then (case migrateProfileField (str ''token'') (str ''tokenRef'') scope profileId pv cst of
                  Inl e \<Rightarrow> Inl e
                | Inr (pv', cst') \<Rightarrow> Inr (JObj pv', cst'))
          else Inr (profileValue, cst)
      | _ \<Rightarrow> Inr (profileValue, cst))"

text \<open>\<open>migrateAuthStoreSecrets\<close>: the updated store, the \<open>changed\<close> flag and the state.\<close>

definition migrateAuthStoreSecrets ::
  "(jsstring \<times> json) list \<Rightarrow> jsstring \<Rightarrow> mstate
   \<Rightarrow> jserror + (jsstring \<times> json) list \<times> bool \<times> mstate" where
  "migrateAuthStoreSecrets store scope st =
     (case map_of store (str ''profiles'') of
        Some (JObj profiles) \<Rightarrow>
          (case forEntries (migrateProfile scope) profiles (False, st) of
             Inl e \<Rightarrow> Inl e
           | Inr (profiles', changed, st') \<Rightarrow>
               Inr (objSet store (str ''profiles'') (JObj profiles'), changed, st'))
      | _ \<Rightarrow> Inr (store, False, st))"

section \<open>The sops driver: decrypt (\<open>src/secrets/sops.ts\<close>)\<close>

definition DEFAULT_SOPS_TIMEOUT_MS :: nat where
  "DEFAULT_SOPS_TIMEOUT_MS = 5000"

definition MAX_SOPS_OUTPUT_BYTES :: nat where
  "MAX_SOPS_OUTPUT_BYTES = 10 * 1024 * 1024"

definition normalizeTimeoutMs :: "int option \<Rightarrow> nat" where
  "normalizeTimeoutMs v = normalizePositiveInt (map_option JNum v) DEFAULT_SOPS_TIMEOUT_MS"

text \<open>
  \<open>s.toLowerCase()\<close>, on the code units whose lower case holds an ASCII code unit: the
  capital letters, the Kelvin sign and the dotted capital I (which becomes \<open>i\<close> and a
  combining dot). Every other code unit is kept; its lower case lies outside ASCII, so it
  cannot change where an ASCII text occurs.
\<close>

fun toLowerCase :: "jsstring \<Rightarrow> jsstring" where
  "toLowerCase [] = []"
| "toLowerCase (c # cs) =
     (if 0x41 \<le> c \<and> c \<le> 0x5A then (c + 0x20) # toLowerCase cs
      else if c = 0x212A then 0x6B # toLowerCase cs
      else if c = 0x0130 then 0x69 # 0x0307 # toLowerCase cs
      else c # toLowerCase cs)"

text \<open>\<open>s.includes(p)\<close>.\<close>

definition includesStr :: "jsstring \<Rightarrow> jsstring \<Rightarrow> bool" where
  "includesStr s p = list_ex (\<lambda>i. take (length p) (drop i s) = p) [0..<Suc (length s)]"

definition isTimeoutError :: "jsstring option \<Rightarrow> bool" where
  "isTimeoutError message =
     (case message of None \<Rightarrow> False | Some m \<Rightarrow> includesStr (toLowerCase m) (str ''timed out''))"

text \<open>A whole number below \<open>10^21\<close> inside a template literal: its decimal digits.\<close>

function showNat :: "nat \<Rightarrow> jsstring" where
  "showNat n =
     (if n < 10 then [of_nat (48 + n)] else showNat (n div 10) @ [of_nat (48 + n mod 10)])"
  by pat_completeness auto
termination
  by (relation "measure id") auto

declare showNat.simps [simp del]

record sopsErrorContext =
  missingBinaryMessage :: jsstring
  operationLabel :: jsstring

definition toSopsError :: "jserror \<Rightarrow> sopsErrorContext \<Rightarrow> jserror" where
  "toSopsError err params =
     (if err_code err = Some (str ''ENOENT'')
      then newErrorCause (missingBinaryMessage params) err
      else newErrorCause
             (operationLabel params @ str '': '' @
              (case err_message err of Some m \<Rightarrow> m | None \<Rightarrow> errorToString err))
             err)"

text \<open>
  The subprocess runner \<open>runExec(cmd, args, { timeoutMs, maxBuffer })\<close> is outside the
  sources: it is a parameter that gives the standard output or the thrown error.
  \<open>JSON.parse\<close> is a parameter in the same way.
\<close>

type_synonym runExec = "jsstring \<Rightarrow> jsstring list \<Rightarrow> nat \<Rightarrow> nat \<Rightarrow> jserror + jsstring"
type_synonym jsonParse = "jsstring \<Rightarrow> jserror + json"

record decryptParams =
  dp_path :: jsstring
  dp_timeoutMs :: "int option"
  dp_missingBinaryMessage :: jsstring
  dp_configPath :: "jsstring option"

text \<open>The \<open>--config\<close> pair, given when \<open>configPath\<close> is a string that is not blank.\<close>

definition configArgs :: "jsstring option \<Rightarrow> jsstring list" where
  "configArgs configPath =
     (case configPath of
        Some cp \<Rightarrow> if length (trim cp) > 0 then [str ''--config'', cp] else []
      | None \<Rightarrow> [])"

definition decryptSopsJsonFile :: "runExec \<Rightarrow> jsonParse \<Rightarrow> decryptParams \<Rightarrow> jserror + json" where
  "decryptSopsJsonFile runExec jsonParse params =
     (let timeoutMs = normalizeTimeoutMs (dp_timeoutMs params);
          args = configArgs (dp_configPath params) @
                 [str ''--decrypt'', str ''--output-type'', str ''json'', dp_path params];
          attempt =
            (case runExec (str ''sops'') args timeoutMs MAX_SOPS_OUTPUT_BYTES of
               Inl e \<Rightarrow> Inl e
             | Inr stdout \<Rightarrow> jsonParse stdout)
      in case attempt of
           Inr v \<Rightarrow> Inr v
         | Inl err \<Rightarrow>
             if isTimeoutError (err_message err)
             then Inl (newErrorCause
                         (str ''sops decrypt timed out after '' @ showNat timeoutMs @
                          str ''ms for '' @ dp_path params @ str ''.'')
                         err)
             else Inl (toSopsError err
                         \<lparr>missingBinaryMessage = dp_missingBinaryMessage params,
                          operationLabel = str ''sops decrypt failed for '' @ dp_path params\<rparr>))"

section \<open>Planning (\<open>buildMigrationPlan\<close>)\<close>

text \<open>
  A file as planning finds it: absent, present but failing to read, or its text.
\<close>

datatype fileState = Absent | Unreadable jserror | File jsstring

text \<open>
  What planning reads from outside: the arguments \<open>env\<close> and \<open>scrubEnv\<close>, the config
  snapshot of the config IO, the file system, and the results of the helpers that are
  not among the sources (\<open>resolveStateDir\<close>, \<open>resolveConfigDir\<close>, \<open>resolveUserPath\<close>,
  \<open>path.join\<close>, \<open>collectAuthStorePaths\<close>, which returns the members of a \<open>Set\<close>,
  \<open>deriveAuthStoreScope\<close> with its SHA-1 digest, \<open>listKnownSecretEnvVarNames\<close>).
\<close>

record planEnv =
  pe_env :: "jsstring \<Rightarrow> jsstring option"
  pe_scrubEnv :: bool
  pe_snapshotValid :: bool
  pe_snapshotIssues :: "(jsstring \<times> jsstring) list"
  pe_snapshotConfig :: json
  pe_configPath :: jsstring
  pe_stateDir :: jsstring
  pe_configDir :: jsstring
  pe_resolveUserPath :: "jsstring \<Rightarrow> jsstring"
  pe_pathJoin :: "jsstring list \<Rightarrow> jsstring"
  pe_fs :: "jsstring \<Rightarrow> fileState"
  pe_runExec :: runExec
  pe_jsonParse :: jsonParse
  pe_authStorePaths :: "jsstring list"
  pe_authStoreScope :: "jsstring \<Rightarrow> jsstring"
  pe_knownSecretEnvVarNames :: "jsstring list"

definition existsSync :: "planEnv \<Rightarrow> jsstring \<Rightarrow> bool" where
  "existsSync pe p = (pe_fs pe p \<noteq> Absent)"

definition readFileSync :: "planEnv \<Rightarrow> jsstring \<Rightarrow> jserror + jsstring" where
  "readFileSync pe p =
     (case pe_fs pe p of
        File raw \<Rightarrow> Inr raw
      | Unreadable e \<Rightarrow> Inl e
      | Absent \<Rightarrow>
          Inl (JsError (str ''Error'') (Some (str ''ENOENT: no such file or directory''))
                 (Some (str ''ENOENT'')) None))"

definition DEFAULT_SECRETS_FILE_PATH :: jsstring where
  "DEFAULT_SECRETS_FILE_PATH = str ''~/.openclaw/secrets.enc.json''"

text \<open>\<open>env.NAME?.trim()\<close> as a condition: set, and not blank.\<close>

definition envSet :: "planEnv \<Rightarrow> jsstring \<Rightarrow> bool" where
  "envSet pe name = (case pe_env pe name of Some v \<Rightarrow> trim v \<noteq> [] | None \<Rightarrow> False)"

definition resolveDefaultSecretsConfigPath :: "planEnv \<Rightarrow> jsstring" where
  "resolveDefaultSecretsConfigPath pe =
     (if envSet pe (str ''OPENCLAW_STATE_DIR'') \<or> envSet pe (str ''CLAWDBOT_STATE_DIR'')
      then pe_pathJoin pe [pe_stateDir pe, str ''secrets.enc.json'']
      else DEFAULT_SECRETS_FILE_PATH)"

record fileSource =
  fs_path :: jsstring
  fs_timeoutMs :: nat
  hadConfiguredSource :: bool

text \<open>\<open>config.secrets?.sources?.file\<close>.\<close>

definition configFileSource :: "json \<Rightarrow> json option" where
  "configFileSource config =
     getProp (getProp (getProp (Some config) (str ''secrets'')) (str ''sources'')) (str ''file'')"

definition resolveFileSource :: "planEnv \<Rightarrow> json \<Rightarrow> fileSource" where
  "resolveFileSource pe config =
     (let source = configFileSource config in
      if truthy source \<and> getProp source (str ''type'') = Some (JStr (str ''sops'')) \<and>
         isNonEmptyString (getProp source (str ''path''))
      then \<lparr>fs_path =
              pe_resolveUserPath pe
                (case getProp source (str ''path'') of Some (JStr p) \<Rightarrow> p | _ \<Rightarrow> []),
            fs_timeoutMs =
              normalizePositiveInt (getProp source (str ''timeoutMs'')) DEFAULT_SOPS_TIMEOUT_MS,
            hadConfiguredSource = True\<rparr>
      else \<lparr>fs_path = pe_resolveUserPath pe (resolveDefaultSecretsConfigPath pe),
            fs_timeoutMs = DEFAULT_SOPS_TIMEOUT_MS,
            hadConfiguredSource = False\<rparr>)"


definition migrateMissingBinaryMessage :: jsstring where
  "migrateMissingBinaryMessage =
     str ''sops binary not found in PATH. Install sops >= 3.9.0 to run secrets migrate.''"

definition notObjectMessage :: jsstring where
  "notObjectMessage = str ''sops decrypt failed: decrypted payload is not a JSON object''"

definition decryptSopsJson ::
  "planEnv \<Rightarrow> jsstring \<Rightarrow> nat \<Rightarrow> jsstring option \<Rightarrow> jserror + json" where
  "decryptSopsJson pe pathname timeoutMs sopsConfigPath =
     (if \<not> existsSync pe pathname then Inr (JObj [])
      else (case decryptSopsJsonFile (pe_runExec pe) (pe_jsonParse pe)
                   \<lparr>dp_path = pathname, dp_timeoutMs = Some (int timeoutMs),
                    dp_missingBinaryMessage = migrateMissingBinaryMessage,
                    dp_configPath = sopsConfigPath\<rparr> of
              Inl e \<Rightarrow> Inl e
            | Inr parsed \<Rightarrow>
                if \<not> isRecord (Some parsed) then Inl (newError notObjectMessage)
                else Inr parsed))"

definition resolveExistingSopsConfigPath :: "planEnv \<Rightarrow> jsstring option" where
  "resolveExistingSopsConfigPath pe =
     (case filter (existsSync pe)
             (map (\<lambda>name. pe_pathJoin pe [pe_configDir pe, name])
                [str ''.sops.yaml'', str ''.sops.yml'']) of
        [] \<Rightarrow> None
      | candidate # _ \<Rightarrow> Some candidate)"

record authStoreChange =
  asc_path :: jsstring
  asc_nextStore :: json

record envChange =
  ec_path :: jsstring
  ec_nextRaw :: jsstring

text \<open>
  \<open>MigrationPlan\<close> of \<open>types.ts\<close>; \<open>configWriteOptions\<close>, which planning passes on from
  the config IO untouched, is left out.
\<close>

record migrationPlan =
  changed :: bool
  counters :: counters
  stateDir :: jsstring
  configChanged :: bool
  nextConfig :: json
  authStoreChanges :: "authStoreChange list"
  payloadChanged :: bool
  nextPayload :: json
  secretsFilePath :: jsstring
  secretsFileTimeoutMs :: nat
  sopsConfigPath :: "jsstring option"
  envChange :: "envChange option"
  backupTargets :: "jsstring list"

definition zeroCounters :: counters where
  "zeroCounters =
     \<lparr>configRefs = 0, authProfileRefs = 0, plaintextRemoved = 0, secretsWritten = 0,
      envEntriesRemoved = 0, authStoresChanged = 0\<rparr>"

text \<open>
  One round of the loop over \<open>collectAuthStorePaths(...)\<close>: a path that does not exist, a
  text that \<open>JSON.parse\<close> rejects and a value that is not a record are passed over with
  \<open>continue\<close>; a store is pushed when \<open>migrateAuthStoreSecrets\<close> changed it.
\<close>

definition authStoreStep ::
  "planEnv \<Rightarrow> jsstring \<Rightarrow> authStoreChange list \<times> mstate
   \<Rightarrow> jserror + authStoreChange list \<times> mstate" where
  "authStoreStep pe authStorePath acc =
     (if \<not> existsSync pe authStorePath then Inr acc
      else (case readFileSync pe authStorePath of
              Inl e \<Rightarrow> Inl e
            | Inr raw \<Rightarrow>
                (case pe_jsonParse pe raw of
                   Inl _ \<Rightarrow> Inr acc
                 | Inr parsed \<Rightarrow>
                     (case parsed of
                        JObj nextStore \<Rightarrow>
                          (case migrateAuthStoreSecrets nextStore
                                  (pe_authStoreScope pe authStorePath) (snd acc) of
                             Inl e \<Rightarrow> Inl e
                           | Inr (nextStore', storeChanged, st') \<Rightarrow>
                               if \<not> storeChanged then Inr (fst acc, st')
                               else Inr (fst acc @
                                           [\<lparr>asc_path = authStorePath,
                                             asc_nextStore = JObj nextStore'\<rparr>],
                                         st'))
                      | _ \<Rightarrow> Inr acc))))"

fun authStoreLoop ::
  "planEnv \<Rightarrow> jsstring list \<Rightarrow> authStoreChange list \<times> mstate
   \<Rightarrow> jserror + authStoreChange list \<times> mstate" where
  "authStoreLoop pe [] acc = Inr acc"
| "authStoreLoop pe (p # ps) acc =
     (case authStoreStep pe p acc of Inl e \<Rightarrow> Inl e | Inr acc' \<Rightarrow> authStoreLoop pe ps acc')"

text \<open>
  The migrations of \<open>buildMigrationPlan\<close>, from the empty set of migrated values to the
  end of the auth-store loop: the next config, the auth-store changes and the state.
\<close>

definition runMigrations ::
  "planEnv \<Rightarrow> json \<Rightarrow> json \<Rightarrow> jserror + json \<times> authStoreChange list \<times> mstate" where
  "runMigrations pe config0 payload0 =
     (let st0 = \<lparr>st_payload = payload0, st_counters = zeroCounters, st_migratedValues = {}\<rparr> in
      case migrateModelProviderSecrets config0 st0 of
        Inl e \<Rightarrow> Inl e
      | Inr (config1, st1) \<Rightarrow>
          (case migrateSkillEntrySecrets config1 st1 of
             Inl e \<Rightarrow> Inl e
           | Inr (config2, st2) \<Rightarrow>
               (case migrateGoogleChatSecrets config2 st2 of
                  Inl e \<Rightarrow> Inl e
                | Inr (config3, st3) \<Rightarrow>
                    (case authStoreLoop pe (pe_authStorePaths pe) ([], st3) of
                       Inl e \<Rightarrow> Inl e
                     | Inr (changes, st4) \<Rightarrow> Inr (config3, changes, st4)))))"

text \<open>
  \<open>x ??= {}\<close> followed by a property write on \<open>x\<close>: an absent or null member becomes
  the empty object, an object stays, and writing a property on a primitive throws in
  strict mode.
\<close>

definition orEmptyObject :: "json option \<Rightarrow> jserror + (jsstring \<times> json) list" where
  "orEmptyObject x =
     (case x of
        None \<Rightarrow> Inr []
      | Some JNull \<Rightarrow> Inr []
      | Some (JObj kvs) \<Rightarrow> Inr kvs
      | Some _ \<Rightarrow> Inl (typeError (str ''Cannot create property on a primitive value'')))"

definition sopsFileSource :: "jsstring \<Rightarrow> json" where
  "sopsFileSource defaultConfigPath =
     JObj [(str ''type'', JStr (str ''sops'')), (str ''path'', JStr defaultConfigPath),
           (str ''timeoutMs'', JNum (int DEFAULT_SOPS_TIMEOUT_MS))]"

text \<open>
  \<^verbatim>\<open>nextConfig.secrets ??= {};
  nextConfig.secrets.sources ??= {};
  nextConfig.secrets.sources.file = { type: "sops", path, timeoutMs };\<close>
\<close>

definition synthesizeFileSource :: "json \<Rightarrow> jsstring \<Rightarrow> jserror + json" where
  "synthesizeFileSource config defaultConfigPath =
     (case config of
        JObj ckvs \<Rightarrow>
          (case orEmptyObject (map_of ckvs (str ''secrets'')) of
             Inl e \<Rightarrow> Inl e
           | Inr secrets \<Rightarrow>
               (case orEmptyObject (map_of secrets (str ''sources'')) of
                  Inl e \<Rightarrow> Inl e
                | Inr sources \<Rightarrow>
                    Inr (JObj (objSet ckvs (str ''secrets'')
                           (JObj (objSet secrets (str ''sources'')
                              (JObj (objSet sources (str ''file'')
                                 (sopsFileSource defaultConfigPath)))))))))
      | _ \<Rightarrow> Inl (typeError (str ''Cannot create property on a primitive value'')))"

text \<open>The env-file part: the text is scrubbed with the set of migrated values.\<close>

definition planEnvChange :: "planEnv \<Rightarrow> jsstring set \<Rightarrow> jserror + (envChange \<times> nat) option" where
  "planEnvChange pe migratedValues =
     (if pe_scrubEnv pe \<and> migratedValues \<noteq> {}
      then (let envPath = pe_pathJoin pe [pe_configDir pe, str ''.env''] in
            if existsSync pe envPath
            then (case readFileSync pe envPath of
                    Inl e \<Rightarrow> Inl e
                  | Inr rawEnv \<Rightarrow>
                      (let scrubbed =
                             scrubEnvRaw rawEnv migratedValues (set (pe_knownSecretEnvVarNames pe))
                       in if removed scrubbed > 0 \<and> nextRaw scrubbed \<noteq> rawEnv
                          then Inr (Some (\<lparr>ec_path = envPath, ec_nextRaw = nextRaw scrubbed\<rparr>,
                                          removed scrubbed))
                          else Inr None))
            else Inr None)
      else Inr None)"

text \<open>\<open>set.add(x)\<close> on a \<open>Set\<close> listed in insertion order.\<close>

definition setAdd :: "jsstring list \<Rightarrow> jsstring \<Rightarrow> jsstring list" where
  "setAdd xs x = (if x \<in> set xs then xs else xs @ [x])"

definition collectBackupTargets ::
  "bool \<Rightarrow> jsstring \<Rightarrow> bool \<Rightarrow> jsstring \<Rightarrow> authStoreChange list \<Rightarrow> envChange option
   \<Rightarrow> jsstring list" where
  "collectBackupTargets cfgChanged cfgPath payChanged secretsPath changes envCh =
     (let t1 = (if cfgChanged then setAdd [] cfgPath else []);
          t2 = (if payChanged then setAdd t1 secretsPath else t1);
          t3 = foldl setAdd t2 (map asc_path changes)
      in case envCh of None \<Rightarrow> t3 | Some c \<Rightarrow> setAdd t3 (ec_path c))"

definition invalidConfigError :: "(jsstring \<times> jsstring) list \<Rightarrow> jserror" where
  "invalidConfigError issues =
     newError
       (str ''Cannot migrate secrets because config is invalid:'' @ [0x0A] @
        (if length issues > 0
         then join [0x0A]
                (map (\<lambda>issue. (if fst issue = [] then str ''<root>'' else fst issue) @
                               str '': '' @ snd issue) issues)
         else str ''Unknown validation issue.''))"

definition buildMigrationPlan :: "planEnv \<Rightarrow> jserror + migrationPlan" where
  "buildMigrationPlan pe =
     (if \<not> pe_snapshotValid pe then Inl (invalidConfigError (pe_snapshotIssues pe))
      else
        (let config0 = pe_snapshotConfig pe;
             fileSource = resolveFileSource pe config0;
             sopsCfg = resolveExistingSopsConfigPath pe
         in
         case decryptSopsJson pe (fs_path fileSource) (fs_timeoutMs fileSource) sopsCfg of
           Inl e \<Rightarrow> Inl e
         | Inr previousPayload \<Rightarrow>
             (case runMigrations pe config0 previousPayload of
                Inl e \<Rightarrow> Inl e
              | Inr (config3, changes, st) \<Rightarrow>
                  (let counters1 = (st_counters st)\<lparr>authStoresChanged := length changes\<rparr> in
                   case (if secretsWritten counters1 > 0 \<and> \<not> hadConfiguredSource fileSource
                         then synthesizeFileSource config3 (resolveDefaultSecretsConfigPath pe)
                         else Inr config3) of
                     Inl e \<Rightarrow> Inl e
                   | Inr config4 \<Rightarrow>
                       (let cfgChanged = \<not> isDeepStrictEqual (Some config0) (Some config4);
                            payChanged =
                              \<not> isDeepStrictEqual (Some previousPayload) (Some (st_payload st))
                        in
                        case planEnvChange pe (st_migratedValues st) of
                          Inl e \<Rightarrow> Inl e
                        | Inr envRes \<Rightarrow>
                            (let envCh = map_option fst envRes;
                                 counters2 =
                                   (case envRes of
                                      None \<Rightarrow> counters1
                                    | Some r \<Rightarrow> counters1\<lparr>envEntriesRemoved := snd r\<rparr>)
                             in
                             Inr \<lparr>changed =
                                    (cfgChanged \<or> payChanged \<or> length changes > 0 \<or> envCh \<noteq> None),
                                  counters = counters2,
                                  stateDir = pe_stateDir pe,
                                  configChanged = cfgChanged,
                                  nextConfig = config4,
                                  authStoreChanges = changes,
                                  payloadChanged = payChanged,
                                  nextPayload = st_payload st,
                                  secretsFilePath = fs_path fileSource,
                                  secretsFileTimeoutMs = fs_timeoutMs fileSource,
                                  sopsConfigPath = sopsCfg,
                                  envChange = envCh,
                                  backupTargets =
                                    collectBackupTargets cfgChanged (pe_configPath pe) payChanged
                                      (fs_path fileSource) changes envCh\<rparr>))))))"

section \<open>The sites of a plan\<close>

text \<open>
  The rule of the specification for one site, given the pointer computed for it and the
  value it moves: "If the pointer already exists in the payload with an equal value, do
  not increment the secretsWritten counter; otherwise set it and increment." The pair is
  the payload and the counter.
\<close>

definition spec_writeSite :: "jsstring \<times> json \<Rightarrow> json \<times> nat \<Rightarrow> jserror + json \<times> nat" where
  "spec_writeSite site acc =
     (case readJsonPointerRaw (fst acc) (fst site) Undefined of
        Inl e \<Rightarrow> Inl e
      | Inr existing \<Rightarrow>
          if isDeepStrictEqual existing (Some (snd site)) then Inr acc
          else (case setJsonPointer (fst acc) (fst site) (snd site) of
                  Inl e \<Rightarrow> Inl e
                | Inr payload \<Rightarrow> Inr (payload, snd acc + 1)))"

fun spec_writeSites ::
  "(jsstring \<times> json) list \<Rightarrow> json \<times> nat \<Rightarrow> jserror + json \<times> nat" where
  "spec_writeSites [] acc = Inr acc"
| "spec_writeSites (site # sites) acc =
     (case spec_writeSite site acc of
        Inl e \<Rightarrow> Inl e
      | Inr acc' \<Rightarrow> spec_writeSites sites acc')"

text \<open>
  The sites that planning migrates, in the order in which it reaches them, each with its
  pointer and the value that is moved: the entries that pass the \<open>continue\<close> and
  \<open>return\<close> tests of \<open>migrateModelProviderSecrets\<close>, \<open>migrateSkillEntrySecrets\<close>,
  \<open>migrateGoogleChatServiceAccount\<close>, \<open>migrateGoogleChatSecrets\<close>,
  \<open>migrateAuthStoreSecrets\<close> and of the auth-store loop of \<open>buildMigrationPlan\<close>, with
  the \<open>id\<close> and the \<open>value\<close> computed there. The pointers are written out as the
  template literals of the source have them.

  A provider or a skill entry is a site when its \<open>apiKey\<close> is a non-empty string (a
  string is no reference); the value is the trimmed string, the pointer the prefix, the
  escaped key and \<open>/apiKey\<close>.
\<close>

definition apiKeySite :: "jsstring \<Rightarrow> jsstring \<Rightarrow> json \<Rightarrow> (jsstring \<times> json) list" where
  "apiKeySite prefix k entry =
     (case getProp (Some entry) (str ''apiKey'') of
        Some (JStr s) \<Rightarrow>
          if isNonEmptyString (Some (JStr s))
          then [(prefix @ encodeJsonPointerToken k @ str ''/apiKey'', JStr (trim s))]
          else []
      | _ \<Rightarrow> [])"

text \<open>
  A Google Chat account (the \<open>googlechat\<close> object itself, or a member of \<open>accounts\<close>) is
  a site when neither \<open>serviceAccountRef\<close> nor \<open>serviceAccount\<close> is a reference and
  \<open>serviceAccount\<close> is a non-empty string, which is trimmed, or an object with at least
  one key, which is cloned.
\<close>

definition serviceAccountSite :: "jsstring \<Rightarrow> json \<Rightarrow> (jsstring \<times> json) list" where
  "serviceAccountSite pointerId account =
     (let serviceAccount = getProp (Some account) (str ''serviceAccount'') in
      if isSecretRef (getProp (Some account) (str ''serviceAccountRef'')) \<or>
         isSecretRef serviceAccount
      then []
      else (case serviceAccount of
              Some (JStr s) \<Rightarrow>
                if isNonEmptyString serviceAccount
                then [(pointerId @ str ''/serviceAccount'', JStr (trim s))] else []
            | Some (JObj members) \<Rightarrow>
                if hasKeys serviceAccount
                then [(pointerId @ str ''/serviceAccount'', JObj members)] else []
            | _ \<Rightarrow> []))"

text \<open>
  An auth profile of type \<open>api_key\<close> is a site when \<open>keyRef\<close> is not a reference and
  \<open>key\<close> is a non-empty string that is not blank; the value is the trimmed string. A
  profile of type \<open>token\<close> is one in the same way, with \<open>token\<close> and \<open>tokenRef\<close>.
\<close>

definition profileFields :: "json \<Rightarrow> (jsstring \<times> jsstring) option" where
  "profileFields profile =
     (if getProp (Some profile) (str ''type'') = Some (JStr (str ''api_key''))
      then Some (str ''key'', str ''keyRef'')
      else if getProp (Some profile) (str ''type'') = Some (JStr (str ''token''))
      then Some (str ''token'', str ''tokenRef'')
      else None)"

definition profileSite :: "jsstring \<Rightarrow> jsstring \<Rightarrow> json \<Rightarrow> (jsstring \<times> json) list" where
  "profileSite scope profileId profile =
     (case profileFields profile of
        None \<Rightarrow> []
      | Some (field, refField) \<Rightarrow>
          if isSecretRef (getProp (Some profile) refField) then []
          else (case getProp (Some profile) field of
                  Some (JStr s) \<Rightarrow>
                    if isNonEmptyString (Some (JStr s)) \<and> trim s \<noteq> []
                    then [(str ''/auth-profiles/'' @ encodeJsonPointerToken scope @ str ''/'' @
                           encodeJsonPointerToken profileId @ str ''/'' @ field,
                           JStr (trim s))]
                    else []
                | _ \<Rightarrow> []))"

text \<open>The sites among the entries of an object, in the order of \<open>Object.entries\<close>.\<close>

definition entrySites ::
  "(jsstring \<Rightarrow> json \<Rightarrow> (jsstring \<times> json) list) \<Rightarrow> json option \<Rightarrow> (jsstring \<times> json) list" where
  "entrySites site entries =
     (case entries of
        Some (JObj es) \<Rightarrow> concat (map (\<lambda>e. site (fst e) (snd e)) es)
      | _ \<Rightarrow> [])"

text \<open>
  \<open>migrateGoogleChatSecrets\<close>: the \<open>googlechat\<close> object first, with the pointer
  \<open>/channels/googlechat\<close>, then the members of its \<open>accounts\<close>.
\<close>

definition googleChatSites :: "json \<Rightarrow> (jsstring \<times> json) list" where
  "googleChatSites config =
     (case getProp (getProp (Some config) (str ''channels'')) (str ''googlechat'') of
        Some googlechat \<Rightarrow>
          serviceAccountSite (str ''/channels/googlechat'') googlechat @
          entrySites
            (\<lambda>accountId. serviceAccountSite
               (str ''/channels/googlechat/accounts/'' @ encodeJsonPointerToken accountId))
            (getProp (Some googlechat) (str ''accounts''))
      | None \<Rightarrow> [])"

text \<open>The sites of the auth store at a path: of a file that parses to an object.\<close>

definition authStoreSites :: "planEnv \<Rightarrow> jsstring \<Rightarrow> (jsstring \<times> json) list" where
  "authStoreSites pe authStorePath =
     (case pe_fs pe authStorePath of
        File raw \<Rightarrow>
          (case pe_jsonParse pe raw of
             Inr store \<Rightarrow>
               entrySites (profileSite (pe_authStoreScope pe authStorePath))
                 (getProp (Some store) (str ''profiles''))
           | Inl _ \<Rightarrow> [])
      | _ \<Rightarrow> [])"

text \<open>
  The order of \<open>buildMigrationPlan\<close>: the providers, the skill entries, Google Chat, and
  then the auth stores in the order of \<open>collectAuthStorePaths\<close>.
\<close>

definition configSites :: "json \<Rightarrow> (jsstring \<times> json) list" where
  "configSites config =
     entrySites (apiKeySite (str ''/providers/''))
       (getProp (getProp (Some config) (str ''models'')) (str ''providers'')) @
     entrySites (apiKeySite (str ''/skills/entries/''))
       (getProp (getProp (Some config) (str ''skills'')) (str ''entries'')) @
     googleChatSites config"

definition migratedSites :: "planEnv \<Rightarrow> (jsstring \<times> json) list" where
  "migratedSites pe =
     configSites (pe_snapshotConfig pe) @ concat (map (authStoreSites pe) (pe_authStorePaths pe))"

text \<open>The payload and the \<open>secretsWritten\<close> counter of a state.\<close>

abbreviation pw :: "mstate \<Rightarrow> json \<times> nat" where
  "pw st \<equiv> (st_payload st, secretsWritten (st_counters st))"

section \<open>Example inputs\<close>

text \<open>
  A state directory with a provider key, a skill key and one auth store whose text
  \<open>JSON.parse\<close> accepts, next to one it rejects.
\<close>

definition example_store_text :: jsstring where
  "example_store_text =
     str ''{...}''"

definition example_store :: json where
  "example_store =
     JObj [(str ''profiles'',
            JObj [(str ''p'',
                   JObj [(str ''type'', JStr (str ''api_key'')),
                         (str ''key'', JStr (str ''sk-3''))])])]"

definition example_config :: json where
  "example_config =
     JObj [(str ''models'',
            JObj [(str ''providers'',
                   JObj [(str ''openai'', JObj [(str ''apiKey'', JStr (str '' sk-1 ''))])])]),
           (str ''skills'',
            JObj [(str ''entries'',
                   JObj [(str ''r'', JObj [(str ''apiKey'', JStr (str ''sk-2''))])])])]"

definition example_env :: planEnv where
  "example_env =
     \<lparr>pe_env = (\<lambda>_. None), pe_scrubEnv = False, pe_snapshotValid = True, pe_snapshotIssues = [],
      pe_snapshotConfig = example_config,
      pe_configPath = str ''/s/c.json'',
      pe_stateDir = str ''/s'', pe_configDir = str ''/s'',
      pe_resolveUserPath = (\<lambda>p. p), pe_pathJoin = join (str ''/''),
      pe_fs = (\<lambda>p. if p = str ''/s/.env''
                     then File (str ''OPENAI_API_KEY=sk-1'' @ [0x0A])
                     else if p = str ''/s/main.json''
                     then File example_store_text
                     else if p = str ''/s/old.json''
                     then File (str ''not json'')
                     else Absent),
      pe_runExec = (\<lambda>_ _ _ _. Inl (newError (str ''ENOENT''))),
      pe_jsonParse = (\<lambda>raw. if raw = example_store_text then Inr example_store
                              else Inl (JsError (str ''SyntaxError'') (Some (str ''bad'')) None None)),
      pe_authStorePaths = [str ''/s/main.json'',
                           str ''/s/old.json''],
      pe_authStoreScope = (\<lambda>p. str ''main''),
      pe_knownSecretEnvVarNames = [str ''OPENAI_API_KEY'']\<rparr>"

text \<open>
  The state directory of \<open>example_env\<close> with env scrubbing on: the env file holds the
  provider key, quoted, under an allow-listed name, and the skill key under a name that
  is not allow-listed.
\<close>

definition example_scrub_raw :: jsstring where
  "example_scrub_raw =
     str ''export OPENAI_API_KEY=\"sk-1\" '' @ [0x0A] @ str ''SKILL_KEY=sk-2'' @ [0x0A]"

definition example_scrub_env :: planEnv where
  "example_scrub_env =
     example_env
       \<lparr>pe_scrubEnv := True,
        pe_fs := (\<lambda>p. if p = str ''/s/.env'' then File example_scrub_raw
                       else pe_fs example_env p)\<rparr>"

text \<open>
  A provider key and a Google Chat service account, with env scrubbing on: the env file
  holds each of the two values under an allow-listed name.
\<close>

definition example_googlechat_raw :: jsstring where
  "example_googlechat_raw =
     str ''OPENAI_API_KEY=sk-1'' @ [0x0A] @ str ''GOOGLE_API_KEY=sa-json'' @ [0x0A]"

definition example_googlechat_env :: planEnv where
  "example_googlechat_env =
     example_env
       \<lparr>pe_snapshotConfig :=
          JObj [(str ''models'',
                 JObj [(str ''providers'',
                        JObj [(str ''openai'', JObj [(str ''apiKey'', JStr (str ''sk-1''))])])]),
                (str ''channels'',
                 JObj [(str ''googlechat'', JObj [(str ''serviceAccount'', JStr (str ''sa-json''))])])],
        pe_fs := (\<lambda>p. if p = str ''/s/.env'' then File example_googlechat_raw else Absent),
        pe_authStorePaths := [], pe_scrubEnv := True,
        pe_knownSecretEnvVarNames := [str ''OPENAI_API_KEY'', str ''GOOGLE_API_KEY'']\<rparr>"




text \<open>
  A config with a site of every kind, and a secrets file that already holds the provider
  key and the service account of the Google Chat account \<open>a/b\<close>.
\<close>

definition example_sites_config :: json where
  "example_sites_config =
     JObj [(str ''models'',
            JObj [(str ''providers'',
                   JObj [(str ''openai'', JObj [(str ''apiKey'', JStr (str '' sk-1 ''))])])]),
           (str ''skills'',
            JObj [(str ''entries'',
                   JObj [(str ''r'', JObj [(str ''apiKey'', JStr (str ''sk-2''))])])]),
           (str ''channels'',
            JObj [(str ''googlechat'',
                   JObj [(str ''serviceAccount'', JStr (str ''sa-json'')),
                         (str ''accounts'',
                          JObj [(str ''a/b'',
                                 JObj [(str ''serviceAccount'',
                                        JObj [(str ''k'', JStr (str ''v''))])])])])])]"

definition example_sites_payload :: json where
  "example_sites_payload =
     JObj [(str ''providers'', JObj [(str ''openai'', JObj [(str ''apiKey'', JStr (str ''sk-1''))])]),
           (str ''channels'',
            JObj [(str ''googlechat'',
                   JObj [(str ''accounts'',
                          JObj [(str ''a/b'',
                                 JObj [(str ''serviceAccount'',
                                        JObj [(str ''k'', JStr (str ''v''))])])])])])]"

definition example_sites_env :: planEnv where
  "example_sites_env =
     example_env
       \<lparr>pe_snapshotConfig := example_sites_config,
        pe_fs := (\<lambda>p. if p = str ''~/.openclaw/secrets.enc.json'' then File (str ''enc'')
                       else pe_fs example_env p),
        pe_runExec := (\<lambda>_ _ _ _. Inr (str ''dec'')),
        pe_jsonParse := (\<lambda>raw. if raw = str ''dec'' then Inr example_sites_payload
                                else pe_jsonParse example_env raw)\<rparr>"

section \<open>Resolving references (\<open>src/secrets/resolve.ts\<close>)\<close>

text \<open>\<open>String(x)\<close> on a JSON value or \<open>undefined\<close>.\<close>

definition showInt :: "int \<Rightarrow> jsstring" where
  "showInt n = (if n < 0 then str ''-'' @ showNat (nat (- n)) else showNat (nat n))"

fun jsString :: "json \<Rightarrow> jsstring"
  and jsStringElems :: "json list \<Rightarrow> jsstring" where
  "jsString JNull = str ''null''"
| "jsString (JBool b) = (if b then str ''true'' else str ''false'')"
| "jsString (JNum n) = showInt n"
| "jsString (JStr s) = s"
| "jsString (JArr xs) = jsStringElems xs"
| "jsString (JObj kvs) = str ''[object Object]''"
| "jsStringElems [] = []"
| "jsStringElems [x] = (if x = JNull then [] else jsString x)"
| "jsStringElems (x # y # ys) =
     (if x = JNull then [] else jsString x) @ str '','' @ jsStringElems (y # ys)"

definition jsStringU :: "json option \<Rightarrow> jsstring" where
  "jsStringU x = (case x of None \<Rightarrow> str ''undefined'' | Some v \<Rightarrow> jsString v)"

record secretRef =
  ref_source :: jsstring
  ref_id :: jsstring

text \<open>
  \<open>SecretRefResolveCache\<close>: the promise of the decrypted payload, once there is one,
  as the result it settles to.
\<close>

type_synonym resolveCache = "(jserror + json) option"

text \<open>
  \<open>ResolveSecretRefOptions\<close>, and what the resolver reads from outside: \<open>process.env\<close>,
  the subprocess runner, \<open>JSON.parse\<close> and \<open>resolveUserPath\<close>.
\<close>

record resolveOptions =
  ro_config :: json
  ro_env :: "(jsstring \<Rightarrow> jsstring option) option"
  ro_cache :: "resolveCache option"
  ro_missingBinaryMessage :: "jsstring option"

record resolveCtx =
  rc_processEnv :: "jsstring \<Rightarrow> jsstring option"
  rc_runExec :: runExec
  rc_jsonParse :: jsonParse
  rc_resolveUserPath :: "jsstring \<Rightarrow> jsstring"

definition DEFAULT_SOPS_MISSING_BINARY_MESSAGE :: jsstring where
  "DEFAULT_SOPS_MISSING_BINARY_MESSAGE =
     str ''sops binary not found in PATH. Install sops >= 3.9.0 or disable secrets.sources.file.''"

text \<open>
  \<open>resolveFileSecretPayload\<close>: the result and the cache as the call leaves it. The
  \<open>path\<close> of the file source is a string by the config's type.
\<close>

definition fileSecretDecryptParams ::
  "resolveCtx \<Rightarrow> resolveOptions \<Rightarrow> json option \<Rightarrow> decryptParams" where
  "fileSecretDecryptParams ctx options fileSource =
     \<lparr>dp_path =
        rc_resolveUserPath ctx
          (case getProp fileSource (str ''path'') of Some (JStr p) \<Rightarrow> p | _ \<Rightarrow> []),
      dp_timeoutMs =
        Some (int (normalizePositiveInt (getProp fileSource (str ''timeoutMs''))
                     DEFAULT_SOPS_TIMEOUT_MS)),
      dp_missingBinaryMessage =
        (case ro_missingBinaryMessage options of
           Some m \<Rightarrow> m | None \<Rightarrow> DEFAULT_SOPS_MISSING_BINARY_MESSAGE),
      dp_configPath = None\<rparr>"

definition resolveFileSecretPayload ::
  "resolveCtx \<Rightarrow> resolveOptions \<Rightarrow> (jserror + json) \<times> resolveCache option" where
  "resolveFileSecretPayload ctx options =
     (let fileSource = configFileSource (ro_config options) in
      if \<not> truthy fileSource
      then (Inl (newError (str ''Secret reference source \"file\" is not configured. Configure secrets.sources.file first.'')),
            ro_cache options)
      else if getProp fileSource (str ''type'') \<noteq> Some (JStr (str ''sops''))
      then (Inl (newError (str ''Unsupported secrets.sources.file.type \"'' @
                           jsStringU (getProp fileSource (str ''type'')) @ str ''\".'')),
            ro_cache options)
      else
        (case ro_cache options of
           Some (Some settled) \<Rightarrow> (settled, ro_cache options)
         | cache \<Rightarrow>
             (let promise =
                    (case decryptSopsJsonFile (rc_runExec ctx) (rc_jsonParse ctx)
                            (fileSecretDecryptParams ctx options fileSource) of
                       Inl e \<Rightarrow> Inl e
                     | Inr payload \<Rightarrow>
                         if \<not> isRecord (Some payload) then Inl (newError notObjectMessage)
                         else Inr payload)
              in (promise, (case cache of None \<Rightarrow> None | Some _ \<Rightarrow> Some (Some promise))))))"

definition resolveSecretRefValue ::
  "resolveCtx \<Rightarrow> secretRef \<Rightarrow> resolveOptions \<Rightarrow> (jserror + json) \<times> resolveCache option" where
  "resolveSecretRefValue ctx ref options =
     (let i = trim (ref_id ref) in
      if i = [] then (Inl (newError (str ''Secret reference id is empty.'')), ro_cache options)
      else if ref_source ref = str ''env''
      then (let envValue =
                  (case (case ro_env options of None \<Rightarrow> None | Some env \<Rightarrow> env i) of
                     Some v \<Rightarrow> Some v
                   | None \<Rightarrow> rc_processEnv ctx i)
            in if \<not> isNonEmptyString (map_option JStr envValue)
               then (Inl (newError (str ''Environment variable \"'' @ i @
                                    str ''\" is missing or empty.'')),
                     ro_cache options)
               else (Inr (JStr (case envValue of Some v \<Rightarrow> v | None \<Rightarrow> [])), ro_cache options))
      else if ref_source ref = str ''file''
      then (case resolveFileSecretPayload ctx options of
              (Inl e, cache) \<Rightarrow> (Inl e, cache)
            | (Inr payload, cache) \<Rightarrow>
                (case readJsonPointerRaw payload i Throw of
                   Inl e \<Rightarrow> (Inl e, cache)
                 | Inr v \<Rightarrow> (Inr (case v of Some x \<Rightarrow> x | None \<Rightarrow> JNull), cache)))
      else (Inl (newError (str ''Unsupported secret source \"'' @ ref_source ref @ str ''\".'')),
            ro_cache options))"

section \<open>Effects: the sops driver's encrypt and \<open>applyMigrationPlan\<close>\<close>

text \<open>
  A computation that runs in a world \<open>'w\<close> (the file system, the backups, the process),
  may throw, and leaves a world behind.
\<close>

type_synonym ('w, 'a) io = "'w \<Rightarrow> (jserror + 'a) \<times> 'w"

definition bindIO :: "('w, 'a) io \<Rightarrow> ('a \<Rightarrow> ('w, 'b) io) \<Rightarrow> ('w, 'b) io" where
  "bindIO m f w = (case m w of (Inl e, w') \<Rightarrow> (Inl e, w') | (Inr a, w') \<Rightarrow> f a w')"

definition returnIO :: "'a \<Rightarrow> ('w, 'a) io" where
  "returnIO a w = (Inr a, w)"

definition throwIO :: "jserror \<Rightarrow> ('w, 'a) io" where
  "throwIO e w = (Inl e, w)"

text \<open>\<open>if (c) { m }\<close>.\<close>

definition whenIO :: "bool \<Rightarrow> ('w, unit) io \<Rightarrow> ('w, unit) io" where
  "whenIO c m = (if c then m else returnIO ())"

text \<open>\<open>try { body } catch (err) { handler }\<close> and \<open>try { body } finally { cleanup }\<close>.\<close>

definition tryCatch :: "('w, 'a) io \<Rightarrow> (jserror \<Rightarrow> ('w, 'a) io) \<Rightarrow> ('w, 'a) io" where
  "tryCatch body handler w =
     (case body w of (Inr a, w') \<Rightarrow> (Inr a, w') | (Inl e, w') \<Rightarrow> handler e w')"

definition tryFinally :: "('w, 'a) io \<Rightarrow> ('w, unit) io \<Rightarrow> ('w, 'a) io" where
  "tryFinally body cleanup w =
     (case body w of
        (r, w') \<Rightarrow> (case cleanup w' of (Inl e, w'') \<Rightarrow> (Inl e, w'') | (Inr _, w'') \<Rightarrow> (r, w'')))"

fun forEachIO :: "('a \<Rightarrow> ('w, unit) io) \<Rightarrow> 'a list \<Rightarrow> ('w, unit) io" where
  "forEachIO f [] = returnIO ()"
| "forEachIO f (x # xs) = bindIO (f x) (\<lambda>_. forEachIO f xs)"

text \<open>\<open>BackupManifest\<close> of \<open>types.ts\<close>.\<close>

record backupManifestEntry =
  bme_path :: jsstring
  bme_existed :: bool
  bme_backupPath :: "jsstring option"
  bme_mode :: "nat option"

record backupManifest =
  bm_backupId :: jsstring
  bm_createdAt :: jsstring
  bm_entries :: "backupManifestEntry list"

record backup =
  bk_backupDir :: jsstring
  bk_manifest :: backupManifest

text \<open>
  What the two functions call outside the sources: \<open>node:fs\<close>, \<open>node:path\<close>,
  \<open>node:crypto\<close>, the subprocess runner, \<open>ensureDirForFile\<close> and \<open>writeJsonFileSecure\<close> of
  \<open>shared.js\<close>, the config IO's \<open>writeConfigFile\<close>, and the four functions of
  \<open>backup.js\<close>. Each may change the world and each may throw. \<open>'t\<close> is the \<open>Date\<close>.
\<close>

record ('w, 't) sys =
  sys_ensureDirForFile :: "jsstring \<Rightarrow> ('w, unit) io"
  sys_writeFileSync :: "jsstring \<Rightarrow> jsstring \<Rightarrow> ('w, unit) io"
  sys_chmodSync :: "jsstring \<Rightarrow> nat \<Rightarrow> ('w, unit) io"
  sys_renameSync :: "jsstring \<Rightarrow> jsstring \<Rightarrow> ('w, unit) io"
  sys_rmSyncForce :: "jsstring \<Rightarrow> ('w, unit) io"
  sys_runExec :: "jsstring \<Rightarrow> jsstring list \<Rightarrow> nat \<Rightarrow> nat \<Rightarrow> ('w, jsstring) io"
  sys_randomUUID :: "('w, jsstring) io"
  sys_pid :: nat
  sys_dirname :: "jsstring \<Rightarrow> jsstring"
  sys_basename :: "jsstring \<Rightarrow> jsstring"
  sys_pathJoin :: "jsstring list \<Rightarrow> jsstring"
  sys_jsonStringify :: "json \<Rightarrow> jsstring"
  sys_writeConfigFile :: "json \<Rightarrow> ('w, unit) io"
  sys_writeJsonFileSecure :: "jsstring \<Rightarrow> json \<Rightarrow> ('w, unit) io"
  sys_resolveUniqueBackupId :: "jsstring \<Rightarrow> 't \<Rightarrow> ('w, jsstring) io"
  sys_createBackupManifest :: "jsstring \<Rightarrow> jsstring list \<Rightarrow> jsstring \<Rightarrow> 't \<Rightarrow> ('w, backup) io"
  sys_restoreFromManifest :: "backupManifest \<Rightarrow> ('w, unit) io"
  sys_pruneOldBackups :: "jsstring \<Rightarrow> ('w, unit) io"

text \<open>The file mode \<open>0o600\<close>.\<close>

definition mode0600 :: nat where
  "mode0600 = 6 * 64"

record encryptParams =
  ep_path :: jsstring
  ep_payload :: json
  ep_timeoutMs :: "int option"
  ep_missingBinaryMessage :: jsstring
  ep_configPath :: "jsstring option"

text \<open>The \<open>catch\<close> block of \<open>encryptSopsJsonFile\<close>.\<close>

definition encryptCatch :: "encryptParams \<Rightarrow> nat \<Rightarrow> jserror \<Rightarrow> jserror" where
  "encryptCatch params timeoutMs err =
     (if isTimeoutError (err_message err)
      then newErrorCause
             (str ''sops encrypt timed out after '' @ showNat timeoutMs @ str ''ms for '' @
              ep_path params @ str ''.'')
             err
      else toSopsError err
             \<lparr>missingBinaryMessage = ep_missingBinaryMessage params,
              operationLabel = str ''sops encrypt failed for '' @ ep_path params\<rparr>)"

text \<open>The \<open>try\<close> block of \<open>encryptSopsJsonFile\<close>.\<close>

definition encryptTry ::
  "('w, 't) sys \<Rightarrow> encryptParams \<Rightarrow> nat \<Rightarrow> jsstring \<Rightarrow> jsstring \<Rightarrow> ('w, unit) io" where
  "encryptTry sys params timeoutMs tmpPlain tmpEncrypted =
     (let args = configArgs (ep_configPath params) @
                 [str ''--encrypt'', str ''--input-type'', str ''json'', str ''--output-type'',
                  str ''json'', str ''--output'', tmpEncrypted, tmpPlain]
      in bindIO (sys_runExec sys (str ''sops'') args timeoutMs MAX_SOPS_OUTPUT_BYTES) (\<lambda>_.
         bindIO (sys_renameSync sys tmpEncrypted (ep_path params)) (\<lambda>_.
         sys_chmodSync sys (ep_path params) mode0600)))"

definition tmpName :: "('w, 't) sys \<Rightarrow> jsstring \<Rightarrow> jsstring \<Rightarrow> jsstring \<Rightarrow> jsstring" where
  "tmpName sys p uuid suffix =
     sys_pathJoin sys
       [sys_dirname sys p,
        sys_basename sys p @ str ''.'' @ showNat (sys_pid sys) @ str ''.'' @ uuid @ suffix]"

definition encryptSopsJsonFile :: "('w, 't) sys \<Rightarrow> encryptParams \<Rightarrow> ('w, unit) io" where
  "encryptSopsJsonFile sys params =
     bindIO (sys_ensureDirForFile sys (ep_path params)) (\<lambda>_.
     (let timeoutMs = normalizeTimeoutMs (ep_timeoutMs params) in
      bindIO (sys_randomUUID sys) (\<lambda>u1.
      bindIO (sys_randomUUID sys) (\<lambda>u2.
      (let tmpPlain = tmpName sys (ep_path params) u1 (str ''.plain.tmp'');
           tmpEncrypted = tmpName sys (ep_path params) u2 (str ''.enc.tmp'')
       in
       bindIO (sys_writeFileSync sys tmpPlain
                 (sys_jsonStringify sys (ep_payload params) @ [0x0A])) (\<lambda>_.
       bindIO (sys_chmodSync sys tmpPlain mode0600) (\<lambda>_.
       tryFinally
         (tryCatch (encryptTry sys params timeoutMs tmpPlain tmpEncrypted)
            (\<lambda>err. throwIO (encryptCatch params timeoutMs err)))
         (bindIO (sys_rmSyncForce sys tmpPlain) (\<lambda>_. sys_rmSyncForce sys tmpEncrypted)))))))))"

subsection \<open>\<open>src/secrets/migrate/apply.ts\<close>\<close>

definition encryptSopsJson ::
  "('w, 't) sys \<Rightarrow> jsstring \<Rightarrow> nat \<Rightarrow> json \<Rightarrow> jsstring option \<Rightarrow> ('w, unit) io" where
  "encryptSopsJson sys pathname timeoutMs payload sopsCfg =
     encryptSopsJsonFile sys
       \<lparr>ep_path = pathname, ep_payload = payload, ep_timeoutMs = Some (int timeoutMs),
        ep_missingBinaryMessage = migrateMissingBinaryMessage, ep_configPath = sopsCfg\<rparr>"

text \<open>\<open>SecretsMigrationRunResult\<close> of \<open>types.ts\<close>; the mode is \<open>write\<close> or \<open>dry-run\<close>.\<close>

datatype runMode = DryRun | Write

record runResult =
  rr_mode :: runMode
  rr_changed :: bool
  rr_backupId :: "jsstring option"
  rr_backupDir :: "jsstring option"
  rr_secretsFilePath :: jsstring
  rr_counters :: counters
  rr_changedFiles :: "jsstring list"

text \<open>The \<open>try\<close> block of \<open>applyMigrationPlan\<close>: the four writes, in the source's order.\<close>

definition writePhase :: "('w, 't) sys \<Rightarrow> migrationPlan \<Rightarrow> ('w, unit) io" where
  "writePhase sys plan =
     bindIO (whenIO (payloadChanged plan)
               (encryptSopsJson sys (secretsFilePath plan) (secretsFileTimeoutMs plan)
                  (nextPayload plan) (sopsConfigPath plan))) (\<lambda>_.
     bindIO (whenIO (configChanged plan) (sys_writeConfigFile sys (nextConfig plan))) (\<lambda>_.
     bindIO (forEachIO (\<lambda>change. sys_writeJsonFileSecure sys (asc_path change)
                                     (asc_nextStore change))
               (authStoreChanges plan)) (\<lambda>_.
     (case envChange plan of
        None \<Rightarrow> returnIO ()
      | Some ec \<Rightarrow>
          bindIO (sys_ensureDirForFile sys (ec_path ec)) (\<lambda>_.
          bindIO (sys_writeFileSync sys (ec_path ec) (ec_nextRaw ec)) (\<lambda>_.
          sys_chmodSync sys (ec_path ec) mode0600))))))"

definition rolledBackError :: "jsstring \<Rightarrow> jserror \<Rightarrow> jserror" where
  "rolledBackError backupId err =
     newErrorCause
       (str ''Secrets migration failed and was rolled back from backup '' @ backupId @
        str '': '' @ errorToString err)
       err"

definition applyMigrationPlan ::
  "('w, 't) sys \<Rightarrow> migrationPlan \<Rightarrow> 't \<Rightarrow> ('w, runResult) io" where
  "applyMigrationPlan sys plan now =
     (if \<not> changed plan
      then returnIO
             \<lparr>rr_mode = Write, rr_changed = False, rr_backupId = None, rr_backupDir = None,
              rr_secretsFilePath = secretsFilePath plan, rr_counters = counters plan,
              rr_changedFiles = []\<rparr>
      else
        bindIO (sys_resolveUniqueBackupId sys (stateDir plan) now) (\<lambda>backupId.
        bindIO (sys_createBackupManifest sys (stateDir plan) (backupTargets plan) backupId now)
          (\<lambda>backup.
        bindIO (tryCatch (writePhase sys plan)
                  (\<lambda>err. bindIO (sys_restoreFromManifest sys (bk_manifest backup)) (\<lambda>_.
                          throwIO (rolledBackError backupId err)))) (\<lambda>_.
        bindIO (sys_pruneOldBackups sys (stateDir plan)) (\<lambda>_.
        returnIO
          \<lparr>rr_mode = Write, rr_changed = True, rr_backupId = Some backupId,
           rr_backupDir = Some (bk_backupDir backup),
           rr_secretsFilePath = secretsFilePath plan, rr_counters = counters plan,
           rr_changedFiles = backupTargets plan\<rparr>)))))"

section \<open>A recording world\<close>

text \<open>
  A world that is the list of the calls made so far, for the examples: every operation
  appends its name, and the one named \<open>failAt\<close> throws.
\<close>

definition traceOp :: "jsstring \<Rightarrow> jsstring \<Rightarrow> 'a \<Rightarrow> (jsstring list, 'a) io" where
  "traceOp failAt name a w =
     ((if name = failAt then Inl (newError (name @ str '' failed'')) else Inr a), w @ [name])"

definition traceSys :: "jsstring \<Rightarrow> (jsstring list, unit) sys" where
  "traceSys failAt =
     \<lparr>sys_ensureDirForFile = (\<lambda>_. traceOp failAt (str ''mkdir'') ()),
      sys_writeFileSync = (\<lambda>_ _. traceOp failAt (str ''write'') ()),
      sys_chmodSync = (\<lambda>_ _. traceOp failAt (str ''chmod'') ()),
      sys_renameSync = (\<lambda>_ _. traceOp failAt (str ''rename'') ()),
      sys_rmSyncForce = (\<lambda>_. traceOp failAt (str ''rm'') ()),
      sys_runExec = (\<lambda>_ _ _ _. traceOp failAt (str ''sops'') []),
      sys_randomUUID = traceOp failAt (str ''uuid'') (str ''u''),
      sys_pid = 7,
      sys_dirname = (\<lambda>_. str ''/s''),
      sys_basename = (\<lambda>_. str ''f''),
      sys_pathJoin = join (str ''/''),
      sys_jsonStringify = (\<lambda>_. str ''{}''),
      sys_writeConfigFile = (\<lambda>_. traceOp failAt (str ''config'') ()),
      sys_writeJsonFileSecure = (\<lambda>_ _. traceOp failAt (str ''store'') ()),
      sys_resolveUniqueBackupId = (\<lambda>_ _. traceOp failAt (str ''id'') (str ''B1'')),
      sys_createBackupManifest =
        (\<lambda>_ _ i _. traceOp failAt (str ''backup'')
                      \<lparr>bk_backupDir = str ''/s/b'',
                       bk_manifest = \<lparr>bm_backupId = i, bm_createdAt = [], bm_entries = []\<rparr>\<rparr>),
      sys_restoreFromManifest = (\<lambda>_. traceOp failAt (str ''restore'') ()),
      sys_pruneOldBackups = (\<lambda>_. traceOp failAt (str ''prune'') ())\<rparr>"

text \<open>A plan that changes nothing, and one that rewrites the config and one auth store.\<close>

definition example_unchanged_plan :: migrationPlan where
  "example_unchanged_plan =
     \<lparr>changed = False, counters = zeroCounters, stateDir = str ''/s'', configChanged = False,
      nextConfig = JObj [], authStoreChanges = [], payloadChanged = False, nextPayload = JObj [],
      secretsFilePath = str ''/s/x'', secretsFileTimeoutMs = 5000, sopsConfigPath = None,
      envChange = None, backupTargets = []\<rparr>"

definition example_changed_plan :: migrationPlan where
  "example_changed_plan =
     example_unchanged_plan
       \<lparr>changed := True, configChanged := True,
        authStoreChanges := [\<lparr>asc_path = str ''/s/a'', asc_nextStore = JObj []\<rparr>],
        backupTargets := [str ''/s/c'', str ''/s/a'']\<rparr>"

text \<open>
  A resolution context whose sops run prints an array, options with a caller env that
  maps \<open>OPENAI_API_KEY\<close> to the empty string, a plan environment whose secrets file
  decrypts to that array, and the parameters of a driver call.
\<close>

definition example_ctx :: resolveCtx where
  "example_ctx =
     \<lparr>rc_processEnv = (\<lambda>k. if k = str ''OPENAI_API_KEY'' then Some (str ''sk-process'') else None),
      rc_runExec = (\<lambda>_ _ _ _. Inr (str ''[1]'')),
      rc_jsonParse = (\<lambda>raw. if raw = str ''[1]'' then Inr (JArr [JNum 1])
                             else Inl (JsError (str ''SyntaxError'') (Some (str ''bad'')) None None)),
      rc_resolveUserPath = (\<lambda>p. p)\<rparr>"

definition example_options :: resolveOptions where
  "example_options =
     \<lparr>ro_config =
        JObj [(str ''secrets'',
               JObj [(str ''sources'',
                      JObj [(str ''file'',
                             JObj [(str ''type'', JStr (str ''sops'')),
                                   (str ''path'', JStr (str ''/s/x''))])])])],
      ro_env = Some (\<lambda>k. if k = str ''OPENAI_API_KEY'' then Some [] else None),
      ro_cache = Some None,
      ro_missingBinaryMessage = None\<rparr>"

definition example_array_env :: planEnv where
  "example_array_env =
     example_env
       \<lparr>pe_fs := (\<lambda>p. if p = str ''~/.openclaw/secrets.enc.json'' then File (str ''enc'') else Absent),
        pe_runExec := (\<lambda>_ _ _ _. Inr (str ''[1]'')),
        pe_jsonParse := (\<lambda>raw. if raw = str ''[1]'' then Inr (JArr [JNum 1])
                               else Inl (JsError (str ''SyntaxError'') (Some (str ''bad'')) None None))\<rparr>"

definition example_decryptParams :: decryptParams where
  "example_decryptParams =
     \<lparr>dp_path = str ''/s/x'', dp_timeoutMs = None, dp_missingBinaryMessage = str ''no sops'',
      dp_configPath = None\<rparr>"

definition example_encryptParams :: encryptParams where
  "example_encryptParams =
     \<lparr>ep_path = str ''/s/x'', ep_payload = JObj [], ep_timeoutMs = None,
      ep_missingBinaryMessage = str ''no sops'', ep_configPath = None\<rparr>"

definition example_enoent :: jserror where
  "example_enoent =
     JsError (str ''Error'') (Some (str ''spawn sops ENOENT'')) (Some (str ''ENOENT'')) None"

section \<open>Env scrubbing: refinement\<close>

lemmas string_eval =
  str_def isWhiteSpace_def isLineTerminator_def isIdentStart_def isIdentChar_def trim_def
  startsWith_def endsWith_def slice_1_m1_def Let_def

lemmas scrub_eval =
  parseEnvValue_def matchAssign_def matchEnvLine_def scrubEnvRaw_def spec_scrubEnv_def
  spec_scrubEnvWith_def spec_droppedWith_def spec_parseValue_def spec_parseValueTrimFirst_def

lemma str_dquote: "str ''\"'' = [0x22]"
  by (simp add: str_def)

lemma startsWith_single: "startsWith t [q] \<longleftrightarrow> t \<noteq> [] \<and> hd t = q"
  by (cases t) (simp_all add: startsWith_def)

lemma endsWith_single: "endsWith t [q] \<longleftrightarrow> t \<noteq> [] \<and> last t = q"
proof (cases t rule: rev_cases)
  case Nil
  then show ?thesis by (simp add: endsWith_def)
next
  case (snoc ys y)
  then show ?thesis by (simp add: endsWith_def)
qed

lemma slice_1_m1_eq: "slice_1_m1 t = butlast (tl t)"
  by (simp add: slice_1_m1_def butlast_conv_take drop_Suc)

text \<open>\<open>parseEnvValue\<close> trims first and takes the quotes off the trimmed text.\<close>

lemma spec_parseValueTrimFirst_eq: "spec_parseValueTrimFirst v = parseEnvValue v"
  by (auto simp: spec_parseValueTrimFirst_def parseEnvValue_def Let_def str_dquote startsWith_single
      endsWith_single slice_1_m1_eq)

text \<open>
  The two orders give the same value when nothing is there to trim: on a value without
  white space at either end whose quoted part, if it is quoted, has none at either end.
\<close>

lemma spec_parseValue_agrees:
  assumes "trim v = v" "2 \<le> length v \<or> (v \<noteq> [0x22] \<and> v \<noteq> [0x27])"
    "hd v = last v \<and> (hd v = 0x22 \<or> hd v = 0x27) \<longrightarrow> trim (butlast (tl v)) = butlast (tl v)"
  shows "spec_parseValue v = parseEnvValue v"
proof -
  have "v \<noteq> [] \<and> \<not> 2 \<le> length v \<Longrightarrow> \<exists>c. v = [c]"
    by (cases v) (auto simp: not_le less_Suc_eq)
  with assms show ?thesis
    unfolding spec_parseValueTrimFirst_eq[symmetric] spec_parseValue_def spec_parseValueTrimFirst_def Let_def
    by auto
qed

text \<open>The loop keeps, in order, the lines that are not dropped, and counts the others.\<close>

lemma scrubLoop_filter:
  "scrubLoop mv ak ls acc n =
     (acc @ filter (\<lambda>l. \<not> spec_droppedWith spec_parseValueTrimFirst mv ak l) ls,
      n + length (filter (spec_droppedWith spec_parseValueTrimFirst mv ak) ls))"
proof (induction ls arbitrary: acc n)
  case Nil
  then show ?case by simp
next
  case (Cons l ls)
  then show ?case
    by (simp add: spec_droppedWith_def spec_parseValueTrimFirst_eq split: option.splits prod.splits)
qed

text \<open>
  C1 (as amended). \<open>scrubEnvRaw\<close> returns the text unchanged, with nothing counted, when
  the set of migrated values or the allow-list is empty; for every other input it is the
  reference behaviour of the specification with the value trimmed first and the quotes
  taken off the trimmed text: lines split on \<open>\r?\n\<close>, a line dropped and counted
  exactly when it matches the pattern, its key is allow-listed and its value, parsed in
  that order, is a migrated value, every other line kept verbatim, the trailing line feed
  kept, an empty result ending with a line feed.
\<close>

theorem scrubEnvRaw_refines_spec:
  "scrubEnvRaw raw migratedValues allowedEnvKeys =
     (if migratedValues = {} \<or> allowedEnvKeys = {}
      then \<lparr>nextRaw = raw, removed = 0\<rparr>
      else spec_scrubEnvWith spec_parseValueTrimFirst raw migratedValues allowedEnvKeys)"
  by (simp add: scrubEnvRaw_def spec_scrubEnvWith_def scrubLoop_filter endsWith_single Let_def)

theorem scrubEnvRaw_refines_spec_witness:
  "scrubEnvRaw
     (str ''OPENAI_API_KEY=\"sk-openai\" '' @ [0x0D, 0x0A] @ str ''export UNRELATED=value'' @ [0x0A])
     {str ''sk-openai''} {str ''OPENAI_API_KEY''}
   = \<lparr>nextRaw = str ''export UNRELATED=value'' @ [0x0A], removed = 1\<rparr>"
proof -
  have "spec_scrubEnvWith spec_parseValueTrimFirst
     (str ''OPENAI_API_KEY=\"sk-openai\" '' @ [0x0D, 0x0A] @ str ''export UNRELATED=value'' @ [0x0A])
     {str ''sk-openai''} {str ''OPENAI_API_KEY''}
   = \<lparr>nextRaw = str ''export UNRELATED=value'' @ [0x0A], removed = 1\<rparr>"
    by code_simp
  then show ?thesis
    by (simp add: scrubEnvRaw_refines_spec)
qed

text \<open>
  C1 as stated fails in two ways. On the early return: with an empty allow-list the text
  comes back as it is, so an empty file gives an empty result, which does not end with a
  line feed, and a CR LF line break is not rewritten. On the order of parsing: a quoted
  value followed by a blank is a migrated value for \<open>scrubEnvRaw\<close>, which trims first,
  and the line is dropped, while the specification finds no quote at the end and keeps
  the line; a value with blanks inside the quotes is not a migrated value for
  \<open>scrubEnvRaw\<close>, which keeps the line, while the specification trims what was inside
  the quotes and drops it.
\<close>

theorem scrubEnvRaw_spec_counterexample:
  "nextRaw (scrubEnvRaw [] {str ''sk-openai''} {}) = [] \<and>
   nextRaw (spec_scrubEnv [] {str ''sk-openai''} {}) = [0x0A] \<and>
   nextRaw (scrubEnvRaw (str ''A=1'' @ [0x0D, 0x0A] @ str ''B=2'') {str ''sk-openai''} {})
     = str ''A=1'' @ [0x0D, 0x0A] @ str ''B=2'' \<and>
   nextRaw (spec_scrubEnv (str ''A=1'' @ [0x0D, 0x0A] @ str ''B=2'') {str ''sk-openai''} {})
     = str ''A=1'' @ [0x0A] @ str ''B=2'' \<and>
   scrubEnvRaw (str ''OPENAI_API_KEY=\"sk-openai\" '') {str ''sk-openai''} {str ''OPENAI_API_KEY''}
     = \<lparr>nextRaw = [0x0A], removed = 1\<rparr> \<and>
   spec_scrubEnv (str ''OPENAI_API_KEY=\"sk-openai\" '') {str ''sk-openai''} {str ''OPENAI_API_KEY''}
     = \<lparr>nextRaw = str ''OPENAI_API_KEY=\"sk-openai\" '', removed = 0\<rparr> \<and>
   scrubEnvRaw (str ''OPENAI_API_KEY=\" sk-openai \"'') {str ''sk-openai''} {str ''OPENAI_API_KEY''}
     = \<lparr>nextRaw = str ''OPENAI_API_KEY=\" sk-openai \"'', removed = 0\<rparr> \<and>
   spec_scrubEnv (str ''OPENAI_API_KEY=\" sk-openai \"'') {str ''sk-openai''} {str ''OPENAI_API_KEY''}
     = \<lparr>nextRaw = [0x0A], removed = 1\<rparr>"
  by code_simp

section \<open>The counters\<close>

lemmas bump_defs = bumpSecretsWritten_def bumpConfigRefs_def bumpAuthProfileRefs_def
  bumpPlaintextRemoved_def addMigratedValue_def

section \<open>Loops over entries\<close>

lemma map_of_objSet: "map_of (objSet kvs k v) k' = (if k' = k then Some v else map_of kvs k')"
  by (induction kvs) auto

lemma getProp_putPath_other:
  "k' \<noteq> k \<Longrightarrow> getProp (Some (putPath c (k # ks) v)) k' = getProp (Some c) k'"
  by (cases c) (simp_all add: getProp_def map_of_objSet)

lemma forEntries_trans:
  assumes step: "\<And>k x s x' s'. body k x s = Inr (x', s') \<Longrightarrow> R s s'"
    and refl: "\<And>s. R s s"
    and trans: "\<And>a b c. R a b \<Longrightarrow> R b c \<Longrightarrow> R a c"
    and run: "forEntries body es st = Inr (es', st')"
  shows "R st st'"
  using run
proof (induction es arbitrary: st es' st')
  case Nil
  then show ?case by (simp add: refl)
next
  case (Cons e es)
  obtain k x where e: "e = (k, x)" by (cases e)
  from Cons.prems e obtain x' s1 es1 where
    b: "body k x st = Inr (x', s1)" and r: "forEntries body es s1 = Inr (es1, st')"
    by (auto split: sum.splits)
  from step[OF b] Cons.IH[OF r] show ?case by (rule trans)
qed

lemma forEntries_member:
  assumes step: "\<And>k x s x' s'. body k x s = Inr (x', s') \<Longrightarrow> R s s'"
    and refl: "\<And>s. R s s"
    and trans: "\<And>a b c. R a b \<Longrightarrow> R b c \<Longrightarrow> R a c"
    and run: "forEntries body es st = Inr (es', st')"
    and mem: "(k, x) \<in> set es"
  shows "\<exists>s1 x' s2. body k x s1 = Inr (x', s2) \<and> R st s1 \<and> R s2 st'"
  using run mem
proof (induction es arbitrary: st es' st')
  case Nil
  then show ?case by simp
next
  case (Cons e es)
  obtain k0 x0 where e: "e = (k0, x0)" by (cases e)
  from Cons.prems(1) e obtain x' s1 es1 where
    b: "body k0 x0 st = Inr (x', s1)" and r: "forEntries body es s1 = Inr (es1, st')"
    by (auto split: sum.splits)
  show ?case
  proof (cases "(k, x) = e")
    case True
    with e b have "body k x st = Inr (x', s1)" by simp
    moreover have "R s1 st'"
      using forEntries_trans[of body R, OF step refl trans r] .
    ultimately show ?thesis using refl by blast
  next
    case False
    with Cons.prems(2) have "(k, x) \<in> set es" by simp
    from Cons.IH[OF r this] obtain sa xa sb where
      "body k x sa = Inr (xa, sb)" "R s1 sa" "R sb st'" by blast
    moreover have "R st s1" using step[OF b] .
    ultimately show ?thesis using trans by blast
  qed
qed

lemma writeSecret_migratedValues:
  "writeSecret i v st = Inr st' \<Longrightarrow> st_migratedValues st' = st_migratedValues st"
  by (auto simp: writeSecret_def bump_defs split: sum.splits if_splits)



lemma migrateProvider_mono:
  "migrateProvider k x st = Inr (x', st') \<Longrightarrow> st_migratedValues st \<subseteq> st_migratedValues st'"
  unfolding migrateProvider_def Let_def
  by (auto simp: bump_defs dest: writeSecret_migratedValues
      split: json.splits option.splits if_splits sum.splits)

lemma migrateProvider_adds:
  assumes "migrateProvider k (JObj kvs) st = Inr (x', st')"
    and "map_of kvs (str ''apiKey'') = Some (JStr s)" "s \<noteq> []"
  shows "trim s \<in> st_migratedValues st'"
  using assms
  by (auto simp: migrateProvider_def Let_def bump_defs isSecretRef_def isNonEmptyString_def
      split: sum.splits)

lemma migrateSkillEntry_mono:
  "migrateSkillEntry k x st = Inr (x', st') \<Longrightarrow> st_migratedValues st \<subseteq> st_migratedValues st'"
  unfolding migrateSkillEntry_def Let_def
  by (auto simp: bump_defs dest: writeSecret_migratedValues
      split: json.splits option.splits if_splits sum.splits)

lemma migrateSkillEntry_adds:
  assumes "migrateSkillEntry k (JObj kvs) st = Inr (x', st')"
    and "map_of kvs (str ''apiKey'') = Some (JStr s)" "s \<noteq> []"
  shows "trim s \<in> st_migratedValues st'"
  using assms
  by (auto simp: migrateSkillEntry_def Let_def bump_defs isSecretRef_def isNonEmptyString_def
      isRecord_def split: sum.splits)

lemma migrateGoogleChatServiceAccount_migratedValues:
  "migrateGoogleChatServiceAccount account pointerId st = Inr (account', st') \<Longrightarrow>
   st_migratedValues st' = st_migratedValues st"
  unfolding migrateGoogleChatServiceAccount_def Let_def
  by (auto split: if_splits option.splits sum.splits simp: bump_defs
      dest: writeSecret_migratedValues)

lemma migrateGoogleChatAccount_migratedValues:
  "migrateGoogleChatAccount k x st = Inr (x', st') \<Longrightarrow>
   st_migratedValues st' = st_migratedValues st"
  unfolding migrateGoogleChatAccount_def
  by (auto dest: migrateGoogleChatServiceAccount_migratedValues split: json.splits sum.splits)

lemma forEntries_googleChat_migratedValues:
  assumes "forEntries migrateGoogleChatAccount es a = Inr (es', b)"
  shows "st_migratedValues b = st_migratedValues a"
  using forEntries_trans[of migrateGoogleChatAccount
      "\<lambda>s s'. st_migratedValues s' = st_migratedValues s", OF _ _ _ assms]
  by (simp add: migrateGoogleChatAccount_migratedValues)

lemma migrateGoogleChatSecrets_migratedValues:
  assumes "migrateGoogleChatSecrets config st = Inr (config', st')"
  shows "st_migratedValues st' = st_migratedValues st"
proof (cases "getProp (getProp (Some config) (str ''channels'')) (str ''googlechat'')")
  case None
  with assms show ?thesis by (simp add: migrateGoogleChatSecrets_def)
next
  case (Some g)
  show ?thesis
  proof (cases g)
    case (JObj googlechat)
    with Some assms obtain googlechat' st1 where
      top: "migrateGoogleChatServiceAccount googlechat (str ''/channels/googlechat'') st
              = Inr (googlechat', st1)"
      and rest: "(case map_of googlechat' (str ''accounts'') of
                    Some (JObj accounts) \<Rightarrow>
                      (case forEntries migrateGoogleChatAccount accounts st1 of
                         Inl e \<Rightarrow> Inl e
                       | Inr (accounts', st'') \<Rightarrow>
                           Inr (putPath config [str ''channels'', str ''googlechat'']
                                  (JObj (objSet googlechat' (str ''accounts'') (JObj accounts'))),
                                st''))
                  | _ \<Rightarrow>
                      Inr (putPath config [str ''channels'', str ''googlechat''] (JObj googlechat'),
                           st1)) = Inr (config', st')"
      by (auto simp: migrateGoogleChatSecrets_def split: sum.splits)
    have 1: "st_migratedValues st1 = st_migratedValues st"
      using migrateGoogleChatServiceAccount_migratedValues[OF top] .
    have 2: "st_migratedValues st' = st_migratedValues st1"
    proof (cases "\<exists>accounts. map_of googlechat' (str ''accounts'') = Some (JObj accounts)")
      case True
      then obtain accounts where a: "map_of googlechat' (str ''accounts'') = Some (JObj accounts)"
        by blast
      with rest obtain accounts' where
        "forEntries migrateGoogleChatAccount accounts st1 = Inr (accounts', st')"
        by (auto split: sum.splits)
      then show ?thesis by (rule forEntries_googleChat_migratedValues)
    next
      case False
      with rest have "st' = st1"
        by (auto split: option.splits json.splits)
      then show ?thesis by simp
    qed
    from 1 2 show ?thesis by simp
  qed (use Some assms in \<open>simp_all add: migrateGoogleChatSecrets_def\<close>)
qed

lemma forEntries_providers_mono:
  assumes "forEntries migrateProvider es a = Inr (es', b)"
  shows "st_migratedValues a \<subseteq> st_migratedValues b"
  using forEntries_trans[of migrateProvider
      "\<lambda>s s'. st_migratedValues s \<subseteq> st_migratedValues s'", OF _ _ _ assms]
  by (blast dest: migrateProvider_mono)

lemma forEntries_skills_mono:
  assumes "forEntries migrateSkillEntry es a = Inr (es', b)"
  shows "st_migratedValues a \<subseteq> st_migratedValues b"
  using forEntries_trans[of migrateSkillEntry
      "\<lambda>s s'. st_migratedValues s \<subseteq> st_migratedValues s'", OF _ _ _ assms]
  by (blast dest: migrateSkillEntry_mono)

lemma migrateModelProviderSecrets_mono:
  assumes "migrateModelProviderSecrets config st = Inr (config', st')"
  shows "st_migratedValues st \<subseteq> st_migratedValues st'"
  using assms unfolding migrateModelProviderSecrets_def Let_def
  by (auto dest: forEntries_providers_mono split: if_splits option.splits json.splits sum.splits)

lemma migrateSkillEntrySecrets_mono:
  assumes "migrateSkillEntrySecrets config st = Inr (config', st')"
  shows "st_migratedValues st \<subseteq> st_migratedValues st'"
  using assms unfolding migrateSkillEntrySecrets_def Let_def
  by (auto dest: forEntries_skills_mono split: if_splits option.splits json.splits sum.splits)

lemma forEntries_providers_adds:
  assumes run: "forEntries migrateProvider es a = Inr (es', b)"
    and mem: "(k, JObj kvs) \<in> set es"
    and key: "map_of kvs (str ''apiKey'') = Some (JStr s)" "s \<noteq> []"
  shows "trim s \<in> st_migratedValues b"
proof -
  from forEntries_member[of migrateProvider
      "\<lambda>s s'. st_migratedValues s \<subseteq> st_migratedValues s'", OF _ _ _ run mem]
  obtain s1 x' s2 where "migrateProvider k (JObj kvs) s1 = Inr (x', s2)"
    "st_migratedValues s2 \<subseteq> st_migratedValues b"
    by (blast dest: migrateProvider_mono)
  with migrateProvider_adds[OF _ key] show ?thesis by blast
qed

lemma forEntries_skills_adds:
  assumes run: "forEntries migrateSkillEntry es a = Inr (es', b)"
    and mem: "(k, JObj kvs) \<in> set es"
    and key: "map_of kvs (str ''apiKey'') = Some (JStr s)" "s \<noteq> []"
  shows "trim s \<in> st_migratedValues b"
proof -
  from forEntries_member[of migrateSkillEntry
      "\<lambda>s s'. st_migratedValues s \<subseteq> st_migratedValues s'", OF _ _ _ run mem]
  obtain s1 x' s2 where "migrateSkillEntry k (JObj kvs) s1 = Inr (x', s2)"
    "st_migratedValues s2 \<subseteq> st_migratedValues b"
    by (blast dest: migrateSkillEntry_mono)
  with migrateSkillEntry_adds[OF _ key] show ?thesis by blast
qed

lemma migrateModelProviderSecrets_adds:
  assumes run: "migrateModelProviderSecrets config st = Inr (config', st')"
    and ps: "getProp (getProp (Some config) (str ''models'')) (str ''providers'') = Some (JObj es)"
    and mem: "(k, JObj kvs) \<in> set es"
    and key: "map_of kvs (str ''apiKey'') = Some (JStr s)" "s \<noteq> []"
  shows "trim s \<in> st_migratedValues st'"
proof -
  from run ps obtain es' where "forEntries migrateProvider es st = Inr (es', st')"
    by (auto simp: migrateModelProviderSecrets_def truthy_def split: sum.splits)
  from forEntries_providers_adds[OF this mem key] show ?thesis .
qed

lemma migrateSkillEntrySecrets_adds:
  assumes run: "migrateSkillEntrySecrets config st = Inr (config', st')"
    and ps: "getProp (getProp (Some config) (str ''skills'')) (str ''entries'') = Some (JObj es)"
    and mem: "(k, JObj kvs) \<in> set es"
    and key: "map_of kvs (str ''apiKey'') = Some (JStr s)" "s \<noteq> []"
  shows "trim s \<in> st_migratedValues st'"
proof -
  from run ps obtain es' where "forEntries migrateSkillEntry es st = Inr (es', st')"
    by (auto simp: migrateSkillEntrySecrets_def truthy_def split: sum.splits)
  from forEntries_skills_adds[OF this mem key] show ?thesis .
qed

section \<open>Migrated values of the auth stores\<close>

lemma migrateProfileField_mono:
  "migrateProfileField field refField scope profileId pv cst = Inr (pv', cst') \<Longrightarrow>
   st_migratedValues (snd cst) \<subseteq> st_migratedValues (snd cst')"
  unfolding migrateProfileField_def Let_def
  by (auto simp: bump_defs dest: writeSecret_migratedValues split: if_splits sum.splits)

lemma migrateProfileField_adds:
  assumes "migrateProfileField field refField scope profileId pv cst = Inr (pv', cst')"
    and "\<not> isSecretRef (map_of pv refField)"
    and "map_of pv field = Some (JStr s)" "trim s \<noteq> []"
  shows "trim s \<in> st_migratedValues (snd cst')"
proof -
  have "s \<noteq> []" using assms(4) by (auto simp: trim_def)
  with assms show ?thesis
    unfolding migrateProfileField_def Let_def
    by (auto simp: bump_defs isNonEmptyString_def split: sum.splits)
qed

lemma migrateProfile_mono:
  "migrateProfile scope profileId x cst = Inr (x', cst') \<Longrightarrow>
   st_migratedValues (snd cst) \<subseteq> st_migratedValues (snd cst')"
  unfolding migrateProfile_def
  by (auto dest: migrateProfileField_mono split: json.splits if_splits sum.splits)

lemma migrateProfile_adds_key:
  assumes "migrateProfile scope profileId (JObj pv) cst = Inr (x', cst')"
    and "map_of pv (str ''type'') = Some (JStr (str ''api_key''))"
    and "\<not> isSecretRef (map_of pv (str ''keyRef''))"
    and "map_of pv (str ''key'') = Some (JStr s)" "trim s \<noteq> []"
  shows "trim s \<in> st_migratedValues (snd cst')"
proof -
  from assms(1,2) obtain pv' where
    "migrateProfileField (str ''key'') (str ''keyRef'') scope profileId pv cst = Inr (pv', cst')"
    by (auto simp: migrateProfile_def split: sum.splits)
  from migrateProfileField_adds[OF this assms(3,4,5)] show ?thesis .
qed

lemma api_key_neq_token: "str ''api_key'' \<noteq> str ''token''"
  by (simp add: str_def)

lemma migrateProfile_adds_token:
  assumes "migrateProfile scope profileId (JObj pv) cst = Inr (x', cst')"
    and "map_of pv (str ''type'') = Some (JStr (str ''token''))"
    and "\<not> isSecretRef (map_of pv (str ''tokenRef''))"
    and "map_of pv (str ''token'') = Some (JStr s)" "trim s \<noteq> []"
  shows "trim s \<in> st_migratedValues (snd cst')"
proof -
  from assms(1,2) api_key_neq_token obtain pv' where
    "migrateProfileField (str ''token'') (str ''tokenRef'') scope profileId pv cst = Inr (pv', cst')"
    by (auto simp: migrateProfile_def split: sum.splits)
  from migrateProfileField_adds[OF this assms(3,4,5)] show ?thesis .
qed

lemma forEntries_profiles_mono:
  assumes "forEntries (migrateProfile scope) es a = Inr (es', b)"
  shows "st_migratedValues (snd a) \<subseteq> st_migratedValues (snd b)"
proof (rule forEntries_trans[where R = "\<lambda>s s'. st_migratedValues (snd s) \<subseteq> st_migratedValues (snd s')",
      OF _ _ _ assms])
  fix k x s x' s'
  assume "migrateProfile scope k x s = Inr (x', s')"
  then show "st_migratedValues (snd s) \<subseteq> st_migratedValues (snd s')"
    by (rule migrateProfile_mono)
qed auto

lemma migrateAuthStoreSecrets_mono:
  assumes "migrateAuthStoreSecrets store scope st = Inr (store', c, st')"
  shows "st_migratedValues st \<subseteq> st_migratedValues st'"
proof (cases "\<exists>profiles. map_of store (str ''profiles'') = Some (JObj profiles)")
  case True
  then obtain profiles where "map_of store (str ''profiles'') = Some (JObj profiles)" by blast
  with assms obtain profiles' where
    "forEntries (migrateProfile scope) profiles (False, st) = Inr (profiles', c, st')"
    by (auto simp: migrateAuthStoreSecrets_def split: sum.splits)
  from forEntries_profiles_mono[OF this] show ?thesis by simp
next
  case False
  with assms have "st' = st"
    by (auto simp: migrateAuthStoreSecrets_def split: option.splits json.splits)
  then show ?thesis by simp
qed

text \<open>A profile whose plaintext secret the store migration has to move.\<close>

lemma migrateAuthStoreSecrets_adds:
  assumes run: "migrateAuthStoreSecrets store scope st = Inr (store', c, st')"
    and ps: "map_of store (str ''profiles'') = Some (JObj profiles)"
    and mem: "(profileId, JObj pv) \<in> set profiles"
    and site:
      "(map_of pv (str ''type'') = Some (JStr (str ''api_key'')) \<and>
        \<not> isSecretRef (map_of pv (str ''keyRef'')) \<and> map_of pv (str ''key'') = Some (JStr s)) \<or>
       (map_of pv (str ''type'') = Some (JStr (str ''token'')) \<and>
        \<not> isSecretRef (map_of pv (str ''tokenRef'')) \<and> map_of pv (str ''token'') = Some (JStr s))"
    and ne: "trim s \<noteq> []"
  shows "trim s \<in> st_migratedValues st'"
proof -
  from run ps obtain profiles' where
    loop: "forEntries (migrateProfile scope) profiles (False, st) = Inr (profiles', c, st')"
    by (auto simp: migrateAuthStoreSecrets_def split: sum.splits)
  have "\<exists>s1 x' s2. migrateProfile scope profileId (JObj pv) s1 = Inr (x', s2) \<and>
          st_migratedValues (snd (False, st)) \<subseteq> st_migratedValues (snd s1) \<and>
          st_migratedValues (snd s2) \<subseteq> st_migratedValues (snd (c, st'))"
  proof (rule forEntries_member[where R = "\<lambda>s s'. st_migratedValues (snd s) \<subseteq> st_migratedValues (snd s')",
        OF _ _ _ loop mem])
    fix k x s x' s'
    assume "migrateProfile scope k x s = Inr (x', s')"
    then show "st_migratedValues (snd s) \<subseteq> st_migratedValues (snd s')"
      by (rule migrateProfile_mono)
  qed auto
  then obtain s1 x' s2 where
    step: "migrateProfile scope profileId (JObj pv) s1 = Inr (x', s2)"
    and sub: "st_migratedValues (snd s2) \<subseteq> st_migratedValues st'"
    by auto
  from site have "trim s \<in> st_migratedValues (snd s2)"
    using migrateProfile_adds_key[OF step _ _ _ ne] migrateProfile_adds_token[OF step _ _ _ ne]
    by blast
  with sub show ?thesis by blast
qed

lemma authStoreStep_cases:
  assumes "authStoreStep pe p (chs, st) = Inr (chs', st')"
  shows "(chs' = chs \<and> st' = st) \<or>
         (\<exists>raw store store'.
            pe_fs pe p = File raw \<and> pe_jsonParse pe raw = Inr (JObj store) \<and>
            migrateAuthStoreSecrets store (pe_authStoreScope pe p) st = Inr (store', False, st') \<and>
            chs' = chs) \<or>
         (\<exists>raw store store'.
            pe_fs pe p = File raw \<and> pe_jsonParse pe raw = Inr (JObj store) \<and>
            migrateAuthStoreSecrets store (pe_authStoreScope pe p) st = Inr (store', True, st') \<and>
            chs' = chs @ [\<lparr>asc_path = p, asc_nextStore = JObj store'\<rparr>])"
  using assms unfolding authStoreStep_def existsSync_def readFileSync_def
  by (auto split: if_splits sum.splits json.splits fileState.splits)

lemma authStoreStep_mono:
  assumes "authStoreStep pe p (chs, st) = Inr (chs', st')"
  shows "st_migratedValues st \<subseteq> st_migratedValues st'"
  using authStoreStep_cases[OF assms] by (auto dest: migrateAuthStoreSecrets_mono)

lemma authStoreLoop_mono:
  "authStoreLoop pe ps (chs, st) = Inr (chs', st') \<Longrightarrow>
   st_migratedValues st \<subseteq> st_migratedValues st'"
proof (induction ps arbitrary: chs st)
  case Nil
  then show ?case by simp
next
  case (Cons p ps)
  then obtain c1 s1 where 1: "authStoreStep pe p (chs, st) = Inr (c1, s1)"
    and 2: "authStoreLoop pe ps (c1, s1) = Inr (chs', st')"
    by (auto split: sum.splits)
  from authStoreStep_mono[OF 1] Cons.IH[OF 2] show ?case by blast
qed

lemma authStoreStep_adds:
  assumes run: "authStoreStep pe p (chs, st) = Inr (chs', st')"
    and fl: "pe_fs pe p = File raw" "pe_jsonParse pe raw = Inr (JObj store)"
    and ps: "map_of store (str ''profiles'') = Some (JObj profiles)"
    and mem: "(profileId, JObj pv) \<in> set profiles"
    and site:
      "(map_of pv (str ''type'') = Some (JStr (str ''api_key'')) \<and>
        \<not> isSecretRef (map_of pv (str ''keyRef'')) \<and> map_of pv (str ''key'') = Some (JStr s)) \<or>
       (map_of pv (str ''type'') = Some (JStr (str ''token'')) \<and>
        \<not> isSecretRef (map_of pv (str ''tokenRef'')) \<and> map_of pv (str ''token'') = Some (JStr s))"
    and ne: "trim s \<noteq> []"
  shows "trim s \<in> st_migratedValues st'"
proof -
  from run fl obtain store' c where
    m: "migrateAuthStoreSecrets store (pe_authStoreScope pe p) st = Inr (store', c, st')"
    unfolding authStoreStep_def existsSync_def readFileSync_def
    by (auto split: sum.splits if_splits)
  from migrateAuthStoreSecrets_adds[OF m ps mem site ne] show ?thesis .
qed

lemma authStoreLoop_adds:
  assumes run: "authStoreLoop pe ps (chs, st) = Inr (chs', st')"
    and p: "p \<in> set ps"
    and fl: "pe_fs pe p = File raw" "pe_jsonParse pe raw = Inr (JObj store)"
    and prof: "map_of store (str ''profiles'') = Some (JObj profiles)"
    and mem: "(profileId, JObj pv) \<in> set profiles"
    and site:
      "(map_of pv (str ''type'') = Some (JStr (str ''api_key'')) \<and>
        \<not> isSecretRef (map_of pv (str ''keyRef'')) \<and> map_of pv (str ''key'') = Some (JStr s)) \<or>
       (map_of pv (str ''type'') = Some (JStr (str ''token'')) \<and>
        \<not> isSecretRef (map_of pv (str ''tokenRef'')) \<and> map_of pv (str ''token'') = Some (JStr s))"
    and ne: "trim s \<noteq> []"
  shows "trim s \<in> st_migratedValues st'"
  using run p
proof (induction ps arbitrary: chs st)
  case Nil
  then show ?case by simp
next
  case (Cons q qs)
  then obtain c1 s1 where 1: "authStoreStep pe q (chs, st) = Inr (c1, s1)"
    and 2: "authStoreLoop pe qs (c1, s1) = Inr (chs', st')"
    by (auto split: sum.splits)
  show ?case
  proof (cases "p = q")
    case True
    from authStoreStep_adds[OF 1[folded True] fl prof mem site ne] authStoreLoop_mono[OF 2]
    show ?thesis by blast
  next
    case False
    with Cons.prems(2) have "p \<in> set qs" by simp
    from Cons.IH[OF 2 this] show ?thesis .
  qed
qed

section \<open>The parts of a plan\<close>

lemma buildMigrationPlan_Inr:
  assumes "buildMigrationPlan pe = Inr plan"
  obtains payload0 config3 st config4 envRes where
    "pe_snapshotValid pe"
    "decryptSopsJson pe (fs_path (resolveFileSource pe (pe_snapshotConfig pe)))
       (fs_timeoutMs (resolveFileSource pe (pe_snapshotConfig pe)))
       (resolveExistingSopsConfigPath pe) = Inr payload0"
    "runMigrations pe (pe_snapshotConfig pe) payload0 = Inr (config3, authStoreChanges plan, st)"
    "(if secretsWritten (st_counters st) > 0 \<and>
         \<not> hadConfiguredSource (resolveFileSource pe (pe_snapshotConfig pe))
      then synthesizeFileSource config3 (resolveDefaultSecretsConfigPath pe)
      else Inr config3) = Inr config4"
    "planEnvChange pe (st_migratedValues st) = Inr envRes"
    "nextConfig plan = config4"
    "nextPayload plan = st_payload st"
    "envChange plan = map_option fst envRes"
    "secretsWritten (counters plan) = secretsWritten (st_counters st)"
    "secretsFilePath plan = fs_path (resolveFileSource pe (pe_snapshotConfig pe))"
    "backupTargets plan =
       collectBackupTargets (configChanged plan) (pe_configPath pe) (payloadChanged plan)
         (secretsFilePath plan) (authStoreChanges plan) (envChange plan)"
proof -
  from assms have v: "pe_snapshotValid pe"
    by (auto simp: buildMigrationPlan_def split: if_splits)
  let ?fs = "resolveFileSource pe (pe_snapshotConfig pe)"
  from assms v obtain payload0 where
    d: "decryptSopsJson pe (fs_path ?fs) (fs_timeoutMs ?fs) (resolveExistingSopsConfigPath pe)
          = Inr payload0"
    by (auto simp: buildMigrationPlan_def Let_def split: sum.splits)
  from assms v d obtain config3 changes st where
    r: "runMigrations pe (pe_snapshotConfig pe) payload0 = Inr (config3, changes, st)"
    by (auto simp: buildMigrationPlan_def Let_def split: sum.splits)
  let ?syn = "(if secretsWritten (st_counters st) > 0 \<and> \<not> hadConfiguredSource ?fs
      then synthesizeFileSource config3 (resolveDefaultSecretsConfigPath pe)
      else Inr config3)"
  from assms v d r obtain config4 where s: "?syn = Inr config4"
    by (cases ?syn) (auto simp: buildMigrationPlan_def Let_def split: sum.splits)
  from assms v d r s obtain envRes where e: "planEnvChange pe (st_migratedValues st) = Inr envRes"
    by (cases "planEnvChange pe (st_migratedValues st)")
      (auto simp: buildMigrationPlan_def Let_def split: sum.splits)
  from assms v d r s e have p: "plan =
      \<lparr>changed =
         (\<not> isDeepStrictEqual (Some (pe_snapshotConfig pe)) (Some config4) \<or>
          \<not> isDeepStrictEqual (Some payload0) (Some (st_payload st)) \<or> length changes > 0 \<or>
          map_option fst envRes \<noteq> None),
       counters =
         (case envRes of
            None \<Rightarrow> (st_counters st)\<lparr>authStoresChanged := length changes\<rparr>
          | Some r \<Rightarrow> (st_counters st)\<lparr>authStoresChanged := length changes,
                                         envEntriesRemoved := snd r\<rparr>),
       stateDir = pe_stateDir pe,
       configChanged = (\<not> isDeepStrictEqual (Some (pe_snapshotConfig pe)) (Some config4)),
       nextConfig = config4,
       authStoreChanges = changes,
       payloadChanged = (\<not> isDeepStrictEqual (Some payload0) (Some (st_payload st))),
       nextPayload = st_payload st,
       secretsFilePath = fs_path ?fs,
       secretsFileTimeoutMs = fs_timeoutMs ?fs,
       sopsConfigPath = resolveExistingSopsConfigPath pe,
       envChange = map_option fst envRes,
       backupTargets =
         collectBackupTargets (\<not> isDeepStrictEqual (Some (pe_snapshotConfig pe)) (Some config4))
           (pe_configPath pe) (\<not> isDeepStrictEqual (Some payload0) (Some (st_payload st)))
           (fs_path ?fs) changes (map_option fst envRes)\<rparr>"
    by (auto simp: buildMigrationPlan_def Let_def split: option.splits)
  have sw: "secretsWritten (counters plan) = secretsWritten (st_counters st)"
    by (simp add: p split: option.splits)
  show ?thesis
    by (rule that[OF v d _ s e _ _ _ sw]) (simp_all add: p r)
qed

section \<open>The file source and the migrated values of a plan\<close>

lemma key_neqs:
  "str ''secrets'' \<noteq> str ''models''" "str ''secrets'' \<noteq> str ''skills''"
  "str ''secrets'' \<noteq> str ''channels''" "str ''skills'' \<noteq> str ''models''"
  by (simp_all add: str_def)

lemma migrateModelProviderSecrets_other:
  assumes "migrateModelProviderSecrets config st = Inr (config', st')" "k \<noteq> str ''models''"
  shows "getProp (Some config') k = getProp (Some config) k"
  using assms unfolding migrateModelProviderSecrets_def Let_def
  by (auto simp: getProp_putPath_other split: if_splits option.splits json.splits sum.splits)

lemma migrateSkillEntrySecrets_other:
  assumes "migrateSkillEntrySecrets config st = Inr (config', st')" "k \<noteq> str ''skills''"
  shows "getProp (Some config') k = getProp (Some config) k"
  using assms unfolding migrateSkillEntrySecrets_def Let_def
  by (auto simp: getProp_putPath_other split: if_splits option.splits json.splits sum.splits)

lemma migrateGoogleChatSecrets_other:
  assumes "migrateGoogleChatSecrets config st = Inr (config', st')" "k \<noteq> str ''channels''"
  shows "getProp (Some config') k = getProp (Some config) k"
  using assms unfolding migrateGoogleChatSecrets_def
  by (auto simp: getProp_putPath_other split: option.splits json.splits sum.splits)

lemma runMigrations_Inr:
  assumes "runMigrations pe config0 payload0 = Inr (config3, changes, st)"
  obtains config1 st1 config2 st2 st3 where
    "migrateModelProviderSecrets config0
       \<lparr>st_payload = payload0, st_counters = zeroCounters, st_migratedValues = {}\<rparr>
       = Inr (config1, st1)"
    "migrateSkillEntrySecrets config1 st1 = Inr (config2, st2)"
    "migrateGoogleChatSecrets config2 st2 = Inr (config3, st3)"
    "authStoreLoop pe (pe_authStorePaths pe) ([], st3) = Inr (changes, st)"
  using assms unfolding runMigrations_def Let_def
  by (auto split: sum.splits)





text \<open>
  C2 (as amended). When planning succeeds, the set handed to the env scrub holds the
  trimmed value of every provider \<open>apiKey\<close> and skill entry \<open>apiKey\<close> that is a non-empty
  string, and of every auth-profile \<open>key\<close> or \<open>token\<close> that is migrated. The Google
  Chat migration moves its values into the payload and leaves that set as it was.
\<close>

theorem migratedValues_reach_env_scrub:
  assumes "buildMigrationPlan pe = Inr plan"
  shows "\<exists>mv envRes.
     planEnvChange pe mv = Inr envRes \<and> envChange plan = map_option fst envRes \<and>
     (\<forall>es k kvs s.
        getProp (getProp (Some (pe_snapshotConfig pe)) (str ''models'')) (str ''providers'')
          = Some (JObj es) \<and>
        (k, JObj kvs) \<in> set es \<and> map_of kvs (str ''apiKey'') = Some (JStr s) \<and> s \<noteq> []
        \<longrightarrow> trim s \<in> mv) \<and>
     (\<forall>es k kvs s.
        getProp (getProp (Some (pe_snapshotConfig pe)) (str ''skills'')) (str ''entries'')
          = Some (JObj es) \<and>
        (k, JObj kvs) \<in> set es \<and> map_of kvs (str ''apiKey'') = Some (JStr s) \<and> s \<noteq> []
        \<longrightarrow> trim s \<in> mv) \<and>
     (\<forall>p raw store profiles profileId pv s.
        p \<in> set (pe_authStorePaths pe) \<and> pe_fs pe p = File raw \<and>
        pe_jsonParse pe raw = Inr (JObj store) \<and>
        map_of store (str ''profiles'') = Some (JObj profiles) \<and>
        (profileId, JObj pv) \<in> set profiles \<and>
        ((map_of pv (str ''type'') = Some (JStr (str ''api_key'')) \<and>
          \<not> isSecretRef (map_of pv (str ''keyRef'')) \<and> map_of pv (str ''key'') = Some (JStr s)) \<or>
         (map_of pv (str ''type'') = Some (JStr (str ''token'')) \<and>
          \<not> isSecretRef (map_of pv (str ''tokenRef'')) \<and>
          map_of pv (str ''token'') = Some (JStr s))) \<and>
        trim s \<noteq> []
        \<longrightarrow> trim s \<in> mv) \<and>
     (\<forall>config st config' st'.
        migrateGoogleChatSecrets config st = Inr (config', st')
        \<longrightarrow> st_migratedValues st' = st_migratedValues st)"
proof -
  from assms obtain payload0 config3 st envRes where
    r: "runMigrations pe (pe_snapshotConfig pe) payload0 = Inr (config3, authStoreChanges plan, st)"
    and e: "planEnvChange pe (st_migratedValues st) = Inr envRes"
    and c: "envChange plan = map_option fst envRes"
    by (rule buildMigrationPlan_Inr)
  let ?c0 = "pe_snapshotConfig pe"
  from r obtain config1 st1 config2 st2 st3 where
    1: "migrateModelProviderSecrets ?c0
       \<lparr>st_payload = payload0, st_counters = zeroCounters, st_migratedValues = {}\<rparr>
       = Inr (config1, st1)"
    and 2: "migrateSkillEntrySecrets config1 st1 = Inr (config2, st2)"
    and 3: "migrateGoogleChatSecrets config2 st2 = Inr (config3, st3)"
    and 4: "authStoreLoop pe (pe_authStorePaths pe) ([], st3) = Inr (authStoreChanges plan, st)"
    by (rule runMigrations_Inr)
  have m12: "st_migratedValues st1 \<subseteq> st_migratedValues st2"
    by (rule migrateSkillEntrySecrets_mono[OF 2])
  have m23: "st_migratedValues st3 = st_migratedValues st2"
    by (rule migrateGoogleChatSecrets_migratedValues[OF 3])
  have m34: "st_migratedValues st3 \<subseteq> st_migratedValues st"
    by (rule authStoreLoop_mono[OF 4])
  have prov: "trim s \<in> st_migratedValues st"
    if "getProp (getProp (Some ?c0) (str ''models'')) (str ''providers'') = Some (JObj es)"
      "(k, JObj kvs) \<in> set es" "map_of kvs (str ''apiKey'') = Some (JStr s)" "s \<noteq> []"
    for es k kvs s
    using migrateModelProviderSecrets_adds[OF 1 that] m12 m23 m34 by blast
  have skill: "trim s \<in> st_migratedValues st"
    if a: "getProp (getProp (Some ?c0) (str ''skills'')) (str ''entries'') = Some (JObj es)"
      and b: "(k, JObj kvs) \<in> set es" "map_of kvs (str ''apiKey'') = Some (JStr s)" "s \<noteq> []"
    for es k kvs s
  proof -
    from a migrateModelProviderSecrets_other[OF 1 key_neqs(4)]
    have "getProp (getProp (Some config1) (str ''skills'')) (str ''entries'') = Some (JObj es)"
      by simp
    from migrateSkillEntrySecrets_adds[OF 2 this b] m23 m34 show ?thesis by blast
  qed
  have auth: "trim s \<in> st_migratedValues st"
    if "p \<in> set (pe_authStorePaths pe)" "pe_fs pe p = File raw"
      "pe_jsonParse pe raw = Inr (JObj store)"
      "map_of store (str ''profiles'') = Some (JObj profiles)"
      "(profileId, JObj pv) \<in> set profiles"
      "(map_of pv (str ''type'') = Some (JStr (str ''api_key'')) \<and>
          \<not> isSecretRef (map_of pv (str ''keyRef'')) \<and> map_of pv (str ''key'') = Some (JStr s)) \<or>
         (map_of pv (str ''type'') = Some (JStr (str ''token'')) \<and>
          \<not> isSecretRef (map_of pv (str ''tokenRef'')) \<and>
          map_of pv (str ''token'') = Some (JStr s))"
      "trim s \<noteq> []"
    for p raw store profiles profileId pv s
    using authStoreLoop_adds[OF 4 that] .
  have gc: "st_migratedValues st' = st_migratedValues s0"
    if "migrateGoogleChatSecrets c0 s0 = Inr (c', st')" for c0 s0 c' st'
    using migrateGoogleChatSecrets_migratedValues[OF that] .
  show ?thesis
    apply (rule exI[of _ "st_migratedValues st"])
    apply (rule exI[of _ envRes])
    apply (intro conjI allI impI)
        apply (rule e)
       apply (rule c)
      apply (elim conjE, erule (3) prov)
     apply (elim conjE, erule (3) skill)
    apply (elim conjE, erule (6) auth)
    apply (erule gc)
    done
qed

lemmas json_eval =
  getProp_def truthy_def isSecretRef_def isEnvId_def isNonEmptyString_def isRecord_def hasKeys_def
  isDeepStrictEqual_def fileRef_def objDelete_def normalizePositiveInt_def
  readJsonPointer_def readJsonPointerRaw_def setJsonPointer_def parseJsonPointer_def
  parseArrayIndex_def newError_def newErrorCause_def typeError_def

lemmas migrate_eval =
  runMigrations_def migrateModelProviderSecrets_def migrateSkillEntrySecrets_def
  migrateGoogleChatSecrets_def migrateGoogleChatServiceAccount_def migrateGoogleChatAccount_def
  googleChatAccountPointer_def migrateProvider_def migrateSkillEntry_def
  migrateAuthStoreSecrets_def migrateProfile_def migrateProfileField_def authStoreStep_def
  writeSecret_def providerPointer_def skillPointer_def authProfilePointer_def
  existsSync_def readFileSync_def bump_defs zeroCounters_def

lemmas plan_eval =
  buildMigrationPlan_def resolveFileSource_def configFileSource_def decryptSopsJson_def
  resolveExistingSopsConfigPath_def resolveDefaultSecretsConfigPath_def envSet_def
  DEFAULT_SECRETS_FILE_PATH_def DEFAULT_SOPS_TIMEOUT_MS_def planEnvChange_def
  synthesizeFileSource_def orEmptyObject_def sopsFileSource_def collectBackupTargets_def
  setAdd_def invalidConfigError_def

lemmas example_eval =
  example_env_def example_googlechat_env_def example_googlechat_raw_def example_scrub_env_def
  example_scrub_raw_def example_config_def example_store_def
  example_store_text_def

lemma example_plan_ok: "\<exists>plan. buildMigrationPlan example_env = Inr plan"
proof -
  have "case buildMigrationPlan example_env of Inr _ \<Rightarrow> True | Inl _ \<Rightarrow> False"
    by (simp add: plan_eval migrate_eval json_eval example_eval string_eval)
  then show ?thesis by (cases "buildMigrationPlan example_env") auto
qed



lemma example_scrub_plan_ok: "\<exists>plan. buildMigrationPlan example_scrub_env = Inr plan"
proof -
  have "case buildMigrationPlan example_scrub_env of Inr _ \<Rightarrow> True | Inl _ \<Rightarrow> False"
    by (simp add: plan_eval migrate_eval json_eval example_eval string_eval scrub_eval)
  then show ?thesis by (cases "buildMigrationPlan example_scrub_env") auto
qed

theorem migratedValues_reach_env_scrub_witness:
  "\<exists>plan. buildMigrationPlan example_scrub_env = Inr plan \<and>
      pe_fs example_scrub_env (str ''/s/.env'')
        = File (str ''export OPENAI_API_KEY=\"sk-1\" '' @ [0x0A] @ str ''SKILL_KEY=sk-2'' @ [0x0A]) \<and>
      envChange plan
        = Some \<lparr>ec_path = str ''/s/.env'', ec_nextRaw = str ''SKILL_KEY=sk-2'' @ [0x0A]\<rparr>"
proof -
  from example_scrub_plan_ok obtain plan where p: "buildMigrationPlan example_scrub_env = Inr plan"
    by blast
  let ?main = "str ''/s/main.json''"
  let ?pk = "[(str ''apiKey'', JStr (str '' sk-1 ''))]"
  let ?sk = "[(str ''apiKey'', JStr (str ''sk-2''))]"
  let ?pv = "[(str ''type'', JStr (str ''api_key'')), (str ''key'', JStr (str ''sk-3''))]"
  have a: "getProp (getProp (Some (pe_snapshotConfig example_scrub_env)) (str ''models'')) (str ''providers'')
             = Some (JObj [(str ''openai'', JObj ?pk)]) \<and>
           map_of ?pk (str ''apiKey'') = Some (JStr (str '' sk-1 '')) \<and>
           str '' sk-1 '' \<noteq> [] \<and> trim (str '' sk-1 '') = str ''sk-1''"
    by code_simp
  have b: "getProp (getProp (Some (pe_snapshotConfig example_scrub_env)) (str ''skills'')) (str ''entries'')
             = Some (JObj [(str ''r'', JObj ?sk)]) \<and>
           map_of ?sk (str ''apiKey'') = Some (JStr (str ''sk-2'')) \<and>
           str ''sk-2'' \<noteq> [] \<and> trim (str ''sk-2'') = str ''sk-2''"
    by code_simp
  have c: "?main \<in> set (pe_authStorePaths example_scrub_env) \<and>
           pe_fs example_scrub_env ?main = File example_store_text \<and>
           pe_jsonParse example_scrub_env example_store_text
             = Inr (JObj [(str ''profiles'', JObj [(str ''p'', JObj ?pv)])]) \<and>
           map_of [(str ''profiles'', JObj [(str ''p'', JObj ?pv)])] (str ''profiles'')
             = Some (JObj [(str ''p'', JObj ?pv)]) \<and>
           map_of ?pv (str ''type'') = Some (JStr (str ''api_key'')) \<and>
           \<not> isSecretRef (map_of ?pv (str ''keyRef'')) \<and>
           map_of ?pv (str ''key'') = Some (JStr (str ''sk-3'')) \<and>
           trim (str ''sk-3'') = str ''sk-3'' \<and> str ''sk-3'' \<noteq> []"
    by code_simp
  from migratedValues_reach_env_scrub[OF p] obtain mv envRes where
    e: "planEnvChange example_scrub_env mv = Inr envRes"
    and ec: "envChange plan = map_option fst envRes"
    and pr: "\<forall>es k kvs s.
        getProp (getProp (Some (pe_snapshotConfig example_scrub_env)) (str ''models'')) (str ''providers'')
          = Some (JObj es) \<and>
        (k, JObj kvs) \<in> set es \<and> map_of kvs (str ''apiKey'') = Some (JStr s) \<and> s \<noteq> []
        \<longrightarrow> trim s \<in> mv"
    and sk: "\<forall>es k kvs s.
        getProp (getProp (Some (pe_snapshotConfig example_scrub_env)) (str ''skills'')) (str ''entries'')
          = Some (JObj es) \<and>
        (k, JObj kvs) \<in> set es \<and> map_of kvs (str ''apiKey'') = Some (JStr s) \<and> s \<noteq> []
        \<longrightarrow> trim s \<in> mv"
    and au: "\<forall>p raw store profiles profileId pv s.
        p \<in> set (pe_authStorePaths example_scrub_env) \<and> pe_fs example_scrub_env p = File raw \<and>
        pe_jsonParse example_scrub_env raw = Inr (JObj store) \<and>
        map_of store (str ''profiles'') = Some (JObj profiles) \<and>
        (profileId, JObj pv) \<in> set profiles \<and>
        ((map_of pv (str ''type'') = Some (JStr (str ''api_key'')) \<and>
          \<not> isSecretRef (map_of pv (str ''keyRef'')) \<and> map_of pv (str ''key'') = Some (JStr s)) \<or>
         (map_of pv (str ''type'') = Some (JStr (str ''token'')) \<and>
          \<not> isSecretRef (map_of pv (str ''tokenRef'')) \<and>
          map_of pv (str ''token'') = Some (JStr s))) \<and>
        trim s \<noteq> []
        \<longrightarrow> trim s \<in> mv"
    by (elim exE conjE)
  have 1: "str ''sk-1'' \<in> mv"
    using pr[rule_format, of "[(str ''openai'', JObj ?pk)]" "str ''openai''" ?pk "str '' sk-1 ''"] a
    by simp
  have 2: "str ''sk-2'' \<in> mv"
    using sk[rule_format, of "[(str ''r'', JObj ?sk)]" "str ''r''" ?sk "str ''sk-2''"] b
    by simp
  have 3: "str ''sk-3'' \<in> mv"
    using au[rule_format, of ?main example_store_text "[(str ''profiles'', JObj [(str ''p'', JObj ?pv)])]"
        "[(str ''p'', JObj ?pv)]" "str ''p''" ?pv "str ''sk-3''"] c
    by simp
  let ?l1 = "str ''export OPENAI_API_KEY=\"sk-1\" ''"
  let ?l2 = "str ''SKILL_KEY=sk-2''"
  have f: "pe_scrubEnv example_scrub_env \<and>
           pe_pathJoin example_scrub_env [pe_configDir example_scrub_env, str ''.env''] = str ''/s/.env'' \<and>
           pe_fs example_scrub_env (str ''/s/.env'') = File example_scrub_raw \<and>
           pe_knownSecretEnvVarNames example_scrub_env = [str ''OPENAI_API_KEY'']"
    by code_simp
  have raw: "example_scrub_raw = ?l1 @ [0x0A] @ ?l2 @ [0x0A]"
    by (simp add: example_scrub_raw_def)
  have l: "splitLines example_scrub_raw = [?l1, ?l2, []]"
    by code_simp
  have m: "matchEnvLine ?l1 = Some (str ''OPENAI_API_KEY'', str ''\"sk-1\" '') \<and>
           parseEnvValue (str ''\"sk-1\" '') = str ''sk-1'' \<and>
           matchEnvLine ?l2 = Some (str ''SKILL_KEY'', str ''sk-2'') \<and>
           str ''SKILL_KEY'' \<noteq> str ''OPENAI_API_KEY'' \<and>
           matchEnvLine [] = None \<and>
           endsWith example_scrub_raw [0x0A] \<and>
           endsWith (?l2 @ [0x0A]) [0x0A] \<and>
           ?l2 @ [0x0A] \<noteq> example_scrub_raw"
    by code_simp
  have s: "scrubEnvRaw example_scrub_raw mv {str ''OPENAI_API_KEY''}
             = \<lparr>nextRaw = ?l2 @ [0x0A], removed = 1\<rparr>"
    using 1 by (auto simp: scrubEnvRaw_def l m Let_def)
  have "planEnvChange example_scrub_env mv
          = Inr (Some (\<lparr>ec_path = str ''/s/.env'', ec_nextRaw = ?l2 @ [0x0A]\<rparr>, 1))"
    using 1 by (auto simp: planEnvChange_def f s m existsSync_def readFileSync_def)
  with e ec p f raw show ?thesis by auto
qed

text \<open>
  C2 as stated fails for Google Chat. The provider key and the service account string are
  both written to the payload, and both stand in the env file under allow-listed names;
  the scrub runs with the set of migrated values, which holds the provider key only: the
  line of the provider key is dropped, the line that holds exactly the service account
  string is kept.
\<close>

theorem googlechat_value_not_scrubbed_counterexample:
  "pe_fs example_googlechat_env (str ''/s/.env'')
     = File (str ''OPENAI_API_KEY=sk-1'' @ [0x0A] @ str ''GOOGLE_API_KEY=sa-json'' @ [0x0A]) \<and>
   str ''GOOGLE_API_KEY'' \<in> set (pe_knownSecretEnvVarNames example_googlechat_env) \<and>
   map_sum (\<lambda>_. ())
     (\<lambda>plan. (secretsWritten (counters plan),
               readJsonPointer (nextPayload plan) (str ''/channels/googlechat/serviceAccount''),
               envChange plan))
     (buildMigrationPlan example_googlechat_env)
   = Inr (2, Inr (Some (JStr (str ''sa-json''))),
          Some \<lparr>ec_path = str ''/s/.env'', ec_nextRaw = str ''GOOGLE_API_KEY=sa-json'' @ [0x0A]\<rparr>)"
proof -
  have 1: "map_sum (\<lambda>_. ())
     (\<lambda>plan. (secretsWritten (counters plan),
               readJsonPointer (nextPayload plan) (str ''/channels/googlechat/serviceAccount''),
               envChange plan))
     (buildMigrationPlan example_googlechat_env)
   = Inr (2, Inr (Some (JStr (str ''sa-json''))),
          Some \<lparr>ec_path = str ''/s/.env'', ec_nextRaw = str ''GOOGLE_API_KEY=sa-json'' @ [0x0A]\<rparr>)"
    by (simp add: plan_eval migrate_eval json_eval example_eval string_eval scrub_eval)
  have 2: "pe_fs example_googlechat_env (str ''/s/.env'')
     = File (str ''OPENAI_API_KEY=sk-1'' @ [0x0A] @ str ''GOOGLE_API_KEY=sa-json'' @ [0x0A]) \<and>
   str ''GOOGLE_API_KEY'' \<in> set (pe_knownSecretEnvVarNames example_googlechat_env)"
    by (simp add: example_googlechat_env_def example_googlechat_raw_def)
  from 1 2 show ?thesis by blast
qed

section \<open>Auth stores that are passed over\<close>

lemma authStoreStep_skip:
  assumes "pe_fs pe p = Absent \<or>
           (\<exists>raw. pe_fs pe p = File raw \<and>
                  (\<forall>v. pe_jsonParse pe raw = Inr v \<longrightarrow> \<not> isRecord (Some v)))"
  shows "authStoreStep pe p acc = Inr acc"
  using assms unfolding authStoreStep_def existsSync_def readFileSync_def isRecord_def
  by (auto split: sum.splits json.splits)

lemma authStoreLoop_append:
  "authStoreLoop pe (ps @ qs) acc =
     (case authStoreLoop pe ps acc of Inl e \<Rightarrow> Inl e | Inr acc' \<Rightarrow> authStoreLoop pe qs acc')"
  by (induction ps arbitrary: acc) (auto split: sum.splits)

lemma authStoreLoop_skip:
  assumes "authStoreStep pe p = Inr"
  shows "authStoreLoop pe (ps1 @ p # ps2) acc = authStoreLoop pe (ps1 @ ps2) acc"
  by (simp add: authStoreLoop_append assms split: sum.splits)

lemma authStoreStep_paths_update [simp]:
  "authStoreStep (pe\<lparr>pe_authStorePaths := ps\<rparr>) = authStoreStep pe"
  by (intro ext)
    (simp add: authStoreStep_def existsSync_def readFileSync_def
      cong: sum.case_cong fileState.case_cong json.case_cong)

lemma authStoreLoop_paths_update [simp]:
  "authStoreLoop (pe\<lparr>pe_authStorePaths := ps\<rparr>) qs acc = authStoreLoop pe qs acc"
  by (induction qs arbitrary: acc) (auto split: sum.splits)

lemma runMigrations_paths_update:
  "runMigrations (pe\<lparr>pe_authStorePaths := ps\<rparr>) c p =
     (case migrateModelProviderSecrets c
             \<lparr>st_payload = p, st_counters = zeroCounters, st_migratedValues = {}\<rparr> of
        Inl e \<Rightarrow> Inl e
      | Inr (config1, st1) \<Rightarrow>
          (case migrateSkillEntrySecrets config1 st1 of
             Inl e \<Rightarrow> Inl e
           | Inr (config2, st2) \<Rightarrow>
               (case migrateGoogleChatSecrets config2 st2 of
                  Inl e \<Rightarrow> Inl e
                | Inr (config3, st3) \<Rightarrow>
                    (case authStoreLoop pe ps ([], st3) of
                       Inl e \<Rightarrow> Inl e
                     | Inr (changes, st4) \<Rightarrow> Inr (config3, changes, st4)))))"
  by (simp add: runMigrations_def cong: sum.case_cong prod.case_cong)

lemma runMigrations_skip:
  assumes "authStoreStep pe p = Inr" "pe_authStorePaths pe = ps1 @ p # ps2"
  shows "runMigrations (pe\<lparr>pe_authStorePaths := ps1 @ ps2\<rparr>) c pl = runMigrations pe c pl"
  unfolding runMigrations_paths_update
  by (simp add: runMigrations_def assms(2) authStoreLoop_skip[OF assms(1)]
      cong: sum.case_cong prod.case_cong)

lemma plan_parts_paths_update [simp]:
  "resolveFileSource (pe\<lparr>pe_authStorePaths := ps\<rparr>) c = resolveFileSource pe c"
  "resolveExistingSopsConfigPath (pe\<lparr>pe_authStorePaths := ps\<rparr>) = resolveExistingSopsConfigPath pe"
  "decryptSopsJson (pe\<lparr>pe_authStorePaths := ps\<rparr>) a b d = decryptSopsJson pe a b d"
  "resolveDefaultSecretsConfigPath (pe\<lparr>pe_authStorePaths := ps\<rparr>) = resolveDefaultSecretsConfigPath pe"
  "planEnvChange (pe\<lparr>pe_authStorePaths := ps\<rparr>) mv = planEnvChange pe mv"
  by (simp_all add: resolveFileSource_def resolveExistingSopsConfigPath_def decryptSopsJson_def
      resolveDefaultSecretsConfigPath_def planEnvChange_def existsSync_def readFileSync_def
      envSet_def cong: if_cong sum.case_cong option.case_cong list.case_cong)

lemma buildMigrationPlan_skip:
  assumes "authStoreStep pe p = Inr" "pe_authStorePaths pe = ps1 @ p # ps2"
  shows "buildMigrationPlan (pe\<lparr>pe_authStorePaths := ps1 @ ps2\<rparr>) = buildMigrationPlan pe"
  unfolding buildMigrationPlan_def
  by (simp add: runMigrations_skip[OF assms] cong: sum.case_cong if_cong)

lemma authStoreStep_paths:
  assumes "authStoreStep pe q (chs, st) = Inr (chs', st')"
  shows "asc_path ` set chs' \<subseteq> asc_path ` set chs \<union> (if authStoreStep pe q = Inr then {} else {q})"
proof (cases "authStoreStep pe q = Inr")
  case True
  with assms show ?thesis by simp
next
  case False
  with authStoreStep_cases[OF assms] show ?thesis by auto
qed

lemma authStoreLoop_paths:
  "authStoreLoop pe ps (chs, st) = Inr (chs', st') \<Longrightarrow>
   asc_path ` set chs' \<subseteq> asc_path ` set chs \<union> {q \<in> set ps. authStoreStep pe q \<noteq> Inr}"
proof (induction ps arbitrary: chs st)
  case Nil
  then show ?case by simp
next
  case (Cons q qs)
  then obtain c1 s1 where 1: "authStoreStep pe q (chs, st) = Inr (c1, s1)"
    and 2: "authStoreLoop pe qs (c1, s1) = Inr (chs', st')"
    by (auto split: sum.splits)
  from authStoreStep_paths[OF 1] Cons.IH[OF 2] show ?case
    by (auto split: if_splits)
qed

lemma set_foldl_setAdd: "set (foldl setAdd xs ys) = set xs \<union> set ys"
  by (induction ys arbitrary: xs) (auto simp: setAdd_def)

lemma set_collectBackupTargets:
  "set (collectBackupTargets a cp b sp chs e) \<subseteq>
     {cp, sp} \<union> asc_path ` set chs \<union> (case e of None \<Rightarrow> {} | Some c \<Rightarrow> {ec_path c})"
  by (auto simp: collectBackupTargets_def Let_def set_foldl_setAdd setAdd_def
      split: option.splits if_splits)

lemma planEnvChange_path:
  assumes "planEnvChange pe mv = Inr (Some r)"
  shows "ec_path (fst r) = pe_pathJoin pe [pe_configDir pe, str ''.env'']"
  using assms unfolding planEnvChange_def Let_def
  by (auto split: if_splits sum.splits)

text \<open>
  C10. An auth-store path whose file is absent, or whose text \<open>JSON.parse\<close> rejects or
  parses to something that is not a record, is passed over: its round of the loop
  returns the accumulated changes and state as they were (no failure, no change, no
  counter), planning gives the result it gives without the path, and the path is not
  among the auth-store changes, nor among the backup targets unless it is also the path
  of the config, of the secrets file or of the env file.
\<close>

theorem unparsable_auth_store_skipped:
  assumes skip:
    "pe_fs pe p = Absent \<or>
     (\<exists>raw. pe_fs pe p = File raw \<and>
            (\<forall>v. pe_jsonParse pe raw = Inr v \<longrightarrow> \<not> isRecord (Some v)))"
  shows "(\<forall>acc. authStoreStep pe p acc = Inr acc) \<and>
         (\<forall>ps1 ps2. pe_authStorePaths pe = ps1 @ p # ps2 \<longrightarrow>
            buildMigrationPlan pe = buildMigrationPlan (pe\<lparr>pe_authStorePaths := ps1 @ ps2\<rparr>)) \<and>
         (\<forall>plan. buildMigrationPlan pe = Inr plan \<longrightarrow>
            p \<notin> asc_path ` set (authStoreChanges plan) \<and>
            (p \<noteq> pe_configPath pe \<and> p \<noteq> secretsFilePath plan \<and>
             p \<noteq> pe_pathJoin pe [pe_configDir pe, str ''.env'']
             \<longrightarrow> p \<notin> set (backupTargets plan)))"
proof (intro conjI allI impI)
  fix acc
  show "authStoreStep pe p acc = Inr acc"
    by (rule authStoreStep_skip[OF skip])
next
  have id: "authStoreStep pe p = Inr"
    by (intro ext) (rule authStoreStep_skip[OF skip])
  fix ps1 ps2
  assume "pe_authStorePaths pe = ps1 @ p # ps2"
  from buildMigrationPlan_skip[OF id this]
  show "buildMigrationPlan pe = buildMigrationPlan (pe\<lparr>pe_authStorePaths := ps1 @ ps2\<rparr>)"
    by simp
next
  have id: "authStoreStep pe p = Inr"
    by (intro ext) (rule authStoreStep_skip[OF skip])
  fix plan
  assume plan: "buildMigrationPlan pe = Inr plan"
  then obtain payload0 config3 st envRes where
    r: "runMigrations pe (pe_snapshotConfig pe) payload0 = Inr (config3, authStoreChanges plan, st)"
    and e: "planEnvChange pe (st_migratedValues st) = Inr envRes"
    and ec: "envChange plan = map_option fst envRes"
    and bt: "backupTargets plan =
       collectBackupTargets (configChanged plan) (pe_configPath pe) (payloadChanged plan)
         (secretsFilePath plan) (authStoreChanges plan) (envChange plan)"
    by (rule buildMigrationPlan_Inr)
  from r obtain st3 where
    "authStoreLoop pe (pe_authStorePaths pe) ([], st3) = Inr (authStoreChanges plan, st)"
    by (rule runMigrations_Inr)
  from authStoreLoop_paths[OF this] id
  show notin: "p \<notin> asc_path ` set (authStoreChanges plan)"
    by auto
  assume ne: "p \<noteq> pe_configPath pe \<and> p \<noteq> secretsFilePath plan \<and>
              p \<noteq> pe_pathJoin pe [pe_configDir pe, str ''.env'']"
  have "\<forall>c. envChange plan = Some c \<longrightarrow> ec_path c = pe_pathJoin pe [pe_configDir pe, str ''.env'']"
    using ec e planEnvChange_path by (cases envRes) auto
  with ne notin set_collectBackupTargets[of "configChanged plan" "pe_configPath pe"
      "payloadChanged plan" "secretsFilePath plan" "authStoreChanges plan" "envChange plan"]
  show "p \<notin> set (backupTargets plan)"
    unfolding bt by (auto split: option.splits)
qed

theorem unparsable_auth_store_skipped_witness:
  "(\<forall>acc. authStoreStep example_env (str ''/s/old.json'') acc = Inr acc) \<and>
   buildMigrationPlan example_env
     = buildMigrationPlan (example_env\<lparr>pe_authStorePaths := [str ''/s/main.json'']\<rparr>) \<and>
   (\<exists>plan. buildMigrationPlan example_env = Inr plan \<and>
           str ''/s/old.json'' \<notin> set (backupTargets plan) \<and>
           str ''/s/main.json'' \<in> set (backupTargets plan))"
proof -
  let ?old = "str ''/s/old.json''"
  have skip: "pe_fs example_env ?old = Absent \<or>
     (\<exists>raw. pe_fs example_env ?old = File raw \<and>
            (\<forall>v. pe_jsonParse example_env raw = Inr v \<longrightarrow> \<not> isRecord (Some v)))"
    by (simp add: example_eval str_def)
  have paths: "pe_authStorePaths example_env = [str ''/s/main.json''] @ ?old # []"
    by (simp add: example_eval)
  from example_plan_ok obtain plan where p: "buildMigrationPlan example_env = Inr plan" by blast
  have ne: "?old \<noteq> pe_configPath example_env \<and>
            ?old \<noteq> pe_pathJoin example_env [pe_configDir example_env, str ''.env'']"
    by (simp add: example_eval str_def)
  have "map_sum (\<lambda>_. ()) (\<lambda>p. (secretsFilePath p, backupTargets p)) (buildMigrationPlan example_env)
          = Inr (str ''~/.openclaw/secrets.enc.json'',
                 [str ''/s/c.json'', str ''~/.openclaw/secrets.enc.json'', str ''/s/main.json''])"
    by (simp add: plan_eval migrate_eval json_eval example_eval string_eval)
  with p have sp: "secretsFilePath plan = str ''~/.openclaw/secrets.enc.json''"
    and bt: "backupTargets plan
          = [str ''/s/c.json'', str ''~/.openclaw/secrets.enc.json'', str ''/s/main.json'']"
    by simp_all
  have ne2: "?old \<noteq> secretsFilePath plan"
    by (simp add: sp str_def)
  from unparsable_auth_store_skipped[OF skip] paths p ne ne2 bt
  show ?thesis
    by (metis append_Cons append_Nil list.set_intros(1) list.set_intros(2))
qed

section \<open>Resolving references\<close>

text \<open>
  C9. An id that trims to the empty text fails with "Secret reference id is empty."
  before any lookup. For an env reference, a value the caller's env gives for the trimmed
  id decides the call whatever \<open>process.env\<close> holds: the empty string fails with
  \<open>Environment variable "<id>" is missing or empty.\<close> \<open>process.env\<close> is read only when
  the caller gave no env or its env has no value for the id.
\<close>

theorem env_ref_resolution:
  "(trim (ref_id ref) = [] \<longrightarrow>
      fst (resolveSecretRefValue ctx ref options)
        = Inl (newError (str ''Secret reference id is empty.''))) \<and>
   (ref_source ref = str ''env'' \<and> trim (ref_id ref) \<noteq> [] \<and> ro_env options = Some env \<and>
    env (trim (ref_id ref)) = Some v \<longrightarrow>
      fst (resolveSecretRefValue ctx ref options)
        = (if v = [] \<or> \<not> isNonEmptyString (Some (JStr v))
           then Inl (newError (str ''Environment variable \"'' @ trim (ref_id ref) @
                               str ''\" is missing or empty.''))
           else Inr (JStr v))) \<and>
   (ref_source ref = str ''env'' \<and> trim (ref_id ref) \<noteq> [] \<and>
    (ro_env options = None \<or> (ro_env options = Some env \<and> env (trim (ref_id ref)) = None)) \<longrightarrow>
      fst (resolveSecretRefValue ctx ref options)
        = (case rc_processEnv ctx (trim (ref_id ref)) of
             Some v \<Rightarrow>
               if isNonEmptyString (Some (JStr v)) then Inr (JStr v)
               else Inl (newError (str ''Environment variable \"'' @ trim (ref_id ref) @
                                   str ''\" is missing or empty.''))
           | None \<Rightarrow>
               Inl (newError (str ''Environment variable \"'' @ trim (ref_id ref) @
                              str ''\" is missing or empty.''))))"
  by (auto simp: resolveSecretRefValue_def Let_def isNonEmptyString_def split: option.splits)

theorem env_ref_resolution_witness:
  "fst (resolveSecretRefValue example_ctx
          \<lparr>ref_source = str ''env'', ref_id = str '' OPENAI_API_KEY ''\<rparr> example_options)
     = Inl (newError (str ''Environment variable \"OPENAI_API_KEY\" is missing or empty.'')) \<and>
   rc_processEnv example_ctx (str ''OPENAI_API_KEY'') = Some (str ''sk-process'') \<and>
   fst (resolveSecretRefValue example_ctx
          \<lparr>ref_source = str ''env'', ref_id = str ''OPENAI_API_KEY''\<rparr>
          (example_options\<lparr>ro_env := None\<rparr>))
     = Inr (JStr (str ''sk-process'')) \<and>
   fst (resolveSecretRefValue example_ctx
          \<lparr>ref_source = str ''env'', ref_id = str ''  ''\<rparr> example_options)
     = Inl (newError (str ''Secret reference id is empty.''))"
proof -
  let ?r1 = "\<lparr>ref_source = str ''env'', ref_id = str '' OPENAI_API_KEY ''\<rparr>"
  let ?r2 = "\<lparr>ref_source = str ''env'', ref_id = str ''OPENAI_API_KEY''\<rparr>"
  let ?r3 = "\<lparr>ref_source = str ''env'', ref_id = str ''  ''\<rparr>"
  let ?env = "\<lambda>k. if k = str ''OPENAI_API_KEY'' then Some [] else (None :: jsstring option)"
  have t1: "trim (ref_id ?r1) = str ''OPENAI_API_KEY''" by code_simp
  have t2: "trim (ref_id ?r2) = str ''OPENAI_API_KEY''" by code_simp
  have t3: "trim (ref_id ?r3) = []" by code_simp
  have ne: "str ''OPENAI_API_KEY'' \<noteq> []" by (simp add: str_def)
  have e: "ro_env example_options = Some ?env" by (simp add: example_options_def)
  have pe: "rc_processEnv example_ctx (str ''OPENAI_API_KEY'') = Some (str ''sk-process'')"
    by (simp add: example_ctx_def)
  have s: "isNonEmptyString (Some (JStr (str ''sk-process'')))" by code_simp
  have m: "str ''Environment variable \"'' @ str ''OPENAI_API_KEY'' @ str ''\" is missing or empty.''
        = str ''Environment variable \"OPENAI_API_KEY\" is missing or empty.''"
    by (simp add: str_def)
  from env_ref_resolution[of ?r1 example_ctx example_options ?env "[]"] t1 ne e m
  have a: "fst (resolveSecretRefValue example_ctx ?r1 example_options)
     = Inl (newError (str ''Environment variable \"OPENAI_API_KEY\" is missing or empty.''))"
    by simp
  from env_ref_resolution[of ?r2 example_ctx "example_options\<lparr>ro_env := None\<rparr>" ?env "[]"] t2 ne pe s
  have b: "fst (resolveSecretRefValue example_ctx ?r2 (example_options\<lparr>ro_env := None\<rparr>))
     = Inr (JStr (str ''sk-process''))"
    by simp
  from env_ref_resolution[of ?r3 example_ctx example_options ?env "[]"] t3
  have c: "fst (resolveSecretRefValue example_ctx ?r3 example_options)
     = Inl (newError (str ''Secret reference id is empty.''))"
    by simp
  from a pe b c show ?thesis by simp
qed

lemma readJsonPointerRaw_missing:
  assumes "parseJsonPointer i = Inr tokens" "readTokens root tokens = None"
  shows "\<exists>e. readJsonPointerRaw root i Throw = Inl e"
  using assms by (simp add: readJsonPointerRaw_def)

text \<open>
  C6. When the decrypted document is not a JSON object, resolving a file reference and
  loading the payload for a migration plan both fail with the message
  "sops decrypt failed: decrypted payload is not a JSON object" (and planning fails with
  the error of the load). When it is an object, the reference resolves to the result of
  the pointer lookup, which is an error for a missing pointer. A call that finds an empty
  cache stores its own result there, and a call that finds a result in the cache returns
  it, so a rejected document stays rejected for every reference of the pass.
\<close>

theorem non_object_payload_rejected:
  "(truthy (configFileSource (ro_config options)) \<and>
    getProp (configFileSource (ro_config options)) (str ''type'') = Some (JStr (str ''sops'')) \<and>
    (ro_cache options = None \<or> ro_cache options = Some None) \<and>
    decryptSopsJsonFile (rc_runExec ctx) (rc_jsonParse ctx)
      (fileSecretDecryptParams ctx options (configFileSource (ro_config options))) = Inr v
    \<longrightarrow>
      (\<not> isRecord (Some v) \<longrightarrow>
         fst (resolveFileSecretPayload ctx options)
           = Inl (newError (str ''sops decrypt failed: decrypted payload is not a JSON object'')) \<and>
         (ref_source ref = str ''file'' \<and> trim (ref_id ref) \<noteq> [] \<longrightarrow>
            fst (resolveSecretRefValue ctx ref options)
              = Inl (newError (str ''sops decrypt failed: decrypted payload is not a JSON object'')))) \<and>
      (isRecord (Some v) \<and> ref_source ref = str ''file'' \<and> trim (ref_id ref) \<noteq> [] \<longrightarrow>
         fst (resolveSecretRefValue ctx ref options)
           = (case readJsonPointerRaw v (trim (ref_id ref)) Throw of
                Inl e \<Rightarrow> Inl e
              | Inr x \<Rightarrow> Inr (case x of Some y \<Rightarrow> y | None \<Rightarrow> JNull)) \<and>
         (\<forall>tokens. parseJsonPointer (trim (ref_id ref)) = Inr tokens \<and> readTokens v tokens = None
            \<longrightarrow> (\<exists>e. fst (resolveSecretRefValue ctx ref options) = Inl e)))) \<and>
   (existsSync pe pathname \<and>
    decryptSopsJsonFile (pe_runExec pe) (pe_jsonParse pe)
      \<lparr>dp_path = pathname, dp_timeoutMs = Some (int timeoutMs),
       dp_missingBinaryMessage = migrateMissingBinaryMessage, dp_configPath = sopsCfg\<rparr> = Inr v \<and>
    \<not> isRecord (Some v)
    \<longrightarrow> decryptSopsJson pe pathname timeoutMs sopsCfg
          = Inl (newError (str ''sops decrypt failed: decrypted payload is not a JSON object''))) \<and>
   (pe_snapshotValid pe \<and>
    decryptSopsJson pe (fs_path (resolveFileSource pe (pe_snapshotConfig pe)))
      (fs_timeoutMs (resolveFileSource pe (pe_snapshotConfig pe)))
      (resolveExistingSopsConfigPath pe) = Inl e
    \<longrightarrow> buildMigrationPlan pe = Inl e) \<and>
   (truthy (configFileSource (ro_config options)) \<and>
    getProp (configFileSource (ro_config options)) (str ''type'') = Some (JStr (str ''sops''))
    \<longrightarrow>
      (ro_cache options = Some None \<longrightarrow>
         snd (resolveFileSecretPayload ctx options)
           = Some (Some (fst (resolveFileSecretPayload ctx options)))) \<and>
      (\<forall>settled. ro_cache options = Some (Some settled) \<longrightarrow>
         resolveFileSecretPayload ctx options = (settled, Some (Some settled))))"
proof -
  have str_ne: "str ''file'' \<noteq> str ''env''" by (simp add: str_def)
  show ?thesis
    apply (intro conjI impI allI)
    subgoal by (auto simp: resolveFileSecretPayload_def Let_def notObjectMessage_def)
    subgoal
      by (auto simp: resolveSecretRefValue_def resolveFileSecretPayload_def Let_def
          notObjectMessage_def str_ne)
    subgoal
      by (auto simp: resolveSecretRefValue_def resolveFileSecretPayload_def Let_def str_ne
          split: sum.splits option.splits)
    subgoal
      by (auto simp: resolveSecretRefValue_def resolveFileSecretPayload_def Let_def str_ne
          readJsonPointerRaw_def split: sum.splits option.splits)
    subgoal by (simp add: decryptSopsJson_def notObjectMessage_def)
    subgoal by (simp add: buildMigrationPlan_def Let_def)
    subgoal by (simp add: resolveFileSecretPayload_def Let_def)
    subgoal by (simp add: resolveFileSecretPayload_def Let_def)
    done
qed

lemmas sops_eval =
  decryptSopsJsonFile_def normalizeTimeoutMs_def normalizePositiveInt_def configArgs_def
  DEFAULT_SOPS_TIMEOUT_MS_def MAX_SOPS_OUTPUT_BYTES_def toSopsError_def isTimeoutError_def
  includesStr_def

theorem non_object_payload_rejected_witness:
  "fst (resolveSecretRefValue example_ctx
          \<lparr>ref_source = str ''file'', ref_id = str ''/providers/openai/apiKey''\<rparr> example_options)
     = Inl (newError (str ''sops decrypt failed: decrypted payload is not a JSON object'')) \<and>
   buildMigrationPlan example_array_env
     = Inl (newError (str ''sops decrypt failed: decrypted payload is not a JSON object''))"
proof -
  let ?ref = "\<lparr>ref_source = str ''file'', ref_id = str ''/providers/openai/apiKey''\<rparr>"
  let ?v = "JArr [JNum 1]"
  let ?fsrc = "configFileSource (ro_config example_options)"
  let ?p = "fs_path (resolveFileSource example_array_env (pe_snapshotConfig example_array_env))"
  let ?t = "fs_timeoutMs (resolveFileSource example_array_env (pe_snapshotConfig example_array_env))"
  let ?c = "resolveExistingSopsConfigPath example_array_env"
  have h1: "truthy ?fsrc \<and> getProp ?fsrc (str ''type'') = Some (JStr (str ''sops'')) \<and>
            (ro_cache example_options = None \<or> ro_cache example_options = Some None)"
    by (simp add: example_options_def configFileSource_def getProp_def truthy_def str_def)
  have h2: "decryptSopsJsonFile (rc_runExec example_ctx) (rc_jsonParse example_ctx)
              (fileSecretDecryptParams example_ctx example_options ?fsrc) = Inr ?v"
    by (simp add: example_ctx_def sops_eval)
  have h3: "\<not> isRecord (Some ?v) \<and> ref_source ?ref = str ''file'' \<and> trim (ref_id ?ref) \<noteq> []"
    by code_simp
  have g1: "existsSync example_array_env ?p \<and> pe_snapshotValid example_array_env"
    by (simp add: example_array_env_def example_eval plan_eval json_eval existsSync_def str_def)
  have g2: "decryptSopsJsonFile (pe_runExec example_array_env) (pe_jsonParse example_array_env)
      \<lparr>dp_path = ?p, dp_timeoutMs = Some (int ?t),
       dp_missingBinaryMessage = migrateMissingBinaryMessage, dp_configPath = ?c\<rparr> = Inr ?v"
    by (simp add: example_array_env_def sops_eval)
  note inst = non_object_payload_rejected[where options = example_options and ctx = example_ctx
      and v = ?v and ref = ?ref and pe = example_array_env and pathname = ?p and timeoutMs = ?t
      and sopsCfg = ?c
      and e = "newError (str ''sops decrypt failed: decrypted payload is not a JSON object'')"]
  from inst h1 h2 h3 have a: "fst (resolveSecretRefValue example_ctx ?ref example_options)
     = Inl (newError (str ''sops decrypt failed: decrypted payload is not a JSON object''))"
    by blast
  from inst g1 g2 h3 have b: "buildMigrationPlan example_array_env
     = Inl (newError (str ''sops decrypt failed: decrypted payload is not a JSON object''))"
    by blast
  from a b show ?thesis by simp
qed

section \<open>Error normalization of the sops driver\<close>

lemmas io_defs = bindIO_def returnIO_def throwIO_def whenIO_def tryCatch_def tryFinally_def

lemma decrypt_attempt_fails:
  assumes "(case rx (str ''sops'')
        (configArgs (dp_configPath dp) @
         [str ''--decrypt'', str ''--output-type'', str ''json'', dp_path dp])
        (normalizeTimeoutMs (dp_timeoutMs dp)) MAX_SOPS_OUTPUT_BYTES of
          Inl e \<Rightarrow> Inl e | Inr out \<Rightarrow> jp out) = Inl err"
  shows "decryptSopsJsonFile rx jp dp =
      Inl (if isTimeoutError (err_message err)
           then newErrorCause
                  (str ''sops decrypt timed out after '' @
                   showNat (normalizeTimeoutMs (dp_timeoutMs dp)) @ str ''ms for '' @
                   dp_path dp @ str ''.'') err
           else toSopsError err
                  \<lparr>missingBinaryMessage = dp_missingBinaryMessage dp,
                   operationLabel = str ''sops decrypt failed for '' @ dp_path dp\<rparr>)"
  unfolding decryptSopsJsonFile_def Let_def assms
  by simp

lemma toSopsError_cases:
  "toSopsError err \<lparr>missingBinaryMessage = mbm, operationLabel = label\<rparr> =
     (if err_code err = Some (str ''ENOENT'') then newErrorCause mbm err
      else newErrorCause
             (label @ str '': '' @
              (case err_message err of Some m \<Rightarrow> m | None \<Rightarrow> errorToString err)) err)"
  by (simp add: toSopsError_def)

lemma encrypt_try_fails:
  assumes "sys_ensureDirForFile sys (ep_path ep) w0 = (Inr (), w1)"
    and "sys_randomUUID sys w1 = (Inr u1, w2)"
    and "sys_randomUUID sys w2 = (Inr u2, w3)"
    and "sys_writeFileSync sys (tmpName sys (ep_path ep) u1 (str ''.plain.tmp''))
           (sys_jsonStringify sys (ep_payload ep) @ [0x0A]) w3 = (Inr (), w4)"
    and "sys_chmodSync sys (tmpName sys (ep_path ep) u1 (str ''.plain.tmp'')) mode0600 w4
           = (Inr (), w5)"
    and "encryptTry sys ep (normalizeTimeoutMs (ep_timeoutMs ep))
           (tmpName sys (ep_path ep) u1 (str ''.plain.tmp''))
           (tmpName sys (ep_path ep) u2 (str ''.enc.tmp'')) w5 = (Inl err, w6)"
    and "sys_rmSyncForce sys (tmpName sys (ep_path ep) u1 (str ''.plain.tmp'')) w6 = (Inr (), w7)"
    and "sys_rmSyncForce sys (tmpName sys (ep_path ep) u2 (str ''.enc.tmp'')) w7 = (Inr (), w8)"
  shows "encryptSopsJsonFile sys ep w0
           = (Inl (encryptCatch ep (normalizeTimeoutMs (ep_timeoutMs ep)) err), w8)"
  unfolding encryptSopsJsonFile_def Let_def bindIO_def tryFinally_def tryCatch_def throwIO_def
  by (simp add: assms)

text \<open>
  C5 (as amended). An error thrown by the tool run, by parsing its output (decrypt) or
  by the rename and chmod that follow it (encrypt) is normalized in this order: a
  message that contains "timed out" in any letter case gives
  \<open>sops <op> timed out after <N>ms for <path>.\<close>, with the final full stop; otherwise the
  code \<open>ENOENT\<close> gives the caller's \<open>missingBinaryMessage\<close>; otherwise the error is
  wrapped as \<open>sops <op> failed for <path>: <underlying>\<close>. The cause is kept in each case.
\<close>

theorem sops_errors_normalized:
  "((rx (str ''sops'')
        (configArgs (dp_configPath dp) @
         [str ''--decrypt'', str ''--output-type'', str ''json'', dp_path dp])
        (normalizeTimeoutMs (dp_timeoutMs dp)) MAX_SOPS_OUTPUT_BYTES = Inl err \<or>
     (\<exists>out. rx (str ''sops'')
              (configArgs (dp_configPath dp) @
               [str ''--decrypt'', str ''--output-type'', str ''json'', dp_path dp])
              (normalizeTimeoutMs (dp_timeoutMs dp)) MAX_SOPS_OUTPUT_BYTES = Inr out \<and>
            jp out = Inl err))
    \<longrightarrow>
    decryptSopsJsonFile rx jp dp =
      Inl (if isTimeoutError (err_message err)
           then newErrorCause
                  (str ''sops decrypt timed out after '' @
                   showNat (normalizeTimeoutMs (dp_timeoutMs dp)) @ str ''ms for '' @
                   dp_path dp @ str ''.'') err
           else if err_code err = Some (str ''ENOENT'')
           then newErrorCause (dp_missingBinaryMessage dp) err
           else newErrorCause
                  (str ''sops decrypt failed for '' @ dp_path dp @ str '': '' @
                   (case err_message err of Some m \<Rightarrow> m | None \<Rightarrow> errorToString err)) err)) \<and>
   (sys_ensureDirForFile sys (ep_path ep) w0 = (Inr (), w1) \<and>
    sys_randomUUID sys w1 = (Inr u1, w2) \<and>
    sys_randomUUID sys w2 = (Inr u2, w3) \<and>
    sys_writeFileSync sys (tmpName sys (ep_path ep) u1 (str ''.plain.tmp''))
      (sys_jsonStringify sys (ep_payload ep) @ [0x0A]) w3 = (Inr (), w4) \<and>
    sys_chmodSync sys (tmpName sys (ep_path ep) u1 (str ''.plain.tmp'')) mode0600 w4 = (Inr (), w5) \<and>
    encryptTry sys ep (normalizeTimeoutMs (ep_timeoutMs ep))
      (tmpName sys (ep_path ep) u1 (str ''.plain.tmp''))
      (tmpName sys (ep_path ep) u2 (str ''.enc.tmp'')) w5 = (Inl err, w6) \<and>
    sys_rmSyncForce sys (tmpName sys (ep_path ep) u1 (str ''.plain.tmp'')) w6 = (Inr (), w7) \<and>
    sys_rmSyncForce sys (tmpName sys (ep_path ep) u2 (str ''.enc.tmp'')) w7 = (Inr (), w8)
    \<longrightarrow>
    encryptSopsJsonFile sys ep w0 =
      (Inl (if isTimeoutError (err_message err)
            then newErrorCause
                   (str ''sops encrypt timed out after '' @
                    showNat (normalizeTimeoutMs (ep_timeoutMs ep)) @ str ''ms for '' @
                    ep_path ep @ str ''.'') err
            else if err_code err = Some (str ''ENOENT'')
            then newErrorCause (ep_missingBinaryMessage ep) err
            else newErrorCause
                   (str ''sops encrypt failed for '' @ ep_path ep @ str '': '' @
                    (case err_message err of Some m \<Rightarrow> m | None \<Rightarrow> errorToString err)) err),
       w8))"
proof (intro conjI impI)
  assume a: "rx (str ''sops'')
        (configArgs (dp_configPath dp) @
         [str ''--decrypt'', str ''--output-type'', str ''json'', dp_path dp])
        (normalizeTimeoutMs (dp_timeoutMs dp)) MAX_SOPS_OUTPUT_BYTES = Inl err \<or>
     (\<exists>out. rx (str ''sops'')
              (configArgs (dp_configPath dp) @
               [str ''--decrypt'', str ''--output-type'', str ''json'', dp_path dp])
              (normalizeTimeoutMs (dp_timeoutMs dp)) MAX_SOPS_OUTPUT_BYTES = Inr out \<and>
            jp out = Inl err)"
  then have "(case rx (str ''sops'')
        (configArgs (dp_configPath dp) @
         [str ''--decrypt'', str ''--output-type'', str ''json'', dp_path dp])
        (normalizeTimeoutMs (dp_timeoutMs dp)) MAX_SOPS_OUTPUT_BYTES of
          Inl e \<Rightarrow> Inl e | Inr out \<Rightarrow> jp out) = Inl err"
    by (elim disjE exE conjE) simp_all
  from decrypt_attempt_fails[where rx = rx and dp = dp and jp = jp and err = err, OF this]
  show "decryptSopsJsonFile rx jp dp =
      Inl (if isTimeoutError (err_message err)
           then newErrorCause
                  (str ''sops decrypt timed out after '' @
                   showNat (normalizeTimeoutMs (dp_timeoutMs dp)) @ str ''ms for '' @
                   dp_path dp @ str ''.'') err
           else if err_code err = Some (str ''ENOENT'')
           then newErrorCause (dp_missingBinaryMessage dp) err
           else newErrorCause
                  (str ''sops decrypt failed for '' @ dp_path dp @ str '': '' @
                   (case err_message err of Some m \<Rightarrow> m | None \<Rightarrow> errorToString err)) err)"
    by (simp only: toSopsError_cases append_assoc)
next
  assume "sys_ensureDirForFile sys (ep_path ep) w0 = (Inr (), w1) \<and>
    sys_randomUUID sys w1 = (Inr u1, w2) \<and>
    sys_randomUUID sys w2 = (Inr u2, w3) \<and>
    sys_writeFileSync sys (tmpName sys (ep_path ep) u1 (str ''.plain.tmp''))
      (sys_jsonStringify sys (ep_payload ep) @ [0x0A]) w3 = (Inr (), w4) \<and>
    sys_chmodSync sys (tmpName sys (ep_path ep) u1 (str ''.plain.tmp'')) mode0600 w4 = (Inr (), w5) \<and>
    encryptTry sys ep (normalizeTimeoutMs (ep_timeoutMs ep))
      (tmpName sys (ep_path ep) u1 (str ''.plain.tmp''))
      (tmpName sys (ep_path ep) u2 (str ''.enc.tmp'')) w5 = (Inl err, w6) \<and>
    sys_rmSyncForce sys (tmpName sys (ep_path ep) u1 (str ''.plain.tmp'')) w6 = (Inr (), w7) \<and>
    sys_rmSyncForce sys (tmpName sys (ep_path ep) u2 (str ''.enc.tmp'')) w7 = (Inr (), w8)"
  then have "encryptSopsJsonFile sys ep w0
           = (Inl (encryptCatch ep (normalizeTimeoutMs (ep_timeoutMs ep)) err), w8)"
    by (elim conjE) (rule encrypt_try_fails[where ?w1.0 = w1 and ?w2.0 = w2 and ?w3.0 = w3 and ?w4.0 = w4 and ?w5.0 = w5 and ?w6.0 = w6 and ?w7.0 = w7])
  then show "encryptSopsJsonFile sys ep w0 =
      (Inl (if isTimeoutError (err_message err)
            then newErrorCause
                   (str ''sops encrypt timed out after '' @
                    showNat (normalizeTimeoutMs (ep_timeoutMs ep)) @ str ''ms for '' @
                    ep_path ep @ str ''.'') err
            else if err_code err = Some (str ''ENOENT'')
            then newErrorCause (ep_missingBinaryMessage ep) err
            else newErrorCause
                   (str ''sops encrypt failed for '' @ ep_path ep @ str '': '' @
                    (case err_message err of Some m \<Rightarrow> m | None \<Rightarrow> errorToString err)) err),
       w8)"
    by (simp only: encryptCatch_def toSopsError_cases append_assoc)
qed

lemmas trace_eval = traceSys_def traceOp_def

theorem sops_errors_normalized_witness:
  "decryptSopsJsonFile (\<lambda>_ _ _ _. Inl example_enoent) (\<lambda>_. Inr JNull) example_decryptParams
     = Inl (newErrorCause (str ''no sops'') example_enoent) \<and>
   encryptSopsJsonFile (traceSys (str ''sops'')) example_encryptParams []
     = (Inl (newErrorCause (str ''sops encrypt failed for /s/x: sops failed'')
               (newError (str ''sops failed''))),
        [str ''mkdir'', str ''uuid'', str ''uuid'', str ''write'', str ''chmod'', str ''sops'',
         str ''rm'', str ''rm''])"
proof -
  let ?sys = "traceSys (str ''sops'') :: (jsstring list, unit) sys"
  let ?ep = example_encryptParams
  let ?err = "newError (str ''sops failed'')"
  have t: "\<not> isTimeoutError (err_message example_enoent) \<and>
           err_code example_enoent = Some (str ''ENOENT'') \<and>
           dp_missingBinaryMessage example_decryptParams = str ''no sops''"
    by code_simp
  have a: "decryptSopsJsonFile (\<lambda>_ _ _ _. Inl example_enoent) (\<lambda>_. Inr JNull) example_decryptParams
     = Inl (newErrorCause (str ''no sops'') example_enoent)"
    using sops_errors_normalized[where rx = "\<lambda>_ _ _ _. Inl example_enoent" and jp = "\<lambda>_. Inr JNull"
        and dp = example_decryptParams and err = example_enoent, THEN conjunct1] t
    by simp
  have ne: "str ''mkdir'' \<noteq> str ''sops''" "str ''uuid'' \<noteq> str ''sops''"
    "str ''write'' \<noteq> str ''sops''" "str ''chmod'' \<noteq> str ''sops''" "str ''rm'' \<noteq> str ''sops''"
    by (simp_all add: str_def)
  have lit: "str ''sops'' @ str '' failed'' = str ''sops failed''"
    by (simp add: str_def)
  have h: "sys_ensureDirForFile ?sys (ep_path ?ep) [] = (Inr (), [str ''mkdir'']) \<and>
    sys_randomUUID ?sys [str ''mkdir''] = (Inr (str ''u''), [str ''mkdir'', str ''uuid'']) \<and>
    sys_randomUUID ?sys [str ''mkdir'', str ''uuid'']
      = (Inr (str ''u''), [str ''mkdir'', str ''uuid'', str ''uuid'']) \<and>
    sys_writeFileSync ?sys (tmpName ?sys (ep_path ?ep) (str ''u'') (str ''.plain.tmp''))
      (sys_jsonStringify ?sys (ep_payload ?ep) @ [0x0A]) [str ''mkdir'', str ''uuid'', str ''uuid'']
      = (Inr (), [str ''mkdir'', str ''uuid'', str ''uuid'', str ''write'']) \<and>
    sys_chmodSync ?sys (tmpName ?sys (ep_path ?ep) (str ''u'') (str ''.plain.tmp'')) mode0600
      [str ''mkdir'', str ''uuid'', str ''uuid'', str ''write'']
      = (Inr (), [str ''mkdir'', str ''uuid'', str ''uuid'', str ''write'', str ''chmod'']) \<and>
    encryptTry ?sys ?ep (normalizeTimeoutMs (ep_timeoutMs ?ep))
      (tmpName ?sys (ep_path ?ep) (str ''u'') (str ''.plain.tmp''))
      (tmpName ?sys (ep_path ?ep) (str ''u'') (str ''.enc.tmp''))
      [str ''mkdir'', str ''uuid'', str ''uuid'', str ''write'', str ''chmod'']
      = (Inl ?err, [str ''mkdir'', str ''uuid'', str ''uuid'', str ''write'', str ''chmod'', str ''sops'']) \<and>
    sys_rmSyncForce ?sys (tmpName ?sys (ep_path ?ep) (str ''u'') (str ''.plain.tmp''))
      [str ''mkdir'', str ''uuid'', str ''uuid'', str ''write'', str ''chmod'', str ''sops'']
      = (Inr (), [str ''mkdir'', str ''uuid'', str ''uuid'', str ''write'', str ''chmod'', str ''sops'',
                  str ''rm'']) \<and>
    sys_rmSyncForce ?sys (tmpName ?sys (ep_path ?ep) (str ''u'') (str ''.enc.tmp''))
      [str ''mkdir'', str ''uuid'', str ''uuid'', str ''write'', str ''chmod'', str ''sops'', str ''rm'']
      = (Inr (), [str ''mkdir'', str ''uuid'', str ''uuid'', str ''write'', str ''chmod'', str ''sops'',
                  str ''rm'', str ''rm''])"
    by (simp add: trace_eval encryptTry_def bindIO_def ne lit)
  have u: "\<not> isTimeoutError (Some (str ''sops failed'')) \<and>
           \<not> isTimeoutError (err_message ?err) \<and> err_code ?err \<noteq> Some (str ''ENOENT'') \<and>
           err_message ?err = Some (str ''sops failed'') \<and>
           ep_missingBinaryMessage ?ep = str ''no sops'' \<and>
           str ''sops encrypt failed for '' @ ep_path ?ep @ str '': '' @ str ''sops failed''
             = str ''sops encrypt failed for /s/x: sops failed''"
    by code_simp
  have b: "encryptSopsJsonFile ?sys ?ep []
     = (Inl (newErrorCause (str ''sops encrypt failed for /s/x: sops failed'') ?err),
        [str ''mkdir'', str ''uuid'', str ''uuid'', str ''write'', str ''chmod'', str ''sops'',
         str ''rm'', str ''rm''])"
    using sops_errors_normalized[where sys = ?sys and ep = ?ep and err = ?err, THEN conjunct2,
        rule_format, OF h] u
    by simp
  from a b show ?thesis by simp
qed


text \<open>
  C5 as stated fails on the timeout message, which ends with a full stop, and on an
  \<open>ENOENT\<close> error whose message says "timed out", which is reported as a timeout.
\<close>

theorem sops_timeout_message_counterexample:
  "map_sum err_message (\<lambda>_. ())
     (decryptSopsJsonFile (\<lambda>_ _ _ _. Inl (newError (str ''timed out'')))
        (\<lambda>_. Inr JNull) example_decryptParams)
     = Inl (Some (str ''sops decrypt timed out after 5000ms for /s/x.'')) \<and>
   str ''sops decrypt timed out after 5000ms for /s/x.''
     \<noteq> str ''sops decrypt timed out after 5000ms for /s/x'' \<and>
   map_sum err_message (\<lambda>_. ())
     (decryptSopsJsonFile
        (\<lambda>_ _ _ _. Inl (JsError (str ''Error'') (Some (str ''ENOENT: timed out''))
                           (Some (str ''ENOENT'')) None))
        (\<lambda>_. Inr JNull) example_decryptParams)
     = Inl (Some (str ''sops decrypt timed out after 5000ms for /s/x.''))"
proof -
  have t1: "isTimeoutError (Some (str ''timed out''))"
    by (simp add: isTimeoutError_def includesStr_def str_def)
  have t2: "isTimeoutError (Some (str ''ENOENT: timed out''))"
    by (simp add: isTimeoutError_def includesStr_def str_def)
  have n: "showNat (normalizeTimeoutMs (dp_timeoutMs example_decryptParams)) = str ''5000''"
    by (simp add: normalizeTimeoutMs_def normalizePositiveInt_def DEFAULT_SOPS_TIMEOUT_MS_def
        example_decryptParams_def showNat.simps str_def)
  have lit: "str ''sops decrypt timed out after '' @ str ''5000'' @ str ''ms for '' @
             dp_path example_decryptParams @ str ''.''
           = str ''sops decrypt timed out after 5000ms for /s/x.''"
    by (simp add: str_def example_decryptParams_def)
  have ne: "str ''sops decrypt timed out after 5000ms for /s/x.''
     \<noteq> str ''sops decrypt timed out after 5000ms for /s/x''"
    by (simp add: str_def)
  show ?thesis
    by (simp add: decryptSopsJsonFile_def Let_def newError_def newErrorCause_def t1 t2 n lit ne)
qed


section \<open>Applying a plan\<close>

text \<open>
  C7. For a plan with \<open>changed = false\<close>, \<open>applyMigrationPlan\<close> returns the write-mode
  result with \<open>changed = false\<close>, the plan's counters and secrets file path and no changed
  files, and leaves the world as it found it, whatever the operations would do.
\<close>

theorem unchanged_plan_no_effects:
  "\<not> changed plan \<longrightarrow>
   applyMigrationPlan sys plan now w =
     (Inr \<lparr>rr_mode = Write, rr_changed = False, rr_backupId = None, rr_backupDir = None,
           rr_secretsFilePath = secretsFilePath plan, rr_counters = counters plan,
           rr_changedFiles = []\<rparr>,
      w)"
  by (simp add: applyMigrationPlan_def returnIO_def)

theorem unchanged_plan_no_effects_witness:
  "applyMigrationPlan (traceSys []) example_unchanged_plan () []
     = (Inr \<lparr>rr_mode = Write, rr_changed = False, rr_backupId = None, rr_backupDir = None,
             rr_secretsFilePath = str ''/s/x'', rr_counters = zeroCounters,
             rr_changedFiles = []\<rparr>,
        [])"
  using unchanged_plan_no_effects[of example_unchanged_plan "traceSys []" "()" "[]"]
  by (simp add: example_unchanged_plan_def)

text \<open>
  C8. After the backup id and the manifest are there: when the write phase throws and
  \<open>restoreFromManifest\<close> returns, the call throws
  \<open>Secrets migration failed and was rolled back from backup <id>: <cause>\<close> with the
  cause kept, in the world the restore left; when the write phase succeeds, nothing is
  restored and the call is \<open>pruneOldBackups\<close> followed by the write-mode result.
\<close>

theorem write_failure_rolls_back:
  "changed plan \<and>
   sys_resolveUniqueBackupId sys (stateDir plan) now w0 = (Inr backupId, w1) \<and>
   sys_createBackupManifest sys (stateDir plan) (backupTargets plan) backupId now w1
     = (Inr bk, w2)
   \<longrightarrow>
   (\<forall>err w3 w4.
      writePhase sys plan w2 = (Inl err, w3) \<and>
      sys_restoreFromManifest sys (bk_manifest bk) w3 = (Inr (), w4)
      \<longrightarrow>
      applyMigrationPlan sys plan now w0 =
        (Inl (newErrorCause
                (str ''Secrets migration failed and was rolled back from backup '' @ backupId @
                 str '': '' @ errorToString err) err),
         w4)) \<and>
   (\<forall>w3.
      writePhase sys plan w2 = (Inr (), w3)
      \<longrightarrow>
      applyMigrationPlan sys plan now w0 =
        (case sys_pruneOldBackups sys (stateDir plan) w3 of
           (Inl e, w4) \<Rightarrow> (Inl e, w4)
         | (Inr _, w4) \<Rightarrow>
             (Inr \<lparr>rr_mode = Write, rr_changed = True, rr_backupId = Some backupId,
                   rr_backupDir = Some (bk_backupDir bk),
                   rr_secretsFilePath = secretsFilePath plan, rr_counters = counters plan,
                   rr_changedFiles = backupTargets plan\<rparr>,
              w4)))"
  by (auto simp: applyMigrationPlan_def io_defs rolledBackError_def split: prod.splits sum.splits)
theorem write_failure_rolls_back_witness:
  "applyMigrationPlan (traceSys (str ''store'')) example_changed_plan () []
     = (Inl (newErrorCause
               (str ''Secrets migration failed and was rolled back from backup B1: Error: store failed'')
               (newError (str ''store failed''))),
        [str ''id'', str ''backup'', str ''config'', str ''store'', str ''restore'']) \<and>
   applyMigrationPlan (traceSys []) example_changed_plan () []
     = (Inr \<lparr>rr_mode = Write, rr_changed = True, rr_backupId = Some (str ''B1''),
             rr_backupDir = Some (str ''/s/b''), rr_secretsFilePath = str ''/s/x'',
             rr_counters = zeroCounters, rr_changedFiles = [str ''/s/c'', str ''/s/a'']\<rparr>,
        [str ''id'', str ''backup'', str ''config'', str ''store'', str ''prune''])"
proof -
  let ?plan = example_changed_plan
  let ?bk = "\<lparr>bk_backupDir = str ''/s/b'',
              bk_manifest = \<lparr>bm_backupId = str ''B1'', bm_createdAt = [], bm_entries = []\<rparr>\<rparr>"
  let ?err = "newError (str ''store failed'')"
  have ne: "str ''id'' \<noteq> str ''store''" "str ''backup'' \<noteq> str ''store''"
    "str ''config'' \<noteq> str ''store''" "str ''restore'' \<noteq> str ''store''"
    "str ''id'' \<noteq> []" "str ''backup'' \<noteq> []" "str ''config'' \<noteq> []" "str ''store'' \<noteq> []"
    "str ''prune'' \<noteq> []"
    "str ''store'' @ str '' failed'' = str ''store failed''"
    by (simp_all add: str_def)
  have f: "changed ?plan \<and>
     sys_resolveUniqueBackupId (traceSys (str ''store'')) (stateDir ?plan) () []
       = (Inr (str ''B1''), [str ''id'']) \<and>
     sys_createBackupManifest (traceSys (str ''store'')) (stateDir ?plan) (backupTargets ?plan)
       (str ''B1'') () [str ''id''] = (Inr ?bk, [str ''id'', str ''backup''])"
    by (simp add: example_changed_plan_def example_unchanged_plan_def trace_eval ne)
  have fw: "writePhase (traceSys (str ''store'')) ?plan [str ''id'', str ''backup'']
       = (Inl ?err, [str ''id'', str ''backup'', str ''config'', str ''store'']) \<and>
     sys_restoreFromManifest (traceSys (str ''store'')) (bk_manifest ?bk)
       [str ''id'', str ''backup'', str ''config'', str ''store'']
       = (Inr (), [str ''id'', str ''backup'', str ''config'', str ''store'', str ''restore''])"
    by (simp add: example_changed_plan_def example_unchanged_plan_def trace_eval ne writePhase_def
        io_defs)
  have m: "str ''Secrets migration failed and was rolled back from backup '' @ str ''B1'' @
           str '': '' @ errorToString ?err
         = str ''Secrets migration failed and was rolled back from backup B1: Error: store failed''"
    by code_simp
  from write_failure_rolls_back[where sys = "traceSys (str ''store'')" and plan = ?plan
      and now = "()" and ?w0.0 = "[]" and backupId = "str ''B1''" and bk = ?bk,
      rule_format, OF f, THEN conjunct1, rule_format, OF fw]
  have a: "applyMigrationPlan (traceSys (str ''store'')) ?plan () []
     = (Inl (newErrorCause
               (str ''Secrets migration failed and was rolled back from backup B1: Error: store failed'')
               ?err),
        [str ''id'', str ''backup'', str ''config'', str ''store'', str ''restore''])"
    by (simp only: m)
  have s: "changed ?plan \<and>
     sys_resolveUniqueBackupId (traceSys []) (stateDir ?plan) () []
       = (Inr (str ''B1''), [str ''id'']) \<and>
     sys_createBackupManifest (traceSys []) (stateDir ?plan) (backupTargets ?plan)
       (str ''B1'') () [str ''id''] = (Inr ?bk, [str ''id'', str ''backup''])"
    by (simp add: example_changed_plan_def example_unchanged_plan_def trace_eval ne)
  have sw: "writePhase (traceSys []) ?plan [str ''id'', str ''backup'']
       = (Inr (), [str ''id'', str ''backup'', str ''config'', str ''store''])"
    by (simp add: example_changed_plan_def example_unchanged_plan_def trace_eval ne writePhase_def
        io_defs)
  have sp: "sys_pruneOldBackups (traceSys []) (stateDir ?plan)
              [str ''id'', str ''backup'', str ''config'', str ''store'']
            = (Inr (), [str ''id'', str ''backup'', str ''config'', str ''store'', str ''prune''])"
    by (simp add: trace_eval ne)
  have pf: "bk_backupDir ?bk = str ''/s/b'' \<and> secretsFilePath ?plan = str ''/s/x'' \<and>
            counters ?plan = zeroCounters \<and> backupTargets ?plan = [str ''/s/c'', str ''/s/a'']"
    by (simp add: example_changed_plan_def example_unchanged_plan_def)
  from write_failure_rolls_back[where sys = "traceSys []" and plan = ?plan
      and now = "()" and ?w0.0 = "[]" and backupId = "str ''B1''" and bk = ?bk,
      rule_format, OF s, THEN conjunct2, rule_format, OF sw]
  have b: "applyMigrationPlan (traceSys []) ?plan () []
     = (Inr \<lparr>rr_mode = Write, rr_changed = True, rr_backupId = Some (str ''B1''),
             rr_backupDir = Some (str ''/s/b''), rr_secretsFilePath = str ''/s/x'',
             rr_counters = zeroCounters, rr_changedFiles = [str ''/s/c'', str ''/s/a'']\<rparr>,
        [str ''id'', str ''backup'', str ''config'', str ''store'', str ''prune''])"
    by (simp add: sp pf)
  from a b show ?thesis by simp
qed

section \<open>The payload writes of a plan\<close>

lemma spec_writeSites_append:
  "spec_writeSites (xs @ ys) acc =
     (case spec_writeSites xs acc of Inl e \<Rightarrow> Inl e | Inr acc' \<Rightarrow> spec_writeSites ys acc')"
  by (induction xs arbitrary: acc) (auto split: sum.splits)

lemma spec_writeSites_appendI:
  "spec_writeSites xs a = Inr b \<Longrightarrow> spec_writeSites ys b = Inr c \<Longrightarrow>
   spec_writeSites (xs @ ys) a = Inr c"
  by (simp add: spec_writeSites_append)

lemma writeSecret_spec:
  "writeSecret i v st = Inr st' \<Longrightarrow> spec_writeSite (i, v) (pw st) = Inr (pw st')"
  by (auto simp: writeSecret_def spec_writeSite_def readJsonPointer_def bump_defs
      split: sum.splits if_splits)

lemma writeSecret_spec1:
  "writeSecret i v st = Inr st' \<Longrightarrow> spec_writeSites [(i, v)] (pw st) = Inr (pw st')"
  by (simp add: writeSecret_spec)

lemma pw_bumps [simp]:
  "pw (bumpConfigRefs st) = pw st" "pw (bumpAuthProfileRefs st) = pw st"
  "pw (bumpPlaintextRemoved st) = pw st" "pw (addMigratedValue v st) = pw st"
  by (simp_all add: bump_defs)

lemma migrateProvider_sites:
  assumes "migrateProvider k x st = Inr (x', st')"
  shows "spec_writeSites (apiKeySite (str ''/providers/'') k x) (pw st) = Inr (pw st')"
proof (cases "\<exists>kvs s. x = JObj kvs \<and> map_of kvs (str ''apiKey'') = Some (JStr s) \<and>
                isNonEmptyString (Some (JStr s))")
  case True
  then obtain kvs s where x: "x = JObj kvs" "map_of kvs (str ''apiKey'') = Some (JStr s)"
    "isNonEmptyString (Some (JStr s))" by blast
  with assms obtain st1 where w: "writeSecret (providerPointer k) (JStr (trim s)) st = Inr st1"
    and s: "st' = addMigratedValue (trim s) (bumpConfigRefs st1)"
    by (auto simp: migrateProvider_def Let_def isSecretRef_def split: sum.splits)
  from writeSecret_spec1[OF w] x s show ?thesis
    by (simp add: apiKeySite_def getProp_def providerPointer_def)
next
  case False
  with assms have "st' = st"
    unfolding migrateProvider_def Let_def
    by (auto split: json.splits option.splits if_splits)
  moreover from False have "apiKeySite (str ''/providers/'') k x = []"
    unfolding apiKeySite_def getProp_def
    by (auto split: json.splits option.splits)
  ultimately show ?thesis by simp
qed

lemma migrateSkillEntry_sites:
  assumes "migrateSkillEntry k x st = Inr (x', st')"
  shows "spec_writeSites (apiKeySite (str ''/skills/entries/'') k x) (pw st) = Inr (pw st')"
proof (cases "\<exists>kvs s. x = JObj kvs \<and> map_of kvs (str ''apiKey'') = Some (JStr s) \<and>
                isNonEmptyString (Some (JStr s))")
  case True
  then obtain kvs s where x: "x = JObj kvs" "map_of kvs (str ''apiKey'') = Some (JStr s)"
    "isNonEmptyString (Some (JStr s))" by blast
  with assms obtain st1 where w: "writeSecret (skillPointer k) (JStr (trim s)) st = Inr st1"
    and s: "st' = addMigratedValue (trim s) (bumpConfigRefs st1)"
    by (auto simp: migrateSkillEntry_def Let_def isSecretRef_def isRecord_def split: sum.splits)
  from writeSecret_spec1[OF w] x s show ?thesis
    by (simp add: apiKeySite_def getProp_def skillPointer_def)
next
  case False
  with assms have "st' = st"
    unfolding migrateSkillEntry_def Let_def
    by (auto split: json.splits option.splits if_splits)
  moreover from False have "apiKeySite (str ''/skills/entries/'') k x = []"
    unfolding apiKeySite_def getProp_def
    by (auto split: json.splits option.splits)
  ultimately show ?thesis by simp
qed

lemma forEntries_sites:
  assumes step: "\<And>k x s x' s'. body k x s = Inr (x', s') \<Longrightarrow>
                   spec_writeSites (site k x) (proj s) = Inr (proj s')"
    and run: "forEntries body es st = Inr (es', st')"
  shows "spec_writeSites (concat (map (\<lambda>e. site (fst e) (snd e)) es)) (proj st) = Inr (proj st')"
  using run
proof (induction es arbitrary: st es' st')
  case Nil
  then show ?case by simp
next
  case (Cons e es)
  obtain k x where e: "e = (k, x)" by (cases e)
  from Cons.prems e obtain x' s1 es1 where
    b: "body k x st = Inr (x', s1)" and r: "forEntries body es s1 = Inr (es1, st')"
    by (auto split: sum.splits)
  from spec_writeSites_appendI[OF step[OF b] Cons.IH[OF r]] e show ?case by simp
qed

lemma migrateModelProviderSecrets_sites:
  assumes "migrateModelProviderSecrets config st = Inr (config', st')"
  shows "spec_writeSites
           (entrySites (apiKeySite (str ''/providers/''))
              (getProp (getProp (Some config) (str ''models'')) (str ''providers'')))
           (pw st) = Inr (pw st')"
proof (cases "\<exists>es. getProp (getProp (Some config) (str ''models'')) (str ''providers'') = Some (JObj es)")
  case True
  then obtain es where
    p: "getProp (getProp (Some config) (str ''models'')) (str ''providers'') = Some (JObj es)"
    by blast
  with assms obtain es' where "forEntries migrateProvider es st = Inr (es', st')"
    by (auto simp: migrateModelProviderSecrets_def truthy_def split: sum.splits)
  from forEntries_sites[where body = migrateProvider and proj = pw
        and site = "apiKeySite (str ''/providers/'')", OF migrateProvider_sites this] p
  show ?thesis by (simp add: entrySites_def)
next
  case False
  with assms have "st' = st"
    unfolding migrateModelProviderSecrets_def Let_def
    by (auto split: if_splits option.splits json.splits)
  moreover from False have "entrySites (apiKeySite (str ''/providers/''))
              (getProp (getProp (Some config) (str ''models'')) (str ''providers'')) = []"
    by (auto simp: entrySites_def split: option.splits json.splits)
  ultimately show ?thesis by simp
qed

lemma migrateSkillEntrySecrets_sites:
  assumes "migrateSkillEntrySecrets config st = Inr (config', st')"
  shows "spec_writeSites
           (entrySites (apiKeySite (str ''/skills/entries/''))
              (getProp (getProp (Some config) (str ''skills'')) (str ''entries'')))
           (pw st) = Inr (pw st')"
proof (cases "\<exists>es. getProp (getProp (Some config) (str ''skills'')) (str ''entries'') = Some (JObj es)")
  case True
  then obtain es where
    p: "getProp (getProp (Some config) (str ''skills'')) (str ''entries'') = Some (JObj es)"
    by blast
  with assms obtain es' where "forEntries migrateSkillEntry es st = Inr (es', st')"
    by (auto simp: migrateSkillEntrySecrets_def truthy_def split: sum.splits)
  from forEntries_sites[where body = migrateSkillEntry and proj = pw
        and site = "apiKeySite (str ''/skills/entries/'')", OF migrateSkillEntry_sites this] p
  show ?thesis by (simp add: entrySites_def)
next
  case False
  with assms have "st' = st"
    unfolding migrateSkillEntrySecrets_def Let_def
    by (auto split: if_splits option.splits json.splits)
  moreover from False have "entrySites (apiKeySite (str ''/skills/entries/''))
              (getProp (getProp (Some config) (str ''skills'')) (str ''entries'')) = []"
    by (auto simp: entrySites_def split: option.splits json.splits)
  ultimately show ?thesis by simp
qed


lemma map_of_objDelete: "map_of (objDelete kvs k) k' = (if k' = k then None else map_of kvs k')"
  unfolding objDelete_def by (induction kvs) auto

lemma migrateGoogleChatServiceAccount_sites:
  assumes "migrateGoogleChatServiceAccount account pointerId st = Inr (account', st')"
  shows "spec_writeSites (serviceAccountSite pointerId (JObj account)) (pw st) = Inr (pw st')"
proof (cases "isSecretRef (map_of account (str ''serviceAccountRef'')) \<or>
              isSecretRef (map_of account (str ''serviceAccount''))")
  case True
  with assms have "pw st' = pw st"
    unfolding migrateGoogleChatServiceAccount_def Let_def
    by (auto simp: bump_defs split: if_splits)
  with True show ?thesis
    by (auto simp: serviceAccountSite_def getProp_def Let_def)
next
  case noRef: False
  show ?thesis
  proof (cases "isNonEmptyString (map_of account (str ''serviceAccount'')) \<or>
                (isRecord (map_of account (str ''serviceAccount'')) \<and>
                 hasKeys (map_of account (str ''serviceAccount'')))")
    case False
    with noRef assms have "st' = st"
      unfolding migrateGoogleChatServiceAccount_def Let_def
      by (auto split: if_splits)
    moreover from False noRef have "serviceAccountSite pointerId (JObj account) = []"
      unfolding serviceAccountSite_def getProp_def Let_def
      by (auto simp: isRecord_def split: option.splits json.splits)
    ultimately show ?thesis by simp
  next
    case True
    then obtain v where v: "map_of account (str ''serviceAccount'') = Some v"
      by (cases "map_of account (str ''serviceAccount'')")
        (auto simp: isNonEmptyString_def isRecord_def)
    let ?n = "case v of JStr s \<Rightarrow> JStr (trim s) | _ \<Rightarrow> v"
    from noRef True v assms obtain st1 where
      w: "writeSecret (pointerId @ str ''/serviceAccount'') ?n st = Inr st1"
      and s: "st' = bumpConfigRefs st1"
      unfolding migrateGoogleChatServiceAccount_def Let_def
      by (auto split: if_splits sum.splits)
    from True v noRef have
      "serviceAccountSite pointerId (JObj account) = [(pointerId @ str ''/serviceAccount'', ?n)]"
      unfolding serviceAccountSite_def getProp_def Let_def
      by (auto simp: isRecord_def isNonEmptyString_def hasKeys_def split: json.splits)
    with writeSecret_spec1[OF w] s show ?thesis by simp
  qed
qed

lemma serviceAccountSite_not_object:
  "(case x of JObj _ \<Rightarrow> False | _ \<Rightarrow> True) \<Longrightarrow> serviceAccountSite pointerId x = []"
  unfolding serviceAccountSite_def getProp_def Let_def
  by (cases x) (auto simp: isSecretRef_def)

lemma migrateGoogleChatAccount_sites:
  assumes "migrateGoogleChatAccount k x st = Inr (x', st')"
  shows "spec_writeSites
           (serviceAccountSite (str ''/channels/googlechat/accounts/'' @ encodeJsonPointerToken k) x)
           (pw st) = Inr (pw st')"
proof (cases "\<exists>account. x = JObj account")
  case True
  then obtain account where x: "x = JObj account" by blast
  with assms obtain account' where
    "migrateGoogleChatServiceAccount account (googleChatAccountPointer k) st = Inr (account', st')"
    by (auto simp: migrateGoogleChatAccount_def split: sum.splits)
  from migrateGoogleChatServiceAccount_sites[OF this] x show ?thesis
    by (simp add: googleChatAccountPointer_def)
next
  case False
  with assms have "st' = st"
    by (cases x) (auto simp: migrateGoogleChatAccount_def)
  moreover from False have
    "serviceAccountSite (str ''/channels/googlechat/accounts/'' @ encodeJsonPointerToken k) x = []"
    by (cases x) (auto simp: serviceAccountSite_not_object)
  ultimately show ?thesis by simp
qed

lemma migrateGoogleChatServiceAccount_accounts:
  assumes "migrateGoogleChatServiceAccount account pointerId st = Inr (account', st')"
  shows "map_of account' (str ''accounts'') = map_of account (str ''accounts'')"
proof -
  have n: "str ''accounts'' \<noteq> str ''serviceAccount''" "str ''accounts'' \<noteq> str ''serviceAccountRef''"
    by (simp_all add: str_def)
  from assms show ?thesis
    unfolding migrateGoogleChatServiceAccount_def Let_def
    by (auto simp: map_of_objDelete map_of_objSet n split: if_splits option.splits sum.splits)
qed

lemma migrateGoogleChatSecrets_sites:
  assumes "migrateGoogleChatSecrets config st = Inr (config', st')"
  shows "spec_writeSites (googleChatSites config) (pw st) = Inr (pw st')"
proof (cases "\<exists>googlechat. getProp (getProp (Some config) (str ''channels'')) (str ''googlechat'')
                = Some (JObj googlechat)")
  case False
  with assms have "st' = st"
    unfolding migrateGoogleChatSecrets_def
    by (auto split: option.splits json.splits)
  moreover from False have "googleChatSites config = []"
    unfolding googleChatSites_def
    by (auto simp: serviceAccountSite_not_object entrySites_def getProp_def
        split: option.splits json.splits)
  ultimately show ?thesis by simp
next
  case True
  then obtain googlechat where
    g: "getProp (getProp (Some config) (str ''channels'')) (str ''googlechat'') = Some (JObj googlechat)"
    by blast
  with assms obtain googlechat' st1 where
    top: "migrateGoogleChatServiceAccount googlechat (str ''/channels/googlechat'') st
            = Inr (googlechat', st1)"
    and rest: "(case map_of googlechat' (str ''accounts'') of
                  Some (JObj accounts) \<Rightarrow>
                    (case forEntries migrateGoogleChatAccount accounts st1 of
                       Inl e \<Rightarrow> Inl e
                     | Inr (accounts', st'') \<Rightarrow>
                         Inr (putPath config [str ''channels'', str ''googlechat'']
                                (JObj (objSet googlechat' (str ''accounts'') (JObj accounts'))),
                              st''))
                | _ \<Rightarrow>
                    Inr (putPath config [str ''channels'', str ''googlechat''] (JObj googlechat'),
                         st1)) = Inr (config', st')"
    by (auto simp: migrateGoogleChatSecrets_def split: sum.splits)
  note a = migrateGoogleChatServiceAccount_accounts[OF top]
  have 1: "spec_writeSites (serviceAccountSite (str ''/channels/googlechat'') (JObj googlechat))
             (pw st) = Inr (pw st1)"
    by (rule migrateGoogleChatServiceAccount_sites[OF top])
  have 2: "spec_writeSites
             (entrySites
                (\<lambda>accountId. serviceAccountSite
                   (str ''/channels/googlechat/accounts/'' @ encodeJsonPointerToken accountId))
                (getProp (Some (JObj googlechat)) (str ''accounts'')))
             (pw st1) = Inr (pw st')"
  proof (cases "\<exists>accounts. map_of googlechat (str ''accounts'') = Some (JObj accounts)")
    case True
    then obtain accounts where ac: "map_of googlechat (str ''accounts'') = Some (JObj accounts)"
      by blast
    with rest a obtain accounts' where
      "forEntries migrateGoogleChatAccount accounts st1 = Inr (accounts', st')"
      by (auto split: sum.splits)
    from forEntries_sites[where body = migrateGoogleChatAccount and proj = pw
        and site = "\<lambda>accountId. serviceAccountSite
                   (str ''/channels/googlechat/accounts/'' @ encodeJsonPointerToken accountId)",
        OF migrateGoogleChatAccount_sites this] ac
    show ?thesis by (simp add: entrySites_def getProp_def)
  next
    case False
    with rest a have "st' = st1"
      by (auto split: option.splits json.splits)
    moreover from False have "entrySites
                (\<lambda>accountId. serviceAccountSite
                   (str ''/channels/googlechat/accounts/'' @ encodeJsonPointerToken accountId))
                (getProp (Some (JObj googlechat)) (str ''accounts'')) = []"
      by (auto simp: entrySites_def getProp_def split: option.splits json.splits)
    ultimately show ?thesis by simp
  qed
  from spec_writeSites_appendI[OF 1 2] g show ?thesis
    by (simp add: googleChatSites_def)
qed

lemma migrateProfileField_sites:
  assumes "migrateProfileField field refField scope profileId pv cst = Inr (pv', cst')"
  shows "spec_writeSites
           (if isSecretRef (map_of pv refField) then []
            else (case map_of pv field of
                    Some (JStr s) \<Rightarrow>
                      if isNonEmptyString (Some (JStr s)) \<and> trim s \<noteq> []
                      then [(str ''/auth-profiles/'' @ encodeJsonPointerToken scope @ str ''/'' @
                             encodeJsonPointerToken profileId @ str ''/'' @ field,
                             JStr (trim s))]
                      else []
                  | _ \<Rightarrow> []))
           (pw (snd cst)) = Inr (pw (snd cst'))"
proof (cases "\<not> isSecretRef (map_of pv refField) \<and>
              (\<exists>s. map_of pv field = Some (JStr s) \<and> isNonEmptyString (Some (JStr s)) \<and> trim s \<noteq> [])")
  case True
  then obtain s where s: "\<not> isSecretRef (map_of pv refField)" "map_of pv field = Some (JStr s)"
    "isNonEmptyString (Some (JStr s))" "trim s \<noteq> []" by blast
  with assms obtain st1 where
    w: "writeSecret (authProfilePointer scope profileId field) (JStr (trim s)) (snd cst) = Inr st1"
    and c: "snd cst' = addMigratedValue (trim s) (bumpAuthProfileRefs st1)"
    unfolding migrateProfileField_def Let_def
    by (auto split: sum.splits)
  from writeSecret_spec1[OF w] s c show ?thesis by (simp add: authProfilePointer_def)
next
  case False
  with assms have "pw (snd cst') = pw (snd cst)"
    unfolding migrateProfileField_def Let_def
    by (auto simp: isNonEmptyString_def bump_defs split: if_splits option.splits json.splits)
  with False show ?thesis
    by (auto split: option.splits json.splits)
qed

lemma migrateProfile_sites:
  assumes "migrateProfile scope profileId x cst = Inr (x', cst')"
  shows "spec_writeSites (profileSite scope profileId x) (pw (snd cst)) = Inr (pw (snd cst'))"
proof (cases "\<exists>pv. x = JObj pv")
  case False
  with assms have "cst' = cst"
    by (cases x) (auto simp: migrateProfile_def)
  moreover from False have "profileSite scope profileId x = []"
    by (cases x) (auto simp: profileSite_def profileFields_def getProp_def)
  ultimately show ?thesis by simp
next
  case True
  then obtain pv where JObj: "x = JObj pv" by blast
  show ?thesis
  proof (cases "map_of pv (str ''type'') = Some (JStr (str ''api_key''))")
    case True
    with assms JObj obtain pv' where
      "migrateProfileField (str ''key'') (str ''keyRef'') scope profileId pv cst = Inr (pv', cst')"
      by (auto simp: migrateProfile_def split: sum.splits)
    from migrateProfileField_sites[OF this] True JObj show ?thesis
      by (auto simp: profileSite_def profileFields_def getProp_def)
  next
    case notKey: False
    show ?thesis
    proof (cases "map_of pv (str ''type'') = Some (JStr (str ''token''))")
      case True
      with assms JObj notKey obtain pv' where
        "migrateProfileField (str ''token'') (str ''tokenRef'') scope profileId pv cst = Inr (pv', cst')"
        by (auto simp: migrateProfile_def split: sum.splits)
      from migrateProfileField_sites[OF this] True notKey JObj show ?thesis
        by (auto simp: profileSite_def profileFields_def getProp_def)
    next
      case False
      with assms JObj notKey have "cst' = cst"
        by (auto simp: migrateProfile_def)
      with False notKey JObj show ?thesis
        by (simp add: profileSite_def profileFields_def getProp_def)
    qed
  qed
qed

lemma migrateAuthStoreSecrets_sites:
  assumes "migrateAuthStoreSecrets store scope st = Inr (store', c, st')"
  shows "spec_writeSites
           (entrySites (profileSite scope) (getProp (Some (JObj store)) (str ''profiles'')))
           (pw st) = Inr (pw st')"
proof (cases "\<exists>profiles. map_of store (str ''profiles'') = Some (JObj profiles)")
  case True
  then obtain profiles where p: "map_of store (str ''profiles'') = Some (JObj profiles)" by blast
  with assms obtain profiles' where
    "forEntries (migrateProfile scope) profiles (False, st) = Inr (profiles', c, st')"
    by (auto simp: migrateAuthStoreSecrets_def split: sum.splits)
  from forEntries_sites[where body = "migrateProfile scope" and proj = "\<lambda>cst. pw (snd cst)"
        and site = "profileSite scope", OF migrateProfile_sites this] p
  show ?thesis by (simp add: entrySites_def getProp_def)
next
  case False
  with assms have "st' = st"
    by (auto simp: migrateAuthStoreSecrets_def split: option.splits json.splits)
  moreover from False have
    "entrySites (profileSite scope) (getProp (Some (JObj store)) (str ''profiles'')) = []"
    by (auto simp: entrySites_def getProp_def split: option.splits json.splits)
  ultimately show ?thesis by simp
qed

lemma authStoreStep_sites:
  assumes "authStoreStep pe p (chs, st) = Inr (chs', st')"
  shows "spec_writeSites (authStoreSites pe p) (pw st) = Inr (pw st')"
proof -
  from authStoreStep_cases[OF assms] consider
    (same) "st' = st" "authStoreSites pe p = [] \<or>
       (\<exists>raw store store' c. pe_fs pe p = File raw \<and> pe_jsonParse pe raw = Inr (JObj store) \<and>
            migrateAuthStoreSecrets store (pe_authStoreScope pe p) st = Inr (store', c, st'))"
    | (run) raw store store' c where "pe_fs pe p = File raw" "pe_jsonParse pe raw = Inr (JObj store)"
        "migrateAuthStoreSecrets store (pe_authStoreScope pe p) st = Inr (store', c, st')"
  proof -
    assume a: "\<lbrakk>st' = st; authStoreSites pe p = [] \<or>
       (\<exists>raw store store' c. pe_fs pe p = File raw \<and> pe_jsonParse pe raw = Inr (JObj store) \<and>
            migrateAuthStoreSecrets store (pe_authStoreScope pe p) st = Inr (store', c, st'))\<rbrakk> \<Longrightarrow> thesis"
      and b: "\<And>raw store store' c. \<lbrakk>pe_fs pe p = File raw; pe_jsonParse pe raw = Inr (JObj store);
        migrateAuthStoreSecrets store (pe_authStoreScope pe p) st = Inr (store', c, st')\<rbrakk> \<Longrightarrow> thesis"
    show thesis
    proof (cases "\<exists>raw store. pe_fs pe p = File raw \<and> pe_jsonParse pe raw = Inr (JObj store)")
      case True
      then obtain raw store where f: "pe_fs pe p = File raw" "pe_jsonParse pe raw = Inr (JObj store)"
        by blast
      with assms obtain store' c where
        "migrateAuthStoreSecrets store (pe_authStoreScope pe p) st = Inr (store', c, st')"
        unfolding authStoreStep_def existsSync_def readFileSync_def
        by (auto split: sum.splits if_splits)
      with f show thesis by (rule b)
    next
      case False
      with assms have 1: "st' = st"
        unfolding authStoreStep_def existsSync_def readFileSync_def
        by (auto split: sum.splits if_splits json.splits fileState.splits)
      from False have 2: "authStoreSites pe p = []"
        unfolding authStoreSites_def
        by (auto simp: entrySites_def getProp_def split: fileState.splits sum.splits json.splits)
      from 1 2 show thesis by (intro a) auto
    qed
  qed
  then show ?thesis
  proof cases
    case same
    then show ?thesis
    proof (elim disjE exE conjE)
      assume "authStoreSites pe p = []"
      with same(1) show ?thesis by simp
    next
      fix raw store store' c
      assume f: "pe_fs pe p = File raw" "pe_jsonParse pe raw = Inr (JObj store)"
        and m: "migrateAuthStoreSecrets store (pe_authStoreScope pe p) st = Inr (store', c, st')"
      from migrateAuthStoreSecrets_sites[OF m] f show ?thesis
        by (simp add: authStoreSites_def)
    qed
  next
    case run
    from migrateAuthStoreSecrets_sites[OF run(3)] run(1,2) show ?thesis
      by (simp add: authStoreSites_def)
  qed
qed

lemma authStoreLoop_sites:
  "authStoreLoop pe ps (chs, st) = Inr (chs', st') \<Longrightarrow>
   spec_writeSites (concat (map (authStoreSites pe) ps)) (pw st) = Inr (pw st')"
proof (induction ps arbitrary: chs st)
  case Nil
  then show ?case by simp
next
  case (Cons p ps)
  then obtain c1 s1 where 1: "authStoreStep pe p (chs, st) = Inr (c1, s1)"
    and 2: "authStoreLoop pe ps (c1, s1) = Inr (chs', st')"
    by (auto split: sum.splits)
  from spec_writeSites_appendI[OF authStoreStep_sites[OF 1] Cons.IH[OF 2]] show ?case by simp
qed

lemma key_neqs2:
  "str ''channels'' \<noteq> str ''models''" "str ''channels'' \<noteq> str ''skills''"
  "str ''models'' \<noteq> str ''skills''" "str ''models'' \<noteq> str ''channels''"
  "str ''skills'' \<noteq> str ''channels''" "str ''models'' \<noteq> str ''secrets''"
  "str ''skills'' \<noteq> str ''secrets''" "str ''channels'' \<noteq> str ''secrets''"
  by (simp_all add: str_def)

lemma runMigrations_sites:
  assumes "runMigrations pe config0 payload0 = Inr (config3, changes, st)"
  shows "spec_writeSites (configSites config0 @ concat (map (authStoreSites pe) (pe_authStorePaths pe)))
           (payload0, 0) = Inr (pw st)"
proof -
  let ?st0 = "\<lparr>st_payload = payload0, st_counters = zeroCounters, st_migratedValues = {}\<rparr>"
  from assms obtain config1 st1 config2 st2 st3 where
    1: "migrateModelProviderSecrets config0 ?st0 = Inr (config1, st1)"
    and 2: "migrateSkillEntrySecrets config1 st1 = Inr (config2, st2)"
    and 3: "migrateGoogleChatSecrets config2 st2 = Inr (config3, st3)"
    and 4: "authStoreLoop pe (pe_authStorePaths pe) ([], st3) = Inr (changes, st)"
    by (rule runMigrations_Inr)
  have s1: "getProp (Some config1) (str ''skills'') = getProp (Some config0) (str ''skills'')"
    by (rule migrateModelProviderSecrets_other[OF 1 key_neqs(4)])
  have c1: "getProp (Some config1) (str ''channels'') = getProp (Some config0) (str ''channels'')"
    by (rule migrateModelProviderSecrets_other[OF 1 key_neqs2(1)])
  have c2: "getProp (Some config2) (str ''channels'') = getProp (Some config1) (str ''channels'')"
    by (rule migrateSkillEntrySecrets_other[OF 2 key_neqs2(2)])
  have g: "googleChatSites config2 = googleChatSites config0"
    by (simp add: googleChatSites_def c1 c2)
  have p0: "pw ?st0 = (payload0, 0)" by (simp add: zeroCounters_def)
  note a = migrateModelProviderSecrets_sites[OF 1, unfolded p0]
  note b = migrateSkillEntrySecrets_sites[OF 2, unfolded s1]
  note c = migrateGoogleChatSecrets_sites[OF 3, unfolded g]
  note d = authStoreLoop_sites[OF 4]
  from spec_writeSites_appendI[OF spec_writeSites_appendI[OF a spec_writeSites_appendI[OF b c]] d]
  show ?thesis by (simp add: configSites_def)
qed

lemma forEntries_map_of:
  assumes step: "\<And>k x s x' s'. body k x s = Inr (x', s') \<Longrightarrow> Q k x x'"
    and run: "forEntries body es st = Inr (es', st')"
    and mem: "map_of es k = Some x"
  shows "\<exists>x'. map_of es' k = Some x' \<and> Q k x x'"
  using run mem
proof (induction es arbitrary: st es' st')
  case Nil
  then show ?case by simp
next
  case (Cons e es)
  obtain k0 x0 where e: "e = (k0, x0)" by (cases e)
  from Cons.prems(1) e obtain x0' s1 es1 where
    b: "body k0 x0 st = Inr (x0', s1)" and r: "forEntries body es s1 = Inr (es1, st')"
    and es': "es' = (k0, x0') # es1"
    by (auto split: sum.splits)
  show ?case
  proof (cases "k = k0")
    case True
    with Cons.prems(2) e have "x = x0" by simp
    with step[OF b] True es' show ?thesis by simp
  next
    case False
    with Cons.prems(2) e have "map_of es k = Some x" by simp
    from Cons.IH[OF r this] False es' show ?thesis by simp
  qed
qed

lemma getProp_putPath2:
  assumes "getProp (getProp (Some c) a) b = Some old"
  shows "getProp (getProp (Some (putPath c [a, b] v)) a) b = Some v"
proof -
  from assms obtain ckvs where c: "c = JObj ckvs"
    by (cases c) (auto simp: getProp_def)
  with assms obtain akvs where a: "map_of ckvs a = Some (JObj akvs)"
    by (cases "map_of ckvs a") (auto simp: getProp_def split: json.splits)
  from c a show ?thesis
    by (simp add: getProp_def map_of_objSet)
qed

lemma apiKeySite_ref:
  assumes "apiKeySite prefix k x = [(i, v)]"
  obtains kvs s where "x = JObj kvs" "map_of kvs (str ''apiKey'') = Some (JStr s)"
    "isNonEmptyString (Some (JStr s))" "i = prefix @ encodeJsonPointerToken k @ str ''/apiKey''"
  using assms unfolding apiKeySite_def getProp_def
  by (auto split: json.splits option.splits if_splits)

lemma migrateProvider_ref:
  assumes "migrateProvider k x st = Inr (x', st')"
    and "apiKeySite (str ''/providers/'') k x = [(i, v)]"
  shows "getProp (Some x') (str ''apiKey'') = Some (fileRef i)"
proof -
  from assms(2) obtain kvs s where x: "x = JObj kvs" "map_of kvs (str ''apiKey'') = Some (JStr s)"
    "isNonEmptyString (Some (JStr s))" "i = str ''/providers/'' @ encodeJsonPointerToken k @ str ''/apiKey''"
    by (rule apiKeySite_ref)
  with assms(1) have "x' = JObj (objSet kvs (str ''apiKey'') (fileRef (providerPointer k)))"
    by (auto simp: migrateProvider_def Let_def isSecretRef_def split: sum.splits)
  with x show ?thesis
    by (simp add: getProp_def map_of_objSet providerPointer_def)
qed

lemma migrateSkillEntry_ref:
  assumes "migrateSkillEntry k x st = Inr (x', st')"
    and "apiKeySite (str ''/skills/entries/'') k x = [(i, v)]"
  shows "getProp (Some x') (str ''apiKey'') = Some (fileRef i)"
proof -
  from assms(2) obtain kvs s where x: "x = JObj kvs" "map_of kvs (str ''apiKey'') = Some (JStr s)"
    "isNonEmptyString (Some (JStr s))"
    "i = str ''/skills/entries/'' @ encodeJsonPointerToken k @ str ''/apiKey''"
    by (rule apiKeySite_ref)
  with assms(1) have "x' = JObj (objSet kvs (str ''apiKey'') (fileRef (skillPointer k)))"
    by (auto simp: migrateSkillEntry_def Let_def isSecretRef_def isRecord_def split: sum.splits)
  with x show ?thesis
    by (simp add: getProp_def map_of_objSet skillPointer_def)
qed

lemma migrateModelProviderSecrets_ref:
  assumes run: "migrateModelProviderSecrets config st = Inr (config', st')"
    and ps: "getProp (getProp (Some config) (str ''models'')) (str ''providers'') = Some (JObj es)"
    and mem: "map_of es k = Some x"
    and site: "apiKeySite (str ''/providers/'') k x = [(i, v)]"
  shows "getProp (getProp (getProp (getProp (Some config') (str ''models'')) (str ''providers'')) k)
           (str ''apiKey'') = Some (fileRef i)"
proof -
  from run ps obtain es' where
    loop: "forEntries migrateProvider es st = Inr (es', st')"
    and c: "config' = putPath config [str ''models'', str ''providers''] (JObj es')"
    by (auto simp: migrateModelProviderSecrets_def truthy_def split: sum.splits)
  from forEntries_map_of[where body = migrateProvider
      and Q = "\<lambda>k x x'. \<forall>i v. apiKeySite (str ''/providers/'') k x = [(i, v)]
                 \<longrightarrow> getProp (Some x') (str ''apiKey'') = Some (fileRef i)", OF _ loop mem]
    migrateProvider_ref site
  obtain x' where "map_of es' k = Some x'" "getProp (Some x') (str ''apiKey'') = Some (fileRef i)"
    by blast
  with getProp_putPath2[OF ps, of "JObj es'"] c show ?thesis
    by (simp add: getProp_def)
qed

lemma migrateSkillEntrySecrets_ref:
  assumes run: "migrateSkillEntrySecrets config st = Inr (config', st')"
    and ps: "getProp (getProp (Some config) (str ''skills'')) (str ''entries'') = Some (JObj es)"
    and mem: "map_of es k = Some x"
    and site: "apiKeySite (str ''/skills/entries/'') k x = [(i, v)]"
  shows "getProp (getProp (getProp (getProp (Some config') (str ''skills'')) (str ''entries'')) k)
           (str ''apiKey'') = Some (fileRef i)"
proof -
  from run ps obtain es' where
    loop: "forEntries migrateSkillEntry es st = Inr (es', st')"
    and c: "config' = putPath config [str ''skills'', str ''entries''] (JObj es')"
    by (auto simp: migrateSkillEntrySecrets_def truthy_def split: sum.splits)
  from forEntries_map_of[where body = migrateSkillEntry
      and Q = "\<lambda>k x x'. \<forall>i v. apiKeySite (str ''/skills/entries/'') k x = [(i, v)]
                 \<longrightarrow> getProp (Some x') (str ''apiKey'') = Some (fileRef i)", OF _ loop mem]
    migrateSkillEntry_ref site
  obtain x' where "map_of es' k = Some x'" "getProp (Some x') (str ''apiKey'') = Some (fileRef i)"
    by blast
  with getProp_putPath2[OF ps, of "JObj es'"] c show ?thesis
    by (simp add: getProp_def)
qed

lemma ref_neqs:
  "str ''serviceAccountRef'' \<noteq> str ''serviceAccount''"
  "str ''accounts'' \<noteq> str ''serviceAccount''" "str ''accounts'' \<noteq> str ''serviceAccountRef''"
  "str ''keyRef'' \<noteq> str ''key''" "str ''tokenRef'' \<noteq> str ''token''"
  by (simp_all add: str_def)

lemma migrateGoogleChatServiceAccount_ref:
  assumes "migrateGoogleChatServiceAccount account pointerId st = Inr (account', st')"
    and "serviceAccountSite pointerId (JObj account) = [(i, v)]"
  shows "map_of account' (str ''serviceAccountRef'') = Some (fileRef i) \<and>
         map_of account' (str ''serviceAccount'') = None"
proof -
  from assms(2) have n: "\<not> isSecretRef (map_of account (str ''serviceAccountRef''))"
    "\<not> isSecretRef (map_of account (str ''serviceAccount''))"
    and i: "i = pointerId @ str ''/serviceAccount''"
    and h: "isNonEmptyString (map_of account (str ''serviceAccount'')) \<or>
            (isRecord (map_of account (str ''serviceAccount'')) \<and>
             hasKeys (map_of account (str ''serviceAccount'')))"
    unfolding serviceAccountSite_def getProp_def Let_def
    by (auto simp: isRecord_def split: if_splits option.splits json.splits)
  from h obtain x where x: "map_of account (str ''serviceAccount'') = Some x"
    by (cases "map_of account (str ''serviceAccount'')") (auto simp: isNonEmptyString_def isRecord_def)
  from assms(1) n h x have
    "account' = objDelete (objSet account (str ''serviceAccountRef'') (fileRef i))
                  (str ''serviceAccount'')"
    unfolding migrateGoogleChatServiceAccount_def Let_def i
    by (auto split: sum.splits)
  then show ?thesis
    by (simp add: map_of_objDelete map_of_objSet ref_neqs)
qed

lemma migrateGoogleChatAccount_ref:
  assumes "migrateGoogleChatAccount k x st = Inr (x', st')"
    and "serviceAccountSite (str ''/channels/googlechat/accounts/'' @ encodeJsonPointerToken k) x
           = [(i, v)]"
  shows "getProp (Some x') (str ''serviceAccountRef'') = Some (fileRef i) \<and>
         getProp (Some x') (str ''serviceAccount'') = None"
proof (cases "\<exists>account. x = JObj account")
  case True
  then obtain account where x: "x = JObj account" by blast
  with assms(1) obtain account' where
    m: "migrateGoogleChatServiceAccount account (googleChatAccountPointer k) st = Inr (account', st')"
    and x': "x' = JObj account'"
    by (auto simp: migrateGoogleChatAccount_def split: sum.splits)
  from migrateGoogleChatServiceAccount_ref[OF m] assms(2) x x' show ?thesis
    by (simp add: googleChatAccountPointer_def getProp_def)
next
  case False
  then have "serviceAccountSite (str ''/channels/googlechat/accounts/'' @ encodeJsonPointerToken k) x = []"
    by (cases x) (auto simp: serviceAccountSite_not_object)
  with assms(2) show ?thesis by simp
qed

lemma migrateGoogleChatSecrets_ref:
  assumes run: "migrateGoogleChatSecrets config st = Inr (config', st')"
    and g: "getProp (getProp (Some config) (str ''channels'')) (str ''googlechat'') = Some g"
  shows "(\<forall>i v. serviceAccountSite (str ''/channels/googlechat'') g = [(i, v)] \<longrightarrow>
            getProp (getProp (getProp (Some config') (str ''channels'')) (str ''googlechat''))
              (str ''serviceAccountRef'') = Some (fileRef i) \<and>
            getProp (getProp (getProp (Some config') (str ''channels'')) (str ''googlechat''))
              (str ''serviceAccount'') = None) \<and>
         (\<forall>accounts k a i v.
            getProp (Some g) (str ''accounts'') = Some (JObj accounts) \<and> map_of accounts k = Some a \<and>
            serviceAccountSite (str ''/channels/googlechat/accounts/'' @ encodeJsonPointerToken k) a
              = [(i, v)] \<longrightarrow>
            getProp (getProp (getProp (getProp (getProp (Some config') (str ''channels''))
              (str ''googlechat'')) (str ''accounts'')) k) (str ''serviceAccountRef'')
              = Some (fileRef i) \<and>
            getProp (getProp (getProp (getProp (getProp (Some config') (str ''channels''))
              (str ''googlechat'')) (str ''accounts'')) k) (str ''serviceAccount'') = None)"
proof (cases "\<exists>googlechat. g = JObj googlechat")
  case False
  then have "serviceAccountSite (str ''/channels/googlechat'') g = []"
    "getProp (Some g) (str ''accounts'') = None"
    by (cases g; auto simp: serviceAccountSite_not_object getProp_def)+
  then show ?thesis by simp
next
  case True
  then obtain googlechat where gj: "g = JObj googlechat" by blast
  with run g obtain googlechat' st1 where
    top: "migrateGoogleChatServiceAccount googlechat (str ''/channels/googlechat'') st
            = Inr (googlechat', st1)"
    and rest: "(case map_of googlechat' (str ''accounts'') of
                  Some (JObj accounts) \<Rightarrow>
                    (case forEntries migrateGoogleChatAccount accounts st1 of
                       Inl e \<Rightarrow> Inl e
                     | Inr (accounts', st'') \<Rightarrow>
                         Inr (putPath config [str ''channels'', str ''googlechat'']
                                (JObj (objSet googlechat' (str ''accounts'') (JObj accounts'))),
                              st''))
                | _ \<Rightarrow>
                    Inr (putPath config [str ''channels'', str ''googlechat''] (JObj googlechat'),
                         st1)) = Inr (config', st')"
    by (auto simp: migrateGoogleChatSecrets_def split: sum.splits)
  note a = migrateGoogleChatServiceAccount_accounts[OF top]
  note t = migrateGoogleChatServiceAccount_ref[OF top]
  show ?thesis
  proof (cases "\<exists>accounts. map_of googlechat (str ''accounts'') = Some (JObj accounts)")
    case False
    with rest a have c: "config' = putPath config [str ''channels'', str ''googlechat''] (JObj googlechat')"
      by (auto split: option.splits json.splits)
    have gc': "getProp (getProp (Some config') (str ''channels'')) (str ''googlechat'')
                 = Some (JObj googlechat')"
      unfolding c by (rule getProp_putPath2[OF g])
    from False gj t show ?thesis
      unfolding gc' by (auto simp: getProp_def)
  next
    case True
    then obtain accounts where ac: "map_of googlechat (str ''accounts'') = Some (JObj accounts)"
      by blast
    with rest a obtain accounts' where
      loop: "forEntries migrateGoogleChatAccount accounts st1 = Inr (accounts', st')"
      and c: "config' = putPath config [str ''channels'', str ''googlechat'']
                (JObj (objSet googlechat' (str ''accounts'') (JObj accounts')))"
      by (auto split: sum.splits)
    have gc': "getProp (getProp (Some config') (str ''channels'')) (str ''googlechat'')
                 = Some (JObj (objSet googlechat' (str ''accounts'') (JObj accounts')))"
      unfolding c by (rule getProp_putPath2[OF g])
    have 1: "serviceAccountSite (str ''/channels/googlechat'') g = [(i, v)] \<Longrightarrow>
            getProp (getProp (getProp (Some config') (str ''channels'')) (str ''googlechat''))
              (str ''serviceAccountRef'') = Some (fileRef i) \<and>
            getProp (getProp (getProp (Some config') (str ''channels'')) (str ''googlechat''))
              (str ''serviceAccount'') = None" for i v
      using t[of i v] gj
      unfolding gc' by (simp add: getProp_def map_of_objSet ref_neqs[symmetric])
    have 2: "getProp (getProp (getProp (getProp (getProp (Some config') (str ''channels''))
              (str ''googlechat'')) (str ''accounts'')) k) (str ''serviceAccountRef'')
              = Some (fileRef i) \<and>
            getProp (getProp (getProp (getProp (getProp (Some config') (str ''channels''))
              (str ''googlechat'')) (str ''accounts'')) k) (str ''serviceAccount'') = None"
      if m: "map_of accounts k = Some a"
        and s: "serviceAccountSite (str ''/channels/googlechat/accounts/'' @ encodeJsonPointerToken k) a
              = [(i, v)]" for k a i v
    proof -
      from forEntries_map_of[where body = migrateGoogleChatAccount
          and Q = "\<lambda>k x x'. \<forall>i v. serviceAccountSite
                     (str ''/channels/googlechat/accounts/'' @ encodeJsonPointerToken k) x = [(i, v)]
                 \<longrightarrow> getProp (Some x') (str ''serviceAccountRef'') = Some (fileRef i) \<and>
                     getProp (Some x') (str ''serviceAccount'') = None", OF _ loop m]
        migrateGoogleChatAccount_ref s
      obtain x' where "map_of accounts' k = Some x'"
        "getProp (Some x') (str ''serviceAccountRef'') = Some (fileRef i) \<and>
         getProp (Some x') (str ''serviceAccount'') = None"
        by blast
      then show ?thesis
        unfolding gc' by (simp add: getProp_def map_of_objSet)
    qed
    show ?thesis
    proof (rule conjI; intro allI impI)
      fix i v
      assume "serviceAccountSite (str ''/channels/googlechat'') g = [(i, v)]"
      then show "getProp (getProp (getProp (Some config') (str ''channels'')) (str ''googlechat''))
              (str ''serviceAccountRef'') = Some (fileRef i) \<and>
            getProp (getProp (getProp (Some config') (str ''channels'')) (str ''googlechat''))
              (str ''serviceAccount'') = None"
        by (rule 1)
    next
      fix accs k a i v
      assume h: "getProp (Some g) (str ''accounts'') = Some (JObj accs) \<and> map_of accs k = Some a \<and>
            serviceAccountSite (str ''/channels/googlechat/accounts/'' @ encodeJsonPointerToken k) a
              = [(i, v)]"
      with ac gj have "map_of accounts k = Some a" by (simp add: getProp_def)
      from 2[OF this] h
      show "getProp (getProp (getProp (getProp (getProp (Some config') (str ''channels''))
              (str ''googlechat'')) (str ''accounts'')) k) (str ''serviceAccountRef'')
              = Some (fileRef i) \<and>
            getProp (getProp (getProp (getProp (getProp (Some config') (str ''channels''))
              (str ''googlechat'')) (str ''accounts'')) k) (str ''serviceAccount'') = None"
        by blast
    qed
  qed
qed

lemma profileSite_cases:
  assumes "profileSite scope profileId x = [(i, v)]" "profileFields x = Some (f, r)"
  obtains pv s where "x = JObj pv" "\<not> isSecretRef (map_of pv r)" "map_of pv f = Some (JStr s)"
    "isNonEmptyString (Some (JStr s))" "trim s \<noteq> []"
    "i = str ''/auth-profiles/'' @ encodeJsonPointerToken scope @ str ''/'' @
         encodeJsonPointerToken profileId @ str ''/'' @ f"
    "(map_of pv (str ''type'') = Some (JStr (str ''api_key'')) \<and> f = str ''key'' \<and> r = str ''keyRef'') \<or>
     (map_of pv (str ''type'') \<noteq> Some (JStr (str ''api_key'')) \<and>
      map_of pv (str ''type'') = Some (JStr (str ''token'')) \<and> f = str ''token'' \<and> r = str ''tokenRef'')"
proof -
  from assms(2) obtain pv where x: "x = JObj pv"
    by (cases x) (auto simp: profileFields_def getProp_def)
  from assms x that show thesis
    unfolding profileSite_def profileFields_def getProp_def
    by (auto split: if_splits option.splits json.splits)
qed

lemma migrateProfileField_ref:
  assumes "migrateProfileField field refField scope profileId pv cst = Inr (pv', cst')"
    and "\<not> isSecretRef (map_of pv refField)" "map_of pv field = Some (JStr s)"
    and "isNonEmptyString (Some (JStr s))" "trim s \<noteq> []" "refField \<noteq> field"
  shows "map_of pv' refField = Some (fileRef (authProfilePointer scope profileId field)) \<and>
         map_of pv' field = None \<and> fst cst'"
proof -
  from assms have "pv' = objDelete (objSet pv refField (fileRef (authProfilePointer scope profileId field))) field"
    "fst cst'"
    unfolding migrateProfileField_def Let_def
    by (auto split: sum.splits)
  with assms(6) show ?thesis
    by (simp add: map_of_objDelete map_of_objSet)
qed

lemma migrateProfile_ref:
  assumes run: "migrateProfile scope profileId x cst = Inr (x', cst')"
    and site: "profileSite scope profileId x = [(i, v)]" "profileFields x = Some (f, r)"
  shows "getProp (Some x') r = Some (fileRef i) \<and> getProp (Some x') f = None \<and> fst cst'"
proof -
  from site obtain pv s where x: "x = JObj pv" "\<not> isSecretRef (map_of pv r)"
    "map_of pv f = Some (JStr s)" "isNonEmptyString (Some (JStr s))" "trim s \<noteq> []"
    and i: "i = str ''/auth-profiles/'' @ encodeJsonPointerToken scope @ str ''/'' @
         encodeJsonPointerToken profileId @ str ''/'' @ f"
    and t: "(map_of pv (str ''type'') = Some (JStr (str ''api_key'')) \<and> f = str ''key'' \<and> r = str ''keyRef'') \<or>
     (map_of pv (str ''type'') \<noteq> Some (JStr (str ''api_key'')) \<and>
      map_of pv (str ''type'') = Some (JStr (str ''token'')) \<and> f = str ''token'' \<and> r = str ''tokenRef'')"
    by (rule profileSite_cases)
  from t have rf: "r \<noteq> f" by (auto simp: str_def)
  from run x(1) t obtain pv' where
    m: "migrateProfileField f r scope profileId pv cst = Inr (pv', cst')" and x': "x' = JObj pv'"
    by (auto simp: migrateProfile_def split: sum.splits)
  from migrateProfileField_ref[OF m x(2,3,4,5) rf] x' i show ?thesis
    by (simp add: getProp_def authProfilePointer_def)
qed

lemma migrateProfileField_flag:
  "migrateProfileField field refField scope profileId pv cst = Inr (pv', cst') \<Longrightarrow>
   fst cst \<Longrightarrow> fst cst'"
  unfolding migrateProfileField_def Let_def
  by (auto split: if_splits sum.splits)

lemma migrateProfile_flag:
  "migrateProfile scope profileId x cst = Inr (x', cst') \<Longrightarrow> fst cst \<Longrightarrow> fst cst'"
  unfolding migrateProfile_def
  by (auto dest: migrateProfileField_flag split: json.splits if_splits sum.splits)

lemma migrateAuthStoreSecrets_ref:
  assumes run: "migrateAuthStoreSecrets store scope st = Inr (store', c, st')"
    and ps: "map_of store (str ''profiles'') = Some (JObj profiles)"
    and mem: "map_of profiles profileId = Some x"
    and site: "profileSite scope profileId x = [(i, v)]" "profileFields x = Some (f, r)"
  shows "c \<and>
         getProp (getProp (getProp (Some (JObj store')) (str ''profiles'')) profileId) r
           = Some (fileRef i) \<and>
         getProp (getProp (getProp (Some (JObj store')) (str ''profiles'')) profileId) f = None"
proof -
  from run ps obtain profiles' where
    loop: "forEntries (migrateProfile scope) profiles (False, st) = Inr (profiles', c, st')"
    and s': "store' = objSet store (str ''profiles'') (JObj profiles')"
    by (auto simp: migrateAuthStoreSecrets_def split: sum.splits)
  from forEntries_map_of[where body = "migrateProfile scope"
      and Q = "\<lambda>k x x'. \<forall>i v f r. profileSite scope k x = [(i, v)] \<and> profileFields x = Some (f, r)
                 \<longrightarrow> getProp (Some x') r = Some (fileRef i) \<and> getProp (Some x') f = None",
      OF _ loop mem]
    migrateProfile_ref site
  obtain x' where x': "map_of profiles' profileId = Some x'"
    "getProp (Some x') r = Some (fileRef i) \<and> getProp (Some x') f = None"
    by blast
  from mem have "(profileId, x) \<in> set profiles" by (rule map_of_SomeD)
  from forEntries_member[where body = "migrateProfile scope" and R = "\<lambda>s s'. fst s \<longrightarrow> fst s'",
      OF _ _ _ loop this]
    migrateProfile_flag
  obtain s1 xa s2 where "migrateProfile scope profileId x s1 = Inr (xa, s2)" "fst s2 \<longrightarrow> fst (c, st')"
    by blast
  with migrateProfile_ref[OF _ site] have c by auto
  with x' s' show ?thesis
    by (simp add: getProp_def map_of_objSet)
qed

lemma authStoreStep_ref:
  assumes run: "authStoreStep pe p (chs, st) = Inr (chs', st')"
    and fl: "pe_fs pe p = File raw" "pe_jsonParse pe raw = Inr store"
    and ps: "getProp (Some store) (str ''profiles'') = Some (JObj profiles)"
    and mem: "map_of profiles profileId = Some x"
    and site: "profileSite (pe_authStoreScope pe p) profileId x = [(i, v)]"
      "profileFields x = Some (f, r)"
  shows "\<exists>ch \<in> set chs'. asc_path ch = p \<and>
           getProp (getProp (getProp (Some (asc_nextStore ch)) (str ''profiles'')) profileId) r
             = Some (fileRef i) \<and>
           getProp (getProp (getProp (Some (asc_nextStore ch)) (str ''profiles'')) profileId) f = None"
proof -
  from ps obtain kvs where s: "store = JObj kvs" "map_of kvs (str ''profiles'') = Some (JObj profiles)"
    by (cases store) (auto simp: getProp_def)
  from run fl s obtain store' c where
    m: "migrateAuthStoreSecrets kvs (pe_authStoreScope pe p) st = Inr (store', c, st')"
    and ch: "chs' = (if c then chs @ [\<lparr>asc_path = p, asc_nextStore = JObj store'\<rparr>] else chs)"
    unfolding authStoreStep_def existsSync_def readFileSync_def
    by (auto split: sum.splits if_splits)
  from migrateAuthStoreSecrets_ref[OF m s(2) mem site] ch show ?thesis
    by auto
qed

lemma authStoreStep_keeps:
  assumes "authStoreStep pe p (chs, st) = Inr (chs', st')"
  shows "set chs \<subseteq> set chs'"
  using authStoreStep_cases[OF assms] by auto

lemma authStoreLoop_keeps:
  "authStoreLoop pe ps (chs, st) = Inr (chs', st') \<Longrightarrow> set chs \<subseteq> set chs'"
proof (induction ps arbitrary: chs st)
  case Nil
  then show ?case by simp
next
  case (Cons p ps)
  then obtain c1 s1 where 1: "authStoreStep pe p (chs, st) = Inr (c1, s1)"
    and 2: "authStoreLoop pe ps (c1, s1) = Inr (chs', st')"
    by (auto split: sum.splits)
  from authStoreStep_keeps[OF 1] Cons.IH[OF 2] show ?case by blast
qed

lemma authStoreLoop_ref:
  assumes run: "authStoreLoop pe ps (chs, st) = Inr (chs', st')"
    and p: "p \<in> set ps"
    and fl: "pe_fs pe p = File raw" "pe_jsonParse pe raw = Inr store"
    and prof: "getProp (Some store) (str ''profiles'') = Some (JObj profiles)"
    and mem: "map_of profiles profileId = Some x"
    and site: "profileSite (pe_authStoreScope pe p) profileId x = [(i, v)]"
      "profileFields x = Some (f, r)"
  shows "\<exists>ch \<in> set chs'. asc_path ch = p \<and>
           getProp (getProp (getProp (Some (asc_nextStore ch)) (str ''profiles'')) profileId) r
             = Some (fileRef i) \<and>
           getProp (getProp (getProp (Some (asc_nextStore ch)) (str ''profiles'')) profileId) f = None"
  using run p
proof (induction ps arbitrary: chs st)
  case Nil
  then show ?case by simp
next
  case (Cons q qs)
  then obtain c1 s1 where 1: "authStoreStep pe q (chs, st) = Inr (c1, s1)"
    and 2: "authStoreLoop pe qs (c1, s1) = Inr (chs', st')"
    by (auto split: sum.splits)
  show ?case
  proof (cases "p = q")
    case True
    from authStoreStep_ref[OF 1[folded True] fl prof mem site] authStoreLoop_keeps[OF 2]
    show ?thesis by blast
  next
    case False
    with Cons.prems(2) have "p \<in> set qs" by simp
    from Cons.IH[OF 2 this] show ?thesis .
  qed
qed

lemma synthesizeFileSource_other:
  assumes "synthesizeFileSource config p = Inr config'" "k \<noteq> str ''secrets''"
  shows "getProp (Some config') k = getProp (Some config) k"
  using assms unfolding synthesizeFileSource_def
  by (auto simp: getProp_def map_of_objSet split: json.splits sum.splits)

text \<open>What the members \<open>models\<close>, \<open>skills\<close> and \<open>channels\<close> of the next config are.\<close>

lemma plan_config_members:
  assumes "buildMigrationPlan pe = Inr plan"
  obtains payload0 config1 st1 config2 st2 config3 st3 st where
    "decryptSopsJson pe (fs_path (resolveFileSource pe (pe_snapshotConfig pe)))
       (fs_timeoutMs (resolveFileSource pe (pe_snapshotConfig pe)))
       (resolveExistingSopsConfigPath pe) = Inr payload0"
    "runMigrations pe (pe_snapshotConfig pe) payload0 = Inr (config3, authStoreChanges plan, st)"
    "migrateModelProviderSecrets (pe_snapshotConfig pe)
       \<lparr>st_payload = payload0, st_counters = zeroCounters, st_migratedValues = {}\<rparr>
       = Inr (config1, st1)"
    "migrateSkillEntrySecrets config1 st1 = Inr (config2, st2)"
    "migrateGoogleChatSecrets config2 st2 = Inr (config3, st3)"
    "authStoreLoop pe (pe_authStorePaths pe) ([], st3) = Inr (authStoreChanges plan, st)"
    "getProp (Some (nextConfig plan)) (str ''models'') = getProp (Some config1) (str ''models'')"
    "getProp (Some (nextConfig plan)) (str ''skills'') = getProp (Some config2) (str ''skills'')"
    "getProp (Some (nextConfig plan)) (str ''channels'') = getProp (Some config3) (str ''channels'')"
    "getProp (Some config1) (str ''skills'') = getProp (Some (pe_snapshotConfig pe)) (str ''skills'')"
    "getProp (Some config2) (str ''channels'')
       = getProp (Some (pe_snapshotConfig pe)) (str ''channels'')"
    "nextPayload plan = st_payload st"
    "secretsWritten (counters plan) = secretsWritten (st_counters st)"
proof -
  from assms obtain payload0 config3 st config4 where
    d: "decryptSopsJson pe (fs_path (resolveFileSource pe (pe_snapshotConfig pe)))
       (fs_timeoutMs (resolveFileSource pe (pe_snapshotConfig pe)))
       (resolveExistingSopsConfigPath pe) = Inr payload0"
    and r: "runMigrations pe (pe_snapshotConfig pe) payload0 = Inr (config3, authStoreChanges plan, st)"
    and s: "(if secretsWritten (st_counters st) > 0 \<and>
         \<not> hadConfiguredSource (resolveFileSource pe (pe_snapshotConfig pe))
      then synthesizeFileSource config3 (resolveDefaultSecretsConfigPath pe)
      else Inr config3) = Inr config4"
    and n: "nextConfig plan = config4"
    and np: "nextPayload plan = st_payload st"
    and w: "secretsWritten (counters plan) = secretsWritten (st_counters st)"
    by (rule buildMigrationPlan_Inr)
  from r obtain config1 st1 config2 st2 st3 where
    1: "migrateModelProviderSecrets (pe_snapshotConfig pe)
       \<lparr>st_payload = payload0, st_counters = zeroCounters, st_migratedValues = {}\<rparr>
       = Inr (config1, st1)"
    and 2: "migrateSkillEntrySecrets config1 st1 = Inr (config2, st2)"
    and 3: "migrateGoogleChatSecrets config2 st2 = Inr (config3, st3)"
    and 4: "authStoreLoop pe (pe_authStorePaths pe) ([], st3) = Inr (authStoreChanges plan, st)"
    by (rule runMigrations_Inr)
  have o: "getProp (Some config4) k = getProp (Some config3) k" if "k \<noteq> str ''secrets''" for k
    using s synthesizeFileSource_other[OF _ that] by (auto split: if_splits)
  have m: "getProp (Some (nextConfig plan)) (str ''models'') = getProp (Some config1) (str ''models'')"
    using o[OF key_neqs2(6)] migrateGoogleChatSecrets_other[OF 3 key_neqs2(4)]
      migrateSkillEntrySecrets_other[OF 2 key_neqs2(3)] n by simp
  have k: "getProp (Some (nextConfig plan)) (str ''skills'') = getProp (Some config2) (str ''skills'')"
    using o[OF key_neqs2(7)] migrateGoogleChatSecrets_other[OF 3 key_neqs2(5)] n by simp
  have c: "getProp (Some (nextConfig plan)) (str ''channels'') = getProp (Some config3) (str ''channels'')"
    using o[OF key_neqs2(8)] n by simp
  have s1: "getProp (Some config1) (str ''skills'') = getProp (Some (pe_snapshotConfig pe)) (str ''skills'')"
    by (rule migrateModelProviderSecrets_other[OF 1 key_neqs(4)])
  have c2: "getProp (Some config2) (str ''channels'')
       = getProp (Some (pe_snapshotConfig pe)) (str ''channels'')"
    using migrateModelProviderSecrets_other[OF 1 key_neqs2(1)]
      migrateSkillEntrySecrets_other[OF 2 key_neqs2(2)] by simp
  show thesis
    by (rule that[OF d r 1 2 3 4 m k c s1 c2 np w])
qed

text \<open>
  C3. When planning succeeds, the payload and the \<open>secretsWritten\<close> counter of the plan
  are what the rule of the specification gives when it is applied, from the decrypted
  payload and zero, to the sites that planning migrates, one after the other: at each
  site the payload is set at the site's pointer and the counter is incremented exactly
  when the value stored at that pointer is not deeply equal to the trimmed or cloned
  value, and neither happens when it is equal. Whether or not the payload was written,
  every site is rewritten: a provider or skill \<open>apiKey\<close> is the reference to the site's
  pointer, a Google Chat account has that reference as \<open>serviceAccountRef\<close> and no
  \<open>serviceAccount\<close>, and the auth store is among the changes with the reference as
  \<open>keyRef\<close> or \<open>tokenRef\<close> and without \<open>key\<close> or \<open>token\<close>.
\<close>

theorem secretsWritten_iff_value_differs:
  assumes "buildMigrationPlan pe = Inr plan"
  shows
    "(\<exists>previousPayload.
        decryptSopsJson pe (fs_path (resolveFileSource pe (pe_snapshotConfig pe)))
          (fs_timeoutMs (resolveFileSource pe (pe_snapshotConfig pe)))
          (resolveExistingSopsConfigPath pe) = Inr previousPayload \<and>
        spec_writeSites (migratedSites pe) (previousPayload, 0)
          = Inr (nextPayload plan, secretsWritten (counters plan))) \<and>
     (\<forall>es k x i v.
        getProp (getProp (Some (pe_snapshotConfig pe)) (str ''models'')) (str ''providers'')
          = Some (JObj es) \<and>
        map_of es k = Some x \<and> apiKeySite (str ''/providers/'') k x = [(i, v)] \<longrightarrow>
        getProp (getProp (getProp (getProp (Some (nextConfig plan)) (str ''models''))
          (str ''providers'')) k) (str ''apiKey'') = Some (fileRef i)) \<and>
     (\<forall>es k x i v.
        getProp (getProp (Some (pe_snapshotConfig pe)) (str ''skills'')) (str ''entries'')
          = Some (JObj es) \<and>
        map_of es k = Some x \<and> apiKeySite (str ''/skills/entries/'') k x = [(i, v)] \<longrightarrow>
        getProp (getProp (getProp (getProp (Some (nextConfig plan)) (str ''skills''))
          (str ''entries'')) k) (str ''apiKey'') = Some (fileRef i)) \<and>
     (\<forall>g i v.
        getProp (getProp (Some (pe_snapshotConfig pe)) (str ''channels'')) (str ''googlechat'')
          = Some g \<and>
        serviceAccountSite (str ''/channels/googlechat'') g = [(i, v)] \<longrightarrow>
        getProp (getProp (getProp (Some (nextConfig plan)) (str ''channels'')) (str ''googlechat''))
          (str ''serviceAccountRef'') = Some (fileRef i) \<and>
        getProp (getProp (getProp (Some (nextConfig plan)) (str ''channels'')) (str ''googlechat''))
          (str ''serviceAccount'') = None) \<and>
     (\<forall>g accounts k a i v.
        getProp (getProp (Some (pe_snapshotConfig pe)) (str ''channels'')) (str ''googlechat'')
          = Some g \<and>
        getProp (Some g) (str ''accounts'') = Some (JObj accounts) \<and> map_of accounts k = Some a \<and>
        serviceAccountSite (str ''/channels/googlechat/accounts/'' @ encodeJsonPointerToken k) a
          = [(i, v)] \<longrightarrow>
        getProp (getProp (getProp (getProp (getProp (Some (nextConfig plan)) (str ''channels''))
          (str ''googlechat'')) (str ''accounts'')) k) (str ''serviceAccountRef'')
          = Some (fileRef i) \<and>
        getProp (getProp (getProp (getProp (getProp (Some (nextConfig plan)) (str ''channels''))
          (str ''googlechat'')) (str ''accounts'')) k) (str ''serviceAccount'') = None) \<and>
     (\<forall>p raw store profiles profileId x i v f r.
        p \<in> set (pe_authStorePaths pe) \<and> pe_fs pe p = File raw \<and>
        pe_jsonParse pe raw = Inr store \<and>
        getProp (Some store) (str ''profiles'') = Some (JObj profiles) \<and>
        map_of profiles profileId = Some x \<and>
        profileSite (pe_authStoreScope pe p) profileId x = [(i, v)] \<and>
        profileFields x = Some (f, r) \<longrightarrow>
        (\<exists>ch \<in> set (authStoreChanges plan). asc_path ch = p \<and>
           getProp (getProp (getProp (Some (asc_nextStore ch)) (str ''profiles'')) profileId) r
             = Some (fileRef i) \<and>
           getProp (getProp (getProp (Some (asc_nextStore ch)) (str ''profiles'')) profileId) f
             = None))"
proof -
  let ?c0 = "pe_snapshotConfig pe"
  from assms obtain payload0 config1 st1 config2 st2 config3 st3 st where
    d: "decryptSopsJson pe (fs_path (resolveFileSource pe ?c0))
       (fs_timeoutMs (resolveFileSource pe ?c0))
       (resolveExistingSopsConfigPath pe) = Inr payload0"
    and r: "runMigrations pe ?c0 payload0 = Inr (config3, authStoreChanges plan, st)"
    and 1: "migrateModelProviderSecrets ?c0
       \<lparr>st_payload = payload0, st_counters = zeroCounters, st_migratedValues = {}\<rparr>
       = Inr (config1, st1)"
    and 2: "migrateSkillEntrySecrets config1 st1 = Inr (config2, st2)"
    and 3: "migrateGoogleChatSecrets config2 st2 = Inr (config3, st3)"
    and 4: "authStoreLoop pe (pe_authStorePaths pe) ([], st3) = Inr (authStoreChanges plan, st)"
    and m: "getProp (Some (nextConfig plan)) (str ''models'') = getProp (Some config1) (str ''models'')"
    and k: "getProp (Some (nextConfig plan)) (str ''skills'') = getProp (Some config2) (str ''skills'')"
    and c: "getProp (Some (nextConfig plan)) (str ''channels'') = getProp (Some config3) (str ''channels'')"
    and s1: "getProp (Some config1) (str ''skills'') = getProp (Some ?c0) (str ''skills'')"
    and c2: "getProp (Some config2) (str ''channels'') = getProp (Some ?c0) (str ''channels'')"
    and np: "nextPayload plan = st_payload st"
    and w: "secretsWritten (counters plan) = secretsWritten (st_counters st)"
    by (rule plan_config_members)
  have fold: "spec_writeSites (migratedSites pe) (payload0, 0)
          = Inr (nextPayload plan, secretsWritten (counters plan))"
    using runMigrations_sites[OF r] np w by (simp add: migratedSites_def)
  show ?thesis
  proof (intro conjI allI impI; (elim conjE)?)
    from d fold show "\<exists>previousPayload.
        decryptSopsJson pe (fs_path (resolveFileSource pe ?c0))
          (fs_timeoutMs (resolveFileSource pe ?c0))
          (resolveExistingSopsConfigPath pe) = Inr previousPayload \<and>
        spec_writeSites (migratedSites pe) (previousPayload, 0)
          = Inr (nextPayload plan, secretsWritten (counters plan))"
      by blast
  next
    fix es k x i v
    assume "getProp (getProp (Some ?c0) (str ''models'')) (str ''providers'') = Some (JObj es)"
      "map_of es k = Some x" "apiKeySite (str ''/providers/'') k x = [(i, v)]"
    from migrateModelProviderSecrets_ref[OF 1 this]
    show "getProp (getProp (getProp (getProp (Some (nextConfig plan)) (str ''models''))
          (str ''providers'')) k) (str ''apiKey'') = Some (fileRef i)"
      by (simp add: m)
  next
    fix es k x i v
    assume "getProp (getProp (Some ?c0) (str ''skills'')) (str ''entries'') = Some (JObj es)"
      "map_of es k = Some x" "apiKeySite (str ''/skills/entries/'') k x = [(i, v)]"
    from migrateSkillEntrySecrets_ref[OF 2 this(1)[folded s1] this(2,3)]
    show "getProp (getProp (getProp (getProp (Some (nextConfig plan)) (str ''skills''))
          (str ''entries'')) k) (str ''apiKey'') = Some (fileRef i)"
      by (simp add: k)
  next
    fix g i v
    assume g: "getProp (getProp (Some ?c0) (str ''channels'')) (str ''googlechat'') = Some g"
      and s: "serviceAccountSite (str ''/channels/googlechat'') g = [(i, v)]"
    from migrateGoogleChatSecrets_ref[OF 3 g[folded c2], THEN conjunct1, rule_format, OF s]
    show "getProp (getProp (getProp (Some (nextConfig plan)) (str ''channels'')) (str ''googlechat''))
          (str ''serviceAccountRef'') = Some (fileRef i)"
      "getProp (getProp (getProp (Some (nextConfig plan)) (str ''channels'')) (str ''googlechat''))
          (str ''serviceAccount'') = None"
      by (simp_all add: c)
  next
    fix g accounts k a i v
    assume g: "getProp (getProp (Some ?c0) (str ''channels'')) (str ''googlechat'') = Some g"
      and s: "getProp (Some g) (str ''accounts'') = Some (JObj accounts)" "map_of accounts k = Some a"
        "serviceAccountSite (str ''/channels/googlechat/accounts/'' @ encodeJsonPointerToken k) a
          = [(i, v)]"
    from migrateGoogleChatSecrets_ref[OF 3 g[folded c2], THEN conjunct2, rule_format,
        of accounts k a i v] s
    show "getProp (getProp (getProp (getProp (getProp (Some (nextConfig plan)) (str ''channels''))
          (str ''googlechat'')) (str ''accounts'')) k) (str ''serviceAccountRef'')
          = Some (fileRef i)"
      "getProp (getProp (getProp (getProp (getProp (Some (nextConfig plan)) (str ''channels''))
          (str ''googlechat'')) (str ''accounts'')) k) (str ''serviceAccount'') = None"
      by (simp_all add: c)
  next
    fix p raw store profiles profileId x i v f r
    assume "p \<in> set (pe_authStorePaths pe)" "pe_fs pe p = File raw"
      "pe_jsonParse pe raw = Inr store"
      "getProp (Some store) (str ''profiles'') = Some (JObj profiles)"
      "map_of profiles profileId = Some x"
      "profileSite (pe_authStoreScope pe p) profileId x = [(i, v)]"
      "profileFields x = Some (f, r)"
    from authStoreLoop_ref[OF 4 this]
    show "\<exists>ch \<in> set (authStoreChanges plan). asc_path ch = p \<and>
           getProp (getProp (getProp (Some (asc_nextStore ch)) (str ''profiles'')) profileId) r
             = Some (fileRef i) \<and>
           getProp (getProp (getProp (Some (asc_nextStore ch)) (str ''profiles'')) profileId) f
             = None" .
  qed
qed

lemmas example_sites_eval = example_sites_env_def example_sites_config_def example_sites_payload_def

lemmas site_eval = spec_writeSite_def migratedSites_def configSites_def entrySites_def
  apiKeySite_def serviceAccountSite_def googleChatSites_def authStoreSites_def profileSite_def
  profileFields_def

lemma example_sites_plan_ok: "\<exists>plan. buildMigrationPlan example_sites_env = Inr plan"
proof -
  have "case buildMigrationPlan example_sites_env of Inr _ \<Rightarrow> True | Inl _ \<Rightarrow> False"
    by (simp add: plan_eval migrate_eval json_eval example_eval example_sites_eval string_eval
        decryptSopsJsonFile_def configArgs_def normalizeTimeoutMs_def MAX_SOPS_OUTPUT_BYTES_def)
  then show ?thesis by (cases "buildMigrationPlan example_sites_env") auto
qed

theorem secretsWritten_iff_value_differs_witness:
  "\<exists>plan. buildMigrationPlan example_sites_env = Inr plan \<and>
     secretsWritten (counters plan) = 3 \<and>
     nextPayload plan =
       JObj [(str ''providers'', JObj [(str ''openai'', JObj [(str ''apiKey'', JStr (str ''sk-1''))])]),
             (str ''channels'',
              JObj [(str ''googlechat'',
                     JObj [(str ''accounts'',
                            JObj [(str ''a/b'',
                                   JObj [(str ''serviceAccount'',
                                          JObj [(str ''k'', JStr (str ''v''))])])]),
                           (str ''serviceAccount'', JStr (str ''sa-json''))])]),
             (str ''skills'',
              JObj [(str ''entries'', JObj [(str ''r'', JObj [(str ''apiKey'', JStr (str ''sk-2''))])])]),
             (str ''auth-profiles'',
              JObj [(str ''main'', JObj [(str ''p'', JObj [(str ''key'', JStr (str ''sk-3''))])])])] \<and>
     getProp (getProp (getProp (getProp (Some (nextConfig plan)) (str ''models''))
       (str ''providers'')) (str ''openai'')) (str ''apiKey'')
       = Some (fileRef (str ''/providers/openai/apiKey'')) \<and>
     getProp (getProp (getProp (getProp (Some (nextConfig plan)) (str ''skills''))
       (str ''entries'')) (str ''r'')) (str ''apiKey'')
       = Some (fileRef (str ''/skills/entries/r/apiKey'')) \<and>
     getProp (getProp (getProp (Some (nextConfig plan)) (str ''channels'')) (str ''googlechat''))
       (str ''serviceAccountRef'') = Some (fileRef (str ''/channels/googlechat/serviceAccount'')) \<and>
     getProp (getProp (getProp (Some (nextConfig plan)) (str ''channels'')) (str ''googlechat''))
       (str ''serviceAccount'') = None \<and>
     getProp (getProp (getProp (getProp (getProp (Some (nextConfig plan)) (str ''channels''))
       (str ''googlechat'')) (str ''accounts'')) (str ''a/b'')) (str ''serviceAccountRef'')
       = Some (fileRef (str ''/channels/googlechat/accounts/a~1b/serviceAccount'')) \<and>
     getProp (getProp (getProp (getProp (getProp (Some (nextConfig plan)) (str ''channels''))
       (str ''googlechat'')) (str ''accounts'')) (str ''a/b'')) (str ''serviceAccount'') = None \<and>
     (\<exists>ch \<in> set (authStoreChanges plan). asc_path ch = str ''/s/main.json'' \<and>
        getProp (getProp (getProp (Some (asc_nextStore ch)) (str ''profiles'')) (str ''p''))
          (str ''keyRef'') = Some (fileRef (str ''/auth-profiles/main/p/key'')) \<and>
        getProp (getProp (getProp (Some (asc_nextStore ch)) (str ''profiles'')) (str ''p''))
          (str ''key'') = None)"
proof -
  let ?e = example_sites_env
  from example_sites_plan_ok obtain plan where p: "buildMigrationPlan ?e = Inr plan" by blast
  let ?P = "JObj [(str ''providers'', JObj [(str ''openai'', JObj [(str ''apiKey'', JStr (str ''sk-1''))])]),
             (str ''channels'',
              JObj [(str ''googlechat'',
                     JObj [(str ''accounts'',
                            JObj [(str ''a/b'',
                                   JObj [(str ''serviceAccount'',
                                          JObj [(str ''k'', JStr (str ''v''))])])]),
                           (str ''serviceAccount'', JStr (str ''sa-json''))])]),
             (str ''skills'',
              JObj [(str ''entries'', JObj [(str ''r'', JObj [(str ''apiKey'', JStr (str ''sk-2''))])])]),
             (str ''auth-profiles'',
              JObj [(str ''main'', JObj [(str ''p'', JObj [(str ''key'', JStr (str ''sk-3''))])])])]"
  let ?openai = "JObj [(str ''apiKey'', JStr (str '' sk-1 ''))]"
  let ?r = "JObj [(str ''apiKey'', JStr (str ''sk-2''))]"
  let ?ab = "JObj [(str ''serviceAccount'', JObj [(str ''k'', JStr (str ''v''))])]"
  let ?accounts = "[(str ''a/b'', ?ab)]"
  let ?g = "JObj [(str ''serviceAccount'', JStr (str ''sa-json'')), (str ''accounts'', JObj ?accounts)]"
  let ?pv = "JObj [(str ''type'', JStr (str ''api_key'')), (str ''key'', JStr (str ''sk-3''))]"
  have d: "decryptSopsJson ?e (fs_path (resolveFileSource ?e (pe_snapshotConfig ?e)))
             (fs_timeoutMs (resolveFileSource ?e (pe_snapshotConfig ?e)))
             (resolveExistingSopsConfigPath ?e) = Inr example_sites_payload"
    by (simp add: plan_eval json_eval example_eval example_sites_eval string_eval existsSync_def
        decryptSopsJsonFile_def configArgs_def normalizeTimeoutMs_def MAX_SOPS_OUTPUT_BYTES_def)
  have f: "spec_writeSites (migratedSites ?e) (example_sites_payload, 0) = Inr (?P, 3)"
    by code_simp
  have h1: "getProp (getProp (Some (pe_snapshotConfig ?e)) (str ''models'')) (str ''providers'')
              = Some (JObj [(str ''openai'', ?openai)]) \<and>
            map_of [(str ''openai'', ?openai)] (str ''openai'') = Some ?openai \<and>
            apiKeySite (str ''/providers/'') (str ''openai'') ?openai
              = [(str ''/providers/openai/apiKey'', JStr (str ''sk-1''))]"
    by code_simp
  have h2: "getProp (getProp (Some (pe_snapshotConfig ?e)) (str ''skills'')) (str ''entries'')
              = Some (JObj [(str ''r'', ?r)]) \<and>
            map_of [(str ''r'', ?r)] (str ''r'') = Some ?r \<and>
            apiKeySite (str ''/skills/entries/'') (str ''r'') ?r
              = [(str ''/skills/entries/r/apiKey'', JStr (str ''sk-2''))]"
    by code_simp
  have h3: "getProp (getProp (Some (pe_snapshotConfig ?e)) (str ''channels'')) (str ''googlechat'')
              = Some ?g \<and>
            serviceAccountSite (str ''/channels/googlechat'') ?g
              = [(str ''/channels/googlechat/serviceAccount'', JStr (str ''sa-json''))]"
    by code_simp
  have h4: "getProp (Some ?g) (str ''accounts'') = Some (JObj ?accounts) \<and>
            map_of ?accounts (str ''a/b'') = Some ?ab \<and>
            serviceAccountSite
              (str ''/channels/googlechat/accounts/'' @ encodeJsonPointerToken (str ''a/b'')) ?ab
              = [(str ''/channels/googlechat/accounts/a~1b/serviceAccount'',
                  JObj [(str ''k'', JStr (str ''v''))])]"
    by code_simp
  have h5: "str ''/s/main.json'' \<in> set (pe_authStorePaths ?e) \<and>
            pe_fs ?e (str ''/s/main.json'') = File example_store_text \<and>
            pe_jsonParse ?e example_store_text = Inr (JObj [(str ''profiles'', JObj [(str ''p'', ?pv)])]) \<and>
            getProp (Some (JObj [(str ''profiles'', JObj [(str ''p'', ?pv)])])) (str ''profiles'')
              = Some (JObj [(str ''p'', ?pv)]) \<and>
            map_of [(str ''p'', ?pv)] (str ''p'') = Some ?pv \<and>
            profileSite (pe_authStoreScope ?e (str ''/s/main.json'')) (str ''p'') ?pv
              = [(str ''/auth-profiles/main/p/key'', JStr (str ''sk-3''))] \<and>
            profileFields ?pv = Some (str ''key'', str ''keyRef'')"
    by code_simp
  note t = secretsWritten_iff_value_differs[OF p]
  from t[THEN conjunct1] d f have 0: "nextPayload plan = ?P \<and> secretsWritten (counters plan) = 3"
    by auto
  have 1: "getProp (getProp (getProp (getProp (Some (nextConfig plan)) (str ''models''))
       (str ''providers'')) (str ''openai'')) (str ''apiKey'')
       = Some (fileRef (str ''/providers/openai/apiKey''))"
    using t[THEN conjunct2, THEN conjunct1, rule_format,
        of "[(str ''openai'', ?openai)]" "str ''openai''" ?openai "str ''/providers/openai/apiKey''"
          "JStr (str ''sk-1'')"] h1
    by blast
  have 2: "getProp (getProp (getProp (getProp (Some (nextConfig plan)) (str ''skills''))
       (str ''entries'')) (str ''r'')) (str ''apiKey'')
       = Some (fileRef (str ''/skills/entries/r/apiKey''))"
    using t[THEN conjunct2, THEN conjunct2, THEN conjunct1, rule_format,
        of "[(str ''r'', ?r)]" "str ''r''" ?r "str ''/skills/entries/r/apiKey''"
          "JStr (str ''sk-2'')"] h2
    by blast
  have 3: "getProp (getProp (getProp (Some (nextConfig plan)) (str ''channels'')) (str ''googlechat''))
       (str ''serviceAccountRef'') = Some (fileRef (str ''/channels/googlechat/serviceAccount'')) \<and>
     getProp (getProp (getProp (Some (nextConfig plan)) (str ''channels'')) (str ''googlechat''))
       (str ''serviceAccount'') = None"
    using t[THEN conjunct2, THEN conjunct2, THEN conjunct2, THEN conjunct1, rule_format,
        of ?g "str ''/channels/googlechat/serviceAccount''" "JStr (str ''sa-json'')"] h3
    by blast
  have 4: "getProp (getProp (getProp (getProp (getProp (Some (nextConfig plan)) (str ''channels''))
       (str ''googlechat'')) (str ''accounts'')) (str ''a/b'')) (str ''serviceAccountRef'')
       = Some (fileRef (str ''/channels/googlechat/accounts/a~1b/serviceAccount'')) \<and>
     getProp (getProp (getProp (getProp (getProp (Some (nextConfig plan)) (str ''channels''))
       (str ''googlechat'')) (str ''accounts'')) (str ''a/b'')) (str ''serviceAccount'') = None"
    using t[THEN conjunct2, THEN conjunct2, THEN conjunct2, THEN conjunct2, THEN conjunct1,
        rule_format, of ?g ?accounts "str ''a/b''" ?ab
          "str ''/channels/googlechat/accounts/a~1b/serviceAccount''"
          "JObj [(str ''k'', JStr (str ''v''))]"] h3 h4
    by blast
  have 5: "\<exists>ch \<in> set (authStoreChanges plan). asc_path ch = str ''/s/main.json'' \<and>
        getProp (getProp (getProp (Some (asc_nextStore ch)) (str ''profiles'')) (str ''p''))
          (str ''keyRef'') = Some (fileRef (str ''/auth-profiles/main/p/key'')) \<and>
        getProp (getProp (getProp (Some (asc_nextStore ch)) (str ''profiles'')) (str ''p''))
          (str ''key'') = None"
    using t[THEN conjunct2, THEN conjunct2, THEN conjunct2, THEN conjunct2, THEN conjunct2,
        rule_format, of "str ''/s/main.json''" example_store_text
          "JObj [(str ''profiles'', JObj [(str ''p'', ?pv)])]" "[(str ''p'', ?pv)]" "str ''p''" ?pv
          "str ''/auth-profiles/main/p/key''" "JStr (str ''sk-3'')" "str ''key''" "str ''keyRef''"] h5
    by blast
  from p 0 1 2 3 4 5 show ?thesis by blast
qed

end
